(* ===== verification/Prelude.thy ===== *)
theory Prelude
  imports Main "HOL-Library.AList" "HOL-Library.Sublist"
begin

text \<open>
  Shared vocabulary of the VibeClaw development: the names of the model's
  basic types, the lemma collections the component theories fill, and the
  generic facts about lists, options and association lists that several
  components use.  Nothing in this theory is specific to the repository.
\<close>

section \<open>Types of the model\<close>

text \<open>A file-system path after resolution: the list of its components.\<close>
type_synonym path = "string list"

text \<open>A URL is only ever built and compared, so it stays a string.\<close>
type_synonym url = string

section \<open>Lemma collections\<close>

text \<open>
  \<open>str_simps\<close>: evaluation rules of the JavaScript string built-ins;
  \<open>path_simps\<close>: rules of the \<open>node:path\<close> model;
  \<open>fs_simps\<close>: rules of the file-system model;
  \<open>io_simps\<close>: unfolding rules of the world-passing combinators.
\<close>

named_theorems str_simps "evaluation rules of the JavaScript string model"
named_theorems path_simps "rules of the node:path model"
named_theorems fs_simps "rules of the file-system model"
named_theorems io_simps "rules of the world-passing combinators"

section \<open>Association lists\<close>

text \<open>
  The file system is an association list from paths to nodes.  Removing a
  subtree filters by key; these are the facts about such filters.
\<close>

lemma map_of_filter_key [simp]:
  "map_of (filter (\<lambda>(k, v). P k) al) k = (if P k then map_of al k else None)"
  by (induction al) auto

lemma distinct_map_fst_filter [intro]:
  "distinct (map fst al) \<Longrightarrow> distinct (map fst (filter P al))"
  by (induction al) (auto simp: image_iff)

lemma set_update_cases:
  "(k', v') \<in> set (AList.update k v al) \<Longrightarrow> (k', v') = (k, v) \<or> (k', v') \<in> set al"
  by (induction al) (auto split: if_splits)

lemma map_of_Some_in_fst: "map_of al k = Some v \<Longrightarrow> k \<in> fst ` set al"
  by (force dest: map_of_SomeD)

section \<open>Lists\<close>

lemma butlast_eq_snoc:
  assumes "k \<noteq> []" and "butlast k = ss"
  shows "k = ss @ [last k]"
  using append_butlast_last_id [OF assms(1)] assms(2) by simp

lemma prefix_snoc_not_prefix:
  "\<not> prefix p q \<Longrightarrow> \<not> prefix (p @ [x]) q"
  by (auto simp: prefix_def)

end
