(* ===== verification/JsString.thy ===== *)
theory JsString
  imports Prelude
begin

text \<open>
  The JavaScript string built-ins the installer calls, as executable HOL
  functions on \<open>string\<close> (a list of characters): \<open>startsWith\<close>,
  \<open>includes\<close>, \<open>indexOf\<close> with a start position, and the single-character
  class filter that \<open>replace(/[^...]/g, "")\<close> performs.  JavaScript counts
  UTF-16 code units where HOL counts characters; the code only ever matches
  ASCII patterns, so both agree on every result used here.
\<close>

section \<open>startsWith and includes\<close>

text \<open>\<open>s.startsWith(p)\<close> (ECMA-262 22.1.3.23, position 0).\<close>

definition startsWith :: "string \<Rightarrow> string \<Rightarrow> bool" where
  "startsWith s p = (take (length p) s = p)"

text \<open>\<open>s.includes(p)\<close> (ECMA-262 22.1.3.8): some suffix of \<open>s\<close> starts with \<open>p\<close>.\<close>

fun js_includes :: "string \<Rightarrow> string \<Rightarrow> bool" where
  "js_includes [] p = (p = [])"
| "js_includes (c # cs) p = (startsWith (c # cs) p \<or> js_includes cs p)"

text \<open>\<open>xs.join(sep)\<close> (ECMA-262 23.1.3.18) on an array of strings.\<close>

fun js_join :: "string \<Rightarrow> string list \<Rightarrow> string" where
  "js_join sep [] = []"
| "js_join sep [x] = x"
| "js_join sep (x # y # ys) = x @ sep @ js_join sep (y # ys)"

section \<open>indexOf with a start position\<close>

text \<open>
  \<open>s.indexOf(p, pos)\<close> (ECMA-262 22.1.3.9): the position is clamped to
  \<open>[0, length s]\<close>, then the first \<open>k \<ge> pos\<close> with \<open>p\<close> at \<open>k\<close> is
  returned, or \<open>-1\<close>.  The search loop counts \<open>k\<close> upwards while \<open>p\<close> still
  fits; what decreases is \<open>length s + 1 - k\<close>.
\<close>

function index_from :: "string \<Rightarrow> string \<Rightarrow> nat \<Rightarrow> int" where
  "index_from s p k =
     (if length s < k + length p then -1
      else if startsWith (drop k s) p then int k
      else index_from s p (Suc k))"
  by pat_completeness auto
termination
  by (relation "measure (\<lambda>(s, p, k). Suc (length s) - k)") auto

declare index_from.simps [simp del]

definition indexOf :: "string \<Rightarrow> string \<Rightarrow> int \<Rightarrow> int" where
  "indexOf s p pos = index_from s p (nat (min (max pos 0) (int (length s))))"

section \<open>Removing the characters outside a class\<close>

text \<open>
  \<open>s.replace(/[^a-zA-Z0-9\-_.]/g, "")\<close>: a global regular expression that
  matches exactly one character outside the class, replaced by the empty
  string, removes every such character and keeps the others in order.
\<close>

definition in_range :: "char \<Rightarrow> char \<Rightarrow> char \<Rightarrow> bool" where
  "in_range lo hi c \<longleftrightarrow> of_char lo \<le> (of_char c :: nat) \<and> (of_char c :: nat) \<le> of_char hi"

definition skill_name_char :: "char \<Rightarrow> bool" where
  "skill_name_char c \<longleftrightarrow>
     in_range CHR ''a'' CHR ''z'' c \<or> in_range CHR ''A'' CHR ''Z'' c \<or> in_range CHR ''0'' CHR ''9'' c
     \<or> c = CHR ''-'' \<or> c = CHR ''_'' \<or> c = CHR ''.''"

definition replace_disallowed :: "string \<Rightarrow> string" where
  "replace_disallowed s = filter skill_name_char s"

section \<open>Lemmas\<close>

lemma startsWith_iff_prefix [str_simps]: "startsWith s p \<longleftrightarrow> prefix p s"
  by (auto simp: startsWith_def prefix_def) (metis append_take_drop_id)

lemma startsWith_Nil [simp]: "startsWith s []"
  by (simp add: startsWith_def)

lemma startsWith_Cons_Cons [simp]:
  "startsWith (c # cs) (d # ds) \<longleftrightarrow> c = d \<and> startsWith cs ds"
  by (simp add: startsWith_def)

lemma startsWith_Nil_Cons [simp]: "\<not> startsWith [] (d # ds)"
  by (simp add: startsWith_def)

text \<open>\<open>js_includes\<close> is the library's contiguous-sublist relation.\<close>

lemma includes_iff_sublist: "js_includes s p \<longleftrightarrow> sublist p s"
proof (induction s)
  case Nil
  then show ?case by simp
next
  case (Cons c cs)
  then show ?case
    by (auto simp: startsWith_iff_prefix sublist_Cons_right)
qed

lemma includes_append_left: "js_includes s p \<Longrightarrow> js_includes (t @ s) p"
  unfolding includes_iff_sublist sublist_def by (metis append.assoc)

lemma includes_of_startsWith: "startsWith s p \<Longrightarrow> js_includes s p"
  by (cases s) (auto simp: startsWith_def)

text \<open>What \<open>index_from\<close> returns: \<open>-1\<close> or a position at or after the start.\<close>

lemma index_from_cases:
  "index_from s p k = -1 \<or> (\<exists>j. index_from s p k = int j \<and> k \<le> j)"
proof (induction s p k rule: index_from.induct)
  case (1 s p k)
  then show ?case
    by (subst (1 2) index_from.simps) (auto simp: not_less_eq_eq)
qed

text \<open>A nonnegative result is an occurrence, and no earlier one follows the start.\<close>

lemma index_from_found:
  "index_from s p k = int j \<Longrightarrow>
     k \<le> j \<and> startsWith (drop j s) p \<and> (\<forall>i. k \<le> i \<and> i < j \<longrightarrow> \<not> startsWith (drop i s) p)"
proof (induction s p k rule: index_from.induct)
  case (1 s p k)
  show ?case
  proof (cases "length s < k + length p")
    case True
    with "1.prems" show ?thesis by (simp add: index_from.simps [of s p k])
  next
    case outer: False
    show ?thesis
    proof (cases "startsWith (drop k s) p")
      case True
      with outer "1.prems" show ?thesis by (auto simp: index_from.simps [of s p k])
    next
      case False
      with outer "1.prems" have "index_from s p (Suc k) = int j"
        by (simp add: index_from.simps [of s p k])
      with "1.IH" outer False show ?thesis
        by (metis Suc_leD le_antisym not_less_eq_eq)
    qed
  qed
qed

text \<open>\<open>-1\<close> means that no occurrence starts at or after the start.\<close>

lemma startsWith_drop_length:
  "startsWith (drop j s) p \<Longrightarrow> p \<noteq> [] \<Longrightarrow> j + length p \<le> length s"
proof -
  assume sw: "startsWith (drop j s) p" and ne: "p \<noteq> []"
  from sw have "length (take (length p) (drop j s)) = length p"
    by (simp add: startsWith_def)
  then have le: "length p \<le> length s - j" by simp
  from ne have "0 < length p" by simp
  with le show ?thesis by arith
qed

lemma index_from_neg:
  "index_from s p k = -1 \<longleftrightarrow> (\<forall>j \<ge> k. j + length p \<le> length s \<longrightarrow> \<not> startsWith (drop j s) p)"
proof (induction s p k rule: index_from.induct)
  case (1 s p k)
  show ?case
  proof (cases "length s < k + length p")
    case True
    then show ?thesis
      by (simp add: index_from.simps [of s p k])
  next
    case outer: False
    then show ?thesis
      using "1.IH" by (auto simp: index_from.simps [of s p k]) (metis Suc_leI le_neq_implies_less)
  qed
qed

end
