(* ===== verification/Path.thy ===== *)
theory Path
  imports JsString
begin

text \<open>
  The POSIX half of Node's \<open>node:path\<close> module as the installer uses it:
  \<open>path.join\<close>, \<open>path.resolve\<close> and the \<open>normalizeString\<close> routine both
  call, plus the way the operating system turns a path string into the list
  of directory entries it walks (\<open>os_path\<close>).  These are library functions,
  not code of the repository; the model follows Node's
  \<open>lib/path.js\<close> (posix): segments are split at \<open>/\<close>, empty and \<open>.\<close>
  segments vanish, \<open>..\<close> removes the segment before it, and above the
  root it is dropped for absolute paths and kept for relative ones.
\<close>

section \<open>Splitting and normalising\<close>

fun split_slash :: "string \<Rightarrow> string list" where
  "split_slash [] = [[]]"
| "split_slash (c # cs) =
     (let r = split_slash cs in if c = CHR ''/'' then [] # r else (c # hd r) # tl r)"

definition norm_seg :: "bool \<Rightarrow> string list \<Rightarrow> string \<Rightarrow> string list" where
  "norm_seg allow_up acc s =
     (if s = [] \<or> s = ''.'' then acc
      else if s = ''..'' then
        (if acc \<noteq> [] \<and> last acc \<noteq> ''..'' then butlast acc
         else if allow_up then acc @ [''..''] else acc)
      else acc @ [s])"

definition normalize_segs :: "bool \<Rightarrow> string \<Rightarrow> string list" where
  "normalize_segs allow_up p = foldl (norm_seg allow_up) [] (split_slash p)"

text \<open>\<open>normalizeString(path, allowAboveRoot)\<close>.\<close>

definition normalizeString :: "bool \<Rightarrow> string \<Rightarrow> string" where
  "normalizeString allow_up p = js_join ''/'' (normalize_segs allow_up p)"

text \<open>\<open>path.normalize(p)\<close>: a trailing separator is kept.\<close>

definition path_normalize :: "string \<Rightarrow> string" where
  "path_normalize p =
     (if p = [] then ''.''
      else
        let isAbs = (hd p = CHR ''/''); trailing = (last p = CHR ''/'');
            r = normalizeString (\<not> isAbs) p
        in if r = [] then (if isAbs then ''/'' else if trailing then ''./'' else ''.'')
           else (if isAbs then ''/'' else []) @ r @ (if trailing then ''/'' else []))"

section \<open>join and resolve\<close>

text \<open>\<open>path.join(...args)\<close>: the nonempty arguments joined by \<open>/\<close>, normalised.\<close>

definition path_join :: "string list \<Rightarrow> string" where
  "path_join args =
     (let parts = filter (\<lambda>a. a \<noteq> []) args
      in if parts = [] then ''.'' else path_normalize (js_join ''/'' parts))"

text \<open>
  \<open>path.resolve(...args)\<close>: the arguments are read from the right, each
  nonempty one prefixed to the result, until an absolute one has been used;
  the current directory is the last, implicit, argument.
\<close>

fun resolve_walk :: "string list \<Rightarrow> string \<Rightarrow> string \<times> bool" where
  "resolve_walk [] acc = (acc, False)"
| "resolve_walk (p # ps) acc =
     (if p = [] then resolve_walk ps acc
      else if hd p = CHR ''/'' then (p @ ''/'' @ acc, True)
      else resolve_walk ps (p @ ''/'' @ acc))"

definition path_resolve :: "string \<Rightarrow> string list \<Rightarrow> string" where
  "path_resolve cwd args =
     (let (r, isAbs) = resolve_walk (rev args @ [cwd]) [];
          n = normalizeString (\<not> isAbs) r
      in if isAbs then ''/'' @ n else if n = [] then ''.'' else n)"

text \<open>
  The directory entries the kernel walks for a path string handed to a
  \<open>fs\<close> call: the string is resolved against the working directory; with no
  symbolic links in the model, \<open>..\<close> is the lexical parent.
\<close>

definition os_path :: "string \<Rightarrow> string \<Rightarrow> path" where
  "os_path cwd p = normalize_segs False (path_resolve cwd [p])"

section \<open>Clean segments and clean absolute paths\<close>

text \<open>A segment that normalisation leaves alone.\<close>

definition clean_seg :: "string \<Rightarrow> bool" where
  "clean_seg s \<longleftrightarrow> s \<noteq> [] \<and> CHR ''/'' \<notin> set s \<and> s \<noteq> ''.'' \<and> s \<noteq> ''..''"

text \<open>An absolute path already in normal form, with at least one segment.\<close>

definition clean_abs :: "string \<Rightarrow> bool" where
  "clean_abs d \<longleftrightarrow>
     (case split_slash d of [] # ss \<Rightarrow> ss \<noteq> [] \<and> list_all clean_seg ss | _ \<Rightarrow> False)"

definition abs_of :: "path \<Rightarrow> string" where
  "abs_of ss = ''/'' @ js_join ''/'' ss"

definition clean_path :: "path \<Rightarrow> bool" where
  "clean_path ss \<longleftrightarrow> ss \<noteq> [] \<and> list_all clean_seg ss"

section \<open>Splitting and joining are inverse\<close>

lemma split_slash_not_Nil [simp]: "split_slash s \<noteq> []"
  by (induction s) (auto simp: Let_def)

lemma split_slash_no_slash: "CHR ''/'' \<notin> set a \<Longrightarrow> split_slash a = [a]"
  by (induction a) (auto simp: Let_def)

lemma split_slash_append_slash:
  "split_slash (a @ CHR ''/'' # b) = split_slash a @ split_slash b"
proof (induction a)
  case Nil
  then show ?case by simp
next
  case (Cons c cs)
  have "split_slash (cs @ CHR ''/'' # b) \<noteq> []" by simp
  moreover have "split_slash cs \<noteq> []" by simp
  ultimately show ?case
    using Cons.IH by (cases "split_slash cs") (auto simp: Let_def)
qed

text \<open>Round trip one way: joining the pieces of a split gives the string back.\<close>

theorem join_split_slash [path_simps]: "js_join ''/'' (split_slash s) = s"
proof (induction s)
  case Nil
  then show ?case by simp
next
  case (Cons c cs)
  show ?case
  proof (cases "split_slash cs")
    case Nil
    then show ?thesis by simp
  next
    case (Cons y ys)
    with Cons.IH show ?thesis
      by (cases ys) (auto simp: Let_def)
  qed
qed

text \<open>Round trip the other way: splitting a join of slash-free pieces gives them back.\<close>

theorem split_slash_join [path_simps]:
  "xs \<noteq> [] \<Longrightarrow> \<forall>x \<in> set xs. CHR ''/'' \<notin> set x \<Longrightarrow> split_slash (js_join ''/'' xs) = xs"
proof (induction xs)
  case Nil
  then show ?case by simp
next
  case (Cons x xs)
  show ?case
  proof (cases xs)
    case Nil
    with Cons.prems show ?thesis by (simp add: split_slash_no_slash)
  next
    case (Cons y ys)
    with Cons.prems Cons.IH show ?thesis
      by (simp add: split_slash_append_slash split_slash_no_slash)
  qed
qed

section \<open>Normalisation of clean segments\<close>

lemma foldl_norm_seg_clean:
  "list_all clean_seg xs \<Longrightarrow> foldl (norm_seg allow_up) acc xs = acc @ xs"
  by (induction xs arbitrary: acc) (auto simp: norm_seg_def clean_seg_def)

lemma norm_seg_Nil [simp]: "norm_seg allow_up acc [] = acc"
  by (simp add: norm_seg_def)

lemma clean_abs_iff:
  "clean_abs d \<longleftrightarrow> (\<exists>ss. ss \<noteq> [] \<and> list_all clean_seg ss \<and> d = abs_of ss)"
proof
  assume "clean_abs d"
  then obtain ss where sp: "split_slash d = [] # ss" and ne: "ss \<noteq> []"
    and cl: "list_all clean_seg ss"
    by (auto simp: clean_abs_def split: list.splits)
  have "d = js_join ''/'' ([] # ss)"
    using sp join_split_slash [of d] by simp
  with ne have "d = abs_of ss"
    by (cases ss) (auto simp: abs_of_def)
  with ne cl show "\<exists>ss. ss \<noteq> [] \<and> list_all clean_seg ss \<and> d = abs_of ss" by blast
next
  assume "\<exists>ss. ss \<noteq> [] \<and> list_all clean_seg ss \<and> d = abs_of ss"
  then obtain ss where ne: "ss \<noteq> []" and cl: "list_all clean_seg ss" and d: "d = abs_of ss"
    by blast
  from cl have "\<forall>x \<in> set ([] # ss). CHR ''/'' \<notin> set x"
    by (auto simp: clean_seg_def list_all_iff)
  then have "split_slash (js_join ''/'' ([] # ss)) = [] # ss"
    using split_slash_join [of "[] # ss"] by simp
  with ne d have "split_slash d = [] # ss"
    by (cases ss) (auto simp: abs_of_def)
  with ne cl show "clean_abs d" by (simp add: clean_abs_def)
qed

section \<open>join, resolve and the kernel's view of clean paths\<close>

lemma js_join_snoc:
  "js_join sep (xs @ [y]) = (if xs = [] then y else js_join sep xs @ sep @ y)"
proof (induction xs)
  case Nil
  then show ?case by simp
next
  case (Cons x xs)
  then show ?case by (cases xs) auto
qed

lemma abs_of_snoc: "ss \<noteq> [] \<Longrightarrow> abs_of (ss @ [n]) = abs_of ss @ ''/'' @ n"
  by (simp add: abs_of_def js_join_snoc)

lemma split_slash_abs_of:
  "clean_path ss \<Longrightarrow> split_slash (abs_of ss) = [] # ss"
proof -
  assume cp: "clean_path ss"
  then have "\<forall>x \<in> set ([] # ss). CHR ''/'' \<notin> set x"
    by (auto simp: clean_path_def clean_seg_def list_all_iff)
  then have "split_slash (js_join ''/'' ([] # ss)) = [] # ss"
    using split_slash_join [of "[] # ss"] by simp
  with cp show ?thesis
    by (cases ss) (auto simp: abs_of_def clean_path_def)
qed

lemma normalize_segs_abs_of [path_simps]:
  "clean_path ss \<Longrightarrow> normalize_segs allow_up (abs_of ss) = ss"
  using foldl_norm_seg_clean [of ss allow_up "[]"]
  by (simp add: normalize_segs_def split_slash_abs_of clean_path_def)

lemma normalize_segs_abs_of_slash [path_simps]:
  "clean_path ss \<Longrightarrow> normalize_segs allow_up (abs_of ss @ ''/'') = ss"
  using foldl_norm_seg_clean [of ss allow_up "[]"]
  by (simp add: normalize_segs_def split_slash_append_slash split_slash_abs_of clean_path_def)

lemma clean_path_snoc [path_simps]:
  "clean_path ss \<Longrightarrow> clean_seg n \<Longrightarrow> clean_path (ss @ [n])"
  by (simp add: clean_path_def)

lemma clean_seg_last: "clean_seg n \<Longrightarrow> last n \<noteq> CHR ''/''"
  unfolding clean_seg_def by (metis last_in_set)

lemma abs_of_hd [simp]: "hd (abs_of ss) = CHR ''/''"
  by (simp add: abs_of_def)

lemma abs_of_not_Nil [simp]: "abs_of ss \<noteq> []"
  by (simp add: abs_of_def)

lemma last_abs_of_snoc: "clean_seg n \<Longrightarrow> last (abs_of (ss @ [n])) \<noteq> CHR ''/''"
proof -
  assume n: "clean_seg n"
  have "abs_of (ss @ [n]) = (if ss = [] then ''/'' else abs_of ss @ ''/'') @ n"
    by (cases "ss = []") (simp add: abs_of_def, simp add: abs_of_snoc)
  then obtain x where "abs_of (ss @ [n]) = x @ n" by blast
  moreover from n have "n \<noteq> []" by (simp add: clean_seg_def)
  ultimately show ?thesis using clean_seg_last [OF n] by simp
qed

lemma js_join_Cons_not_Nil: "x \<noteq> [] \<Longrightarrow> js_join sep (x # xs) \<noteq> []"
  by (cases xs) auto

lemma js_join_clean_not_Nil: "clean_path ss \<Longrightarrow> js_join ''/'' ss \<noteq> []"
  by (cases ss) (auto simp: clean_path_def clean_seg_def js_join_Cons_not_Nil)

text \<open>
  Normalising a clean absolute path without a trailing separator returns it
  unchanged.
\<close>

lemma path_normalize_abs_of:
  assumes cp: "clean_path ss" and nt: "last (abs_of ss) \<noteq> CHR ''/''"
  shows "path_normalize (abs_of ss) = abs_of ss"
proof -
  have "normalizeString False (abs_of ss) = js_join ''/'' ss"
    using cp by (simp add: normalizeString_def normalize_segs_abs_of)
  with cp nt show ?thesis
    by (simp add: path_normalize_def Let_def js_join_clean_not_Nil) (simp add: abs_of_def)
qed

text \<open>\<open>path.join(dir, name)\<close> for a clean directory and a clean name.\<close>

theorem path_join_child [path_simps]:
  assumes cp: "clean_path ss" and n: "clean_seg n"
  shows "path_join [abs_of ss, n] = abs_of (ss @ [n])"
proof -
  from cp have ne: "ss \<noteq> []" by (simp add: clean_path_def)
  from n have "n \<noteq> []" by (simp add: clean_seg_def)
  then have "path_join [abs_of ss, n] = path_normalize (abs_of ss @ ''/'' @ n)"
    by (simp add: path_join_def)
  also have "\<dots> = path_normalize (abs_of (ss @ [n]))"
    using ne by (simp add: abs_of_snoc)
  also have "\<dots> = abs_of (ss @ [n])"
    using cp n by (simp add: path_normalize_abs_of clean_path_snoc last_abs_of_snoc)
  finally show ?thesis .
qed

text \<open>\<open>path.join(dir, a, b)\<close> for a clean directory and two clean names.\<close>

lemma path_join_child2 [path_simps]:
  assumes cp: "clean_path ss" and a: "clean_seg a" and b: "clean_seg b"
  shows "path_join [abs_of ss, a, b] = abs_of (ss @ [a, b])"
proof -
  from cp have ne: "ss \<noteq> []" by (simp add: clean_path_def)
  from a b have "a \<noteq> []" "b \<noteq> []" by (simp_all add: clean_seg_def)
  then have "path_join [abs_of ss, a, b] = path_normalize (abs_of ss @ ''/'' @ a @ ''/'' @ b)"
    by (simp add: path_join_def)
  also have "\<dots> = path_normalize (abs_of ((ss @ [a]) @ [b]))"
    using ne abs_of_snoc [of "ss @ [a]" b] abs_of_snoc [of ss a] by simp
  also have "\<dots> = abs_of ((ss @ [a]) @ [b])"
    using clean_path_snoc [OF clean_path_snoc [OF cp a] b] last_abs_of_snoc [OF b, of "ss @ [a]"]
    by (rule path_normalize_abs_of)
  finally show ?thesis by simp
qed

text \<open>\<open>path.resolve(dir, name)\<close> for a clean absolute directory and a clean name.\<close>

theorem path_resolve_child [path_simps]:
  assumes cp: "clean_path ss" and n: "clean_seg n"
  shows "path_resolve cwd [abs_of ss, n] = abs_of (ss @ [n])"
proof -
  from cp have ne: "ss \<noteq> []" by (simp add: clean_path_def)
  from n have nn: "n \<noteq> []" and nh: "hd n \<noteq> CHR ''/''"
    by (auto simp: clean_seg_def) (metis hd_in_set)
  have "resolve_walk (rev [abs_of ss, n] @ [cwd]) [] = (abs_of (ss @ [n]) @ ''/'', True)"
    using nn nh ne by (simp add: abs_of_snoc)
  moreover have "normalizeString False (abs_of (ss @ [n]) @ ''/'') = js_join ''/'' (ss @ [n])"
    using cp n by (simp add: normalizeString_def normalize_segs_abs_of_slash clean_path_snoc)
  ultimately show ?thesis
    by (simp add: path_resolve_def abs_of_def)
qed

text \<open>The kernel walks exactly the segments of a clean absolute path.\<close>

theorem os_path_abs_of [path_simps]:
  assumes cp: "clean_path ss"
  shows "os_path cwd (abs_of ss) = ss"
proof -
  have "resolve_walk (rev [abs_of ss] @ [cwd]) [] = (abs_of ss @ ''/'', True)"
    by simp
  then have "path_resolve cwd [abs_of ss] = ''/'' @ js_join ''/'' ss"
    using cp by (simp add: path_resolve_def normalizeString_def normalize_segs_abs_of_slash)
  then have "path_resolve cwd [abs_of ss] = abs_of ss"
    by (simp add: abs_of_def)
  with cp show ?thesis
    by (simp add: os_path_def normalize_segs_abs_of)
qed

section \<open>Absolute results\<close>

lemma resolve_walk_abs:
  "\<exists>p \<in> set ps. p \<noteq> [] \<and> hd p = CHR ''/'' \<Longrightarrow> \<exists>r. resolve_walk ps acc = (r, True)"
  by (induction ps acc rule: resolve_walk.induct) auto

text \<open>With an absolute working directory, \<open>path.resolve\<close> always returns an absolute path.\<close>

lemma path_resolve_hd:
  assumes "cwd \<noteq> []" and "hd cwd = CHR ''/''"
  shows "\<exists>r. path_resolve cwd args = CHR ''/'' # r"
proof -
  from assms obtain r where "resolve_walk (rev args @ [cwd]) [] = (r, True)"
    using resolve_walk_abs [of "rev args @ [cwd]" "[]"] by auto
  then show ?thesis by (simp add: path_resolve_def)
qed

lemma split_slash_pieces: "x \<in> set (split_slash s) \<Longrightarrow> CHR ''/'' \<notin> set x"
proof (induction s arbitrary: x)
  case Nil
  then show ?case by simp
next
  case (Cons c cs)
  have "split_slash cs \<noteq> []" by simp
  then obtain y ys where sp: "split_slash cs = y # ys" by (cases "split_slash cs") auto
  with Cons show ?case by (auto simp: Let_def split: if_splits)
qed

lemma foldl_norm_seg_keeps_clean:
  "list_all clean_seg acc \<Longrightarrow> \<forall>x \<in> set xs. CHR ''/'' \<notin> set x \<Longrightarrow>
     list_all clean_seg (foldl (norm_seg False) acc xs)"
proof (induction xs arbitrary: acc)
  case Nil
  then show ?case by simp
next
  case (Cons x xs)
  have "list_all clean_seg (norm_seg False acc x)"
    using Cons.prems
    by (auto simp: norm_seg_def clean_seg_def list_all_iff dest: in_set_butlastD)
  with Cons show ?case by simp
qed

lemma normalize_segs_clean: "list_all clean_seg (normalize_segs False p)"
  unfolding normalize_segs_def
  by (rule foldl_norm_seg_keeps_clean) (auto dest: split_slash_pieces)

text \<open>
  \<open>path.join(dir, name)\<close> with an absolute \<open>dir\<close> and a clean \<open>name\<close> is a
  clean absolute path: whatever the directory string looks like, the
  result is in normal form.
\<close>

theorem path_join_abs_clean:
  assumes d: "d \<noteq> []" "hd d = CHR ''/''" and n: "clean_seg n"
  shows "\<exists>ss. clean_path ss \<and> path_join [d, n] = abs_of ss"
proof -
  let ?N = "normalize_segs False d"
  from n have nn: "n \<noteq> []" and ns: "CHR ''/'' \<notin> set n"
    by (auto simp: clean_seg_def)
  have segs: "normalize_segs False (d @ ''/'' @ n) = ?N @ [n]"
    using n ns
    by (simp add: normalize_segs_def split_slash_append_slash split_slash_no_slash norm_seg_def clean_seg_def)
  have cp: "clean_path (?N @ [n])"
    using normalize_segs_clean [of d] n by (simp add: clean_path_def)
  have last: "last (d @ ''/'' @ n) \<noteq> CHR ''/''"
    using clean_seg_last [OF n] nn by simp
  have "path_join [d, n] = ''/'' @ js_join ''/'' (?N @ [n])"
    using d nn last segs js_join_clean_not_Nil [OF cp]
    by (simp add: path_join_def path_normalize_def normalizeString_def Let_def)
  with cp show ?thesis by (auto simp: abs_of_def)
qed

end
