(* ===== verification/Sanitizer.thy ===== *)
theory Sanitizer
  imports Path
begin

text \<open>
  The installer's configuration and its name sanitizer
  (\<open>src/src/skill-installer.ts\<close>, current revision, lines 189--210):
  \<open>CONFIG_DIR\<close> and \<open>SKILLS_DIR\<close>, computed once from the environment, and
  \<open>sanitizeSkillName\<close>, the single gate every file-system path of a skill
  passes.  The lemmas show what a sanitized name is (a clean path segment over
  \<open>[A-Za-z0-9_.-]\<close>), that traversal attempts are rejected, that the
  containment check of lines 204--208 never changes the verdict when the
  skills directory is an absolute path, and that it rejects every name when
  the configured directory is relative.
\<close>

section \<open>Configuration\<close>

text \<open>
  \<open>process.env.OPENCLAW_STATE_DIR ?? process.env.CLAWDBOT_STATE_DIR ??
  path.join(os.homedir(), ".openclaw")\<close>: \<open>??\<close> falls through on an unset
  variable (\<open>None\<close>) only; a variable set to the empty string is used as it is.
\<close>

definition config_dir :: "(string \<Rightarrow> string option) \<Rightarrow> string \<Rightarrow> string" where
  "config_dir env home =
     (case env ''OPENCLAW_STATE_DIR'' of
        Some d \<Rightarrow> d
      | None \<Rightarrow> (case env ''CLAWDBOT_STATE_DIR'' of
                  Some d \<Rightarrow> d
                | None \<Rightarrow> path_join [home, ''.openclaw'']))"

definition skills_dir_of :: "(string \<Rightarrow> string option) \<Rightarrow> string \<Rightarrow> string" where
  "skills_dir_of env home = path_join [config_dir env home, ''skills'']"

section \<open>sanitizeSkillName\<close>

definition sanitizeSkillName :: "string \<Rightarrow> string \<Rightarrow> string \<Rightarrow> string option" where
  "sanitizeSkillName cwd skills_dir nm =
     (let sanitized = replace_disallowed nm
      in if sanitized = [] \<or> js_includes sanitized ''..'' \<or> startsWith sanitized ''.'' then None
         else
           let resolved = path_resolve cwd [skills_dir, sanitized]
           in if \<not> startsWith resolved (skills_dir @ ''/'') then None else Some sanitized)"

text \<open>The character-level check of lines 200--203, without the containment test.\<close>

definition name_check :: "string \<Rightarrow> string option" where
  "name_check nm =
     (let sanitized = replace_disallowed nm
      in if sanitized = [] \<or> js_includes sanitized ''..'' \<or> startsWith sanitized ''.'' then None
         else Some sanitized)"

definition abs_dir :: "string \<Rightarrow> bool" where
  "abs_dir d \<longleftrightarrow> d \<noteq> [] \<and> hd d = CHR ''/''"

section \<open>Facts about the character class\<close>

lemma skill_name_char_not_slash [simp]: "\<not> skill_name_char CHR ''/''"
  by (simp add: skill_name_char_def in_range_def)

lemma replace_disallowed_idem [simp]:
  "replace_disallowed (replace_disallowed s) = replace_disallowed s"
  by (simp add: replace_disallowed_def)

lemma replace_disallowed_append [simp]:
  "replace_disallowed (a @ b) = replace_disallowed a @ replace_disallowed b"
  by (simp add: replace_disallowed_def)

lemma replace_disallowed_dot [simp]:
  "replace_disallowed (CHR ''.'' # s) = CHR ''.'' # replace_disallowed s"
  by (simp add: replace_disallowed_def skill_name_char_def)

lemma startsWith_dot_Cons: "startsWith s ''.'' \<longleftrightarrow> s \<noteq> [] \<and> hd s = CHR ''.''"
  by (cases s) auto

lemma dotdot_clean:
  assumes "s \<noteq> []" "\<not> js_includes s ''..''" "\<not> startsWith s ''.''"
    and "set s \<subseteq> Collect skill_name_char"
  shows "clean_seg s"
proof -
  have "CHR ''/'' \<notin> set s" using assms(4) by auto
  moreover have "s \<noteq> ''.''" and "s \<noteq> ''..''" using assms(3) by auto
  ultimately show ?thesis using assms(1) by (simp add: clean_seg_def)
qed

lemma name_check_Some:
  "name_check nm = Some s \<Longrightarrow>
     s = replace_disallowed nm \<and> s \<noteq> [] \<and> \<not> js_includes s ''..'' \<and> \<not> startsWith s ''.''"
  by (auto simp: name_check_def Let_def split: if_splits)

lemma name_check_clean: "name_check nm = Some s \<Longrightarrow> clean_seg s"
  by (drule name_check_Some) (auto intro!: dotdot_clean simp: replace_disallowed_def)

section \<open>What a sanitized name is\<close>

lemma sanitize_Some_name_check:
  "sanitizeSkillName cwd d nm = Some s \<Longrightarrow> name_check nm = Some s"
  by (auto simp: sanitizeSkillName_def name_check_def Let_def split: if_splits)

lemma sanitize_Some_clean: "sanitizeSkillName cwd d nm = Some s \<Longrightarrow> clean_seg s"
  by (blast dest: sanitize_Some_name_check name_check_clean)

text \<open>
  C30: a name the sanitizer accepts is the raw name with the characters outside
  \<open>[A-Za-z0-9_.-]\<close> removed; it is a single, nonempty path segment that
  contains no \<open>..\<close> and does not start with a dot.
\<close>

theorem sanitize_result:
  assumes "sanitizeSkillName cwd d nm = Some s"
  shows "s = replace_disallowed nm \<and> clean_seg s \<and> set s \<subseteq> Collect skill_name_char
    \<and> \<not> js_includes s ''..'' \<and> \<not> startsWith s ''.''"
proof -
  from assms have "name_check nm = Some s"
    by (rule sanitize_Some_name_check)
  then show ?thesis
    using name_check_Some name_check_clean by (fastforce simp: replace_disallowed_def)
qed

text \<open>
  C31: with a clean absolute skills directory the resolved-path test of lines
  204--208 always passes: \<open>sanitizeSkillName\<close> is the character check alone.
\<close>

theorem sanitize_eq_name_check:
  assumes cp: "clean_path ss"
  shows "sanitizeSkillName cwd (abs_of ss) nm = name_check nm"
proof (cases "name_check nm")
  case None
  then show ?thesis
    by (auto simp: sanitizeSkillName_def name_check_def Let_def split: if_splits)
next
  case (Some s)
  then have cs: "clean_seg s" by (rule name_check_clean)
  from cp have ne: "ss \<noteq> []" by (simp add: clean_path_def)
  have "path_resolve cwd [abs_of ss, s] = abs_of ss @ ''/'' @ s"
    using cp cs ne by (simp add: path_resolve_child abs_of_snoc)
  then have "startsWith (path_resolve cwd [abs_of ss, s]) (abs_of ss @ ''/'')"
    by (simp add: startsWith_def)
  with Some show ?thesis
    by (auto simp: sanitizeSkillName_def name_check_def Let_def split: if_splits)
qed

text \<open>
  The directory named by a sanitized name, \<open>path.join(SKILLS_DIR, safeName)\<close>,
  is a direct child of the skills directory, both as a string and as the
  entries the kernel walks.
\<close>

theorem sanitize_child_dir:
  assumes cp: "clean_path ss" and san: "sanitizeSkillName cwd (abs_of ss) nm = Some s"
  shows "path_join [abs_of ss, s] = abs_of (ss @ [s]) \<and> os_path cwd (path_join [abs_of ss, s]) = ss @ [s]"
proof -
  from san have "clean_seg s" by (rule sanitize_Some_clean)
  with cp show ?thesis
    by (simp add: path_join_child os_path_abs_of clean_path_snoc)
qed

section \<open>Rejections\<close>

lemma includes_replace_disallowed:
  assumes "js_includes nm ''../''"
  shows "js_includes (replace_disallowed nm) ''..''"
proof -
  from assms obtain a b where "nm = a @ ''../'' @ b"
    by (auto simp: includes_iff_sublist sublist_def)
  then have "replace_disallowed nm = replace_disallowed a @ ''..'' @ replace_disallowed b"
    by (simp add: replace_disallowed_def skill_name_char_def in_range_def)
  then show ?thesis
    by (auto simp: includes_iff_sublist sublist_def)
qed

text \<open>
  a raw name containing \<open>../\<close> or starting with a dot is refused,
  whatever the directories are.
\<close>

theorem sanitize_rejects_traversal:
  assumes "js_includes nm ''../'' \<or> startsWith nm ''.''"
  shows "sanitizeSkillName cwd d nm = None"
proof -
  have "js_includes (replace_disallowed nm) ''..'' \<or> startsWith (replace_disallowed nm) ''.''"
  proof (cases "js_includes nm ''../''")
    case True
    then show ?thesis by (simp add: includes_replace_disallowed)
  next
    case False
    with assms obtain r where "nm = CHR ''.'' # r" by (cases nm) auto
    then show ?thesis by simp
  qed
  then show ?thesis by (auto simp: sanitizeSkillName_def Let_def)
qed

text \<open>
  C32: a relative skills directory (a relative or empty \<open>OPENCLAW_STATE_DIR\<close>)
  makes the containment test fail for every name: \<open>path.resolve\<close> returns an
  absolute path, which never starts with the relative directory.
\<close>

theorem sanitize_relative_dir_rejects_all:
  assumes cwd: "abs_dir cwd" and rel: "d \<noteq> []" "hd d \<noteq> CHR ''/''"
  shows "sanitizeSkillName cwd d nm = None"
proof -
  have "\<not> startsWith (path_resolve cwd [d, replace_disallowed nm]) (d @ ''/'')"
  proof
    assume sw: "startsWith (path_resolve cwd [d, replace_disallowed nm]) (d @ ''/'')"
    from cwd obtain r where "path_resolve cwd [d, replace_disallowed nm] = CHR ''/'' # r"
      using path_resolve_hd by (auto simp: abs_dir_def)
    with sw rel show False by (cases d) auto
  qed
  then show ?thesis by (simp add: sanitizeSkillName_def Let_def)
qed

text \<open>Sanitizing twice changes nothing.\<close>

lemma sanitize_idem:
  assumes "sanitizeSkillName cwd d nm = Some s"
  shows "sanitizeSkillName cwd d s = Some s"
  using assms by (auto simp: sanitizeSkillName_def Let_def split: if_splits)

section \<open>The configured skills directory\<close>

lemma clean_seg_skills [simp]: "clean_seg ''skills''"
  by (simp add: clean_seg_def)

text \<open>
  An absolute configuration directory gives a clean absolute skills
  directory, \<open>path.join(CONFIG_DIR, "skills")\<close> in normal form.
\<close>

theorem skills_dir_clean:
  assumes "abs_dir (config_dir env home)"
  shows "\<exists>ss. clean_path ss \<and> skills_dir_of env home = abs_of ss"
  using assms path_join_abs_clean [of "config_dir env home" "''skills''"]
  by (simp add: skills_dir_of_def abs_dir_def)

section \<open>Witnesses\<close>

text \<open>Each hypothesis above holds at a concrete input.\<close>

lemmas sanitizer_eval =
  sanitizeSkillName_def name_check_def replace_disallowed_def skill_name_char_def in_range_def
  path_resolve_def normalizeString_def normalize_segs_def norm_seg_def

theorem sanitize_rejects_traversal_witness:
  "js_includes ''../etc'' ''../'' \<and> sanitizeSkillName ''/w'' ''/w/skills'' ''../etc'' = None"
  using sanitize_rejects_traversal [of "''../etc''" "''/w''" "''/w/skills''"] by simp

theorem sanitize_result_witness:
  "sanitizeSkillName ''/w'' ''/w/skills'' ''PDF Reader'' = Some ''PDFReader''
   \<and> clean_seg ''PDFReader''"
proof -
  have s: "sanitizeSkillName ''/w'' ''/w/skills'' ''PDF Reader'' = Some ''PDFReader''"
    by (simp add: sanitizer_eval)
  show ?thesis using s sanitize_result [OF s] by blast
qed

lemma clean_path_w_skills: "clean_path [''w'', ''skills'']"
  by (simp add: clean_path_def clean_seg_def)

theorem sanitize_eq_name_check_witness:
  "clean_path [''w'', ''skills'']
   \<and> sanitizeSkillName ''/w'' (abs_of [''w'', ''skills'']) ''a/b'' = name_check ''a/b''"
  using clean_path_w_skills sanitize_eq_name_check [OF clean_path_w_skills] by simp

theorem sanitize_child_dir_witness:
  "sanitizeSkillName ''/w'' (abs_of [''w'', ''skills'']) ''pdf'' = Some ''pdf''
   \<and> os_path ''/w'' (path_join [abs_of [''w'', ''skills''], ''pdf'']) = [''w'', ''skills'', ''pdf'']"
proof -
  have s: "sanitizeSkillName ''/w'' (abs_of [''w'', ''skills'']) ''pdf'' = Some ''pdf''"
    by (simp add: sanitizer_eval abs_of_def)
  have c: "os_path ''/w'' (path_join [abs_of [''w'', ''skills''], ''pdf'']) = [''w'', ''skills''] @ [''pdf'']"
    using sanitize_child_dir [OF clean_path_w_skills s] by blast
  show ?thesis using s c by simp
qed

theorem sanitize_relative_dir_rejects_all_witness:
  "abs_dir ''/w'' \<and> sanitizeSkillName ''/w'' ''skills'' ''pdf'' = None"
proof -
  have a: "abs_dir ''/w''" by (simp add: abs_dir_def)
  show ?thesis
    using a sanitize_relative_dir_rejects_all [OF a, of "''skills''" "''pdf''"] by simp
qed

theorem skills_dir_clean_witness:
  "abs_dir (config_dir (\<lambda>_. None) ''/home/u'')
   \<and> (\<exists>ss. clean_path ss \<and> skills_dir_of (\<lambda>_. None) ''/home/u'' = abs_of ss)"
proof -
  have a: "abs_dir (config_dir (\<lambda>_. None) ''/home/u'')"
    by (simp add: abs_dir_def config_dir_def path_join_def path_normalize_def Let_def
        normalizeString_def normalize_segs_def norm_seg_def)
  show ?thesis using a skills_dir_clean [OF a] by blast
qed

end
