(* ===== verification/Prober.thy ===== *)
theory Prober
  imports JsString
begin

text \<open>
  The source prober of the installer (\<open>src/src/skill-installer.ts\<close>, current
  revision lines 216--259; the earlier revision's copy is lines 21--64):
  \<open>getSkillMdUrls\<close> builds six candidate URLs in a fixed order and
  \<open>downloadSkillMd\<close> fetches them one after the other, returning the first
  response that is HTTP-successful and looks like a \<open>SKILL.md\<close>.

  The network is an oracle \<open>net :: url \<Rightarrow> fetch_outcome\<close>: what \<open>fetch\<close>
  yields for a URL during one probe (each URL is fetched at most once per
  probe, so a function loses nothing).  The loop is a structural recursion
  over the candidate list that also returns the URLs it requested, so that
  "no request after the first success" is a statement about that trace.
\<close>

section \<open>Candidate URLs\<close>

definition getSkillMdUrls :: "string \<Rightarrow> string \<Rightarrow> string \<Rightarrow> url list" where
  "getSkillMdUrls owner repo skillName =
     (let base = ''https://raw.githubusercontent.com/'' @ owner @ ''/'' @ repo
      in [base @ ''/main/skills/'' @ skillName @ ''/SKILL.md'',
          base @ ''/master/skills/'' @ skillName @ ''/SKILL.md'',
          base @ ''/main/SKILL.md'',
          base @ ''/master/SKILL.md'',
          base @ ''/main/src/skills/'' @ skillName @ ''/SKILL.md'',
          base @ ''/master/src/skills/'' @ skillName @ ''/SKILL.md''])"

section \<open>Fetch outcomes and validation\<close>

text \<open>
  \<open>Fetch_rejected\<close>: the \<open>fetch\<close> promise rejects (DNS, TLS, reset).
  \<open>Response status body\<close>: a response; \<open>body\<close> is \<open>None\<close> when
  \<open>response.text()\<close> rejects.  \<open>response.ok\<close> is a status in 200--299.
\<close>

datatype fetch_outcome = Fetch_rejected | Response nat "string option"

definition response_ok :: "nat \<Rightarrow> bool" where
  "response_ok st \<longleftrightarrow> 200 \<le> st \<and> st \<le> 299"

text \<open>The current check (line 249): front matter opened and closed by \<open>---\<close>, and a \<open>name:\<close>.\<close>

definition looks_like_skill_md :: "string \<Rightarrow> bool" where
  "looks_like_skill_md content \<longleftrightarrow>
     startsWith content ''---'' \<and> indexOf content ''---'' 3 > 3 \<and> js_includes content ''name:''"

text \<open>The earlier revision's check (line 54).\<close>

definition looks_like_skill_md_v0 :: "string \<Rightarrow> bool" where
  "looks_like_skill_md_v0 content \<longleftrightarrow> startsWith content ''---'' \<or> js_includes content ''name:''"

text \<open>One iteration of the loop body: the content, if this candidate is accepted.\<close>

definition probe_one :: "(string \<Rightarrow> bool) \<Rightarrow> (url \<Rightarrow> fetch_outcome) \<Rightarrow> url \<Rightarrow> string option" where
  "probe_one valid net u =
     (case net u of
        Fetch_rejected \<Rightarrow> None
      | Response st body \<Rightarrow>
          if response_ok st then
            (case body of None \<Rightarrow> None | Some c \<Rightarrow> if valid c then Some c else None)
          else None)"

text \<open>The \<open>for\<close> loop with its early \<open>return\<close>: the result and the URLs requested.\<close>

fun probe :: "(string \<Rightarrow> bool) \<Rightarrow> (url \<Rightarrow> fetch_outcome) \<Rightarrow> url list \<Rightarrow> (string \<times> url) option \<times> url list" where
  "probe valid net [] = (None, [])"
| "probe valid net (u # us) =
     (case probe_one valid net u of
        Some c \<Rightarrow> (Some (c, u), [u])
      | None \<Rightarrow> (let (r, t) = probe valid net us in (r, u # t)))"

definition downloadSkillMd ::
  "(url \<Rightarrow> fetch_outcome) \<Rightarrow> string \<Rightarrow> string \<Rightarrow> string \<Rightarrow> (string \<times> url) option \<times> url list" where
  "downloadSkillMd net owner repo skillName =
     probe looks_like_skill_md net (getSkillMdUrls owner repo skillName)"

text \<open>The earlier revision's own copy of the candidate list (lines 21--33).\<close>

definition getSkillMdUrls_v0 :: "string \<Rightarrow> string \<Rightarrow> string \<Rightarrow> url list" where
  "getSkillMdUrls_v0 owner repo skillName =
     (let base = ''https://raw.githubusercontent.com/'' @ owner @ ''/'' @ repo
      in [base @ ''/main/skills/'' @ skillName @ ''/SKILL.md'',
          base @ ''/master/skills/'' @ skillName @ ''/SKILL.md'',
          base @ ''/main/SKILL.md'',
          base @ ''/master/SKILL.md'',
          base @ ''/main/src/skills/'' @ skillName @ ''/SKILL.md'',
          base @ ''/master/src/skills/'' @ skillName @ ''/SKILL.md''])"

definition downloadSkillMd_v0 ::
  "(url \<Rightarrow> fetch_outcome) \<Rightarrow> string \<Rightarrow> string \<Rightarrow> string \<Rightarrow> (string \<times> url) option \<times> url list" where
  "downloadSkillMd_v0 net owner repo skillName =
     probe looks_like_skill_md_v0 net (getSkillMdUrls_v0 owner repo skillName)"

text \<open>
  The abstract contract of the prober: the first candidate whose fetch is
  accepted, with its content; the requests are the candidates up to it.
\<close>

definition first_accepted :: "(string \<Rightarrow> bool) \<Rightarrow> (url \<Rightarrow> fetch_outcome) \<Rightarrow> url list \<Rightarrow> (string \<times> url) option" where
  "first_accepted valid net us =
     (case find (\<lambda>u. probe_one valid net u \<noteq> None) us of
        None \<Rightarrow> None
      | Some u \<Rightarrow> map_option (\<lambda>c. (c, u)) (probe_one valid net u))"

definition requested :: "(string \<Rightarrow> bool) \<Rightarrow> (url \<Rightarrow> fetch_outcome) \<Rightarrow> url list \<Rightarrow> url list" where
  "requested valid net us =
     (let pre = takeWhile (\<lambda>u. probe_one valid net u = None) us
      in if pre = us then us else pre @ [us ! length pre])"

text \<open>
  An example network for the witnesses: only the fourth candidate of
  \<open>getSkillMdUrls ''o'' ''r'' ''n''\<close> serves a descriptor, the others answer 404.
\<close>

definition net_fourth :: "url \<Rightarrow> fetch_outcome" where
  "net_fourth u =
     (if u = ''https://raw.githubusercontent.com/o/r/master/SKILL.md''
      then Response 200 (Some ''---\<newline>name: x\<newline>---\<newline>'')
      else Response 404 (Some ''404: Not Found''))"

section \<open>The loop meets its contract\<close>

text \<open>Both revisions probe the same candidates.\<close>

lemma getSkillMdUrls_v0_eq [simp]: "getSkillMdUrls_v0 = getSkillMdUrls"
  by (simp add: fun_eq_iff getSkillMdUrls_v0_def getSkillMdUrls_def)

lemma probe_fst: "fst (probe valid net us) = first_accepted valid net us"
  by (induction us) (auto simp: first_accepted_def split: option.splits prod.splits)

lemma probe_snd: "snd (probe valid net us) = requested valid net us"
proof (induction us)
  case Nil
  then show ?case by (simp add: requested_def)
next
  case (Cons u us)
  then show ?case
    by (auto simp: requested_def Let_def split: option.splits prod.splits)
qed

lemma probe_one_Some:
  "probe_one valid net u = Some c \<Longrightarrow>
     valid c \<and> (\<exists>st. net u = Response st (Some c) \<and> response_ok st)"
  by (auto simp: probe_one_def split: fetch_outcome.splits option.splits if_splits)

lemma probe_Some_valid:
  "fst (probe valid net us) = Some (c, u) \<Longrightarrow>
     u \<in> set us \<and> probe_one valid net u = Some c"
  by (induction us) (auto split: option.splits prod.splits)

lemma probe_None:
  "fst (probe valid net us) = None \<longleftrightarrow> (\<forall>u \<in> set us. probe_one valid net u = None)"
  by (induction us) (auto split: option.splits prod.splits)

lemma probe_trace_prefix: "prefix (snd (probe valid net us)) us"
  by (induction us) (auto split: option.splits prod.splits)

lemma probe_Some_split:
  assumes "probe valid net us = (Some (c, u), t)"
  shows "\<exists>pre post. us = pre @ u # post \<and> t = pre @ [u]
           \<and> (\<forall>v \<in> set pre. probe_one valid net v = None) \<and> probe_one valid net u = Some c"
  using assms
proof (induction us arbitrary: t)
  case Nil
  then show ?case by simp
next
  case (Cons v vs)
  show ?case
  proof (cases "probe_one valid net v")
    case (Some c')
    with Cons.prems show ?thesis by auto
  next
    case None
    with Cons.prems obtain t' where rec: "probe valid net vs = (Some (c, u), t')" and t: "t = v # t'"
      by (auto split: prod.splits)
    from Cons.IH [OF rec] obtain pre post where
      "vs = pre @ u # post" "t' = pre @ [u]" "\<forall>w \<in> set pre. probe_one valid net w = None"
      "probe_one valid net u = Some c"
      by blast
    with None t show ?thesis
      by (intro exI [of _ "v # pre"] exI [of _ post]) auto
  qed
qed

lemma probe_None_trace: "fst (probe valid net us) = None \<Longrightarrow> snd (probe valid net us) = us"
  by (induction us) (auto split: option.splits prod.splits)

lemma length_getSkillMdUrls [simp]: "length (getSkillMdUrls owner repo skillName) = 6"
  by (simp add: getSkillMdUrls_def Let_def)

section \<open>The validation heuristic\<close>

lemma startsWith_dashes_length: "startsWith c ''---'' \<Longrightarrow> 3 \<le> length c"
  using startsWith_drop_length [of 0 c "''---''"] by simp

lemma index_from_gt:
  assumes len: "3 \<le> length c"
  shows "index_from c ''---'' 3 > 3 \<longleftrightarrow>
    \<not> startsWith (drop 3 c) ''---'' \<and> (\<exists>j > 3. startsWith (drop j c) ''---'')"
proof
  assume gt: "index_from c ''---'' 3 > 3"
  then obtain j where j: "index_from c ''---'' 3 = int j" and "3 \<le> j"
    using index_from_cases [of c "''---''" 3] by auto
  with gt have "3 < j" by simp
  with index_from_found [OF j] show
    "\<not> startsWith (drop 3 c) ''---'' \<and> (\<exists>j > 3. startsWith (drop j c) ''---'')"
    by auto
next
  assume r: "\<not> startsWith (drop 3 c) ''---'' \<and> (\<exists>j > 3. startsWith (drop j c) ''---'')"
  then obtain j where "3 < j" and occ: "startsWith (drop j c) ''---''" by blast
  then have "j + length ''---'' \<le> length c"
    using startsWith_drop_length [OF occ] by simp
  with \<open>3 < j\<close> occ have "index_from c ''---'' 3 \<noteq> -1"
    unfolding index_from_neg by (metis less_imp_le_nat)
  then obtain k where k: "index_from c ''---'' 3 = int k" and "3 \<le> k"
    using index_from_cases [of c "''---''" 3] by auto
  moreover from index_from_found [OF k] r have "k \<noteq> 3" by auto
  ultimately show "index_from c ''---'' 3 > 3" by simp
qed

section \<open>Properties of downloadSkillMd\<close>

text \<open>
  C29: \<open>downloadSkillMd\<close> implements the prober's contract: its result is the
  first candidate whose response is successful and valid, with that content,
  and its requests are exactly the candidates up to that one (all six when
  none is accepted).
\<close>

theorem downloadSkillMd_refines_contract:
  "downloadSkillMd net owner repo skillName =
     (first_accepted looks_like_skill_md net (getSkillMdUrls owner repo skillName),
      requested looks_like_skill_md net (getSkillMdUrls owner repo skillName))"
  by (simp add: downloadSkillMd_def prod_eq_iff probe_fst probe_snd)

text \<open>
  When no candidate is accepted the prober has requested all six, in
  order, and every one of them failed or was rejected.
\<close>

theorem downloadSkillMd_not_found:
  assumes "fst (downloadSkillMd net owner repo skillName) = None"
  shows "snd (downloadSkillMd net owner repo skillName) = getSkillMdUrls owner repo skillName
    \<and> (\<forall>u \<in> set (getSkillMdUrls owner repo skillName). probe_one looks_like_skill_md net u = None)"
  using assms probe_None_trace probe_None by (auto simp: downloadSkillMd_def)

text \<open>
  The content returned is what a successful response to one of the
  candidate URLs carried, and it passes the validation.
\<close>

theorem downloadSkillMd_result_valid:
  assumes "fst (downloadSkillMd net owner repo skillName) = Some (c, u)"
  shows "looks_like_skill_md c \<and> u \<in> set (getSkillMdUrls owner repo skillName)
    \<and> (\<exists>st. net u = Response st (Some c) \<and> response_ok st)"
  using assms probe_Some_valid probe_one_Some by (fastforce simp: downloadSkillMd_def)

text \<open>
  C33: the validation of line 249, stated without \<open>indexOf\<close>: the text
  starts with \<open>---\<close>, the first \<open>---\<close> at or after position 3 is not at
  position 3 but later, and \<open>name:\<close> occurs somewhere in the text.
\<close>

theorem looks_like_skill_md_iff:
  "looks_like_skill_md c \<longleftrightarrow>
     prefix ''---'' c \<and> \<not> prefix ''---'' (drop 3 c) \<and> (\<exists>j > 3. prefix ''---'' (drop j c))
     \<and> sublist ''name:'' c"
proof (cases "startsWith c ''---''")
  case True
  then have len: "3 \<le> length c" by (rule startsWith_dashes_length)
  then have "indexOf c ''---'' 3 = index_from c ''---'' 3" by (simp add: indexOf_def)
  with True len show ?thesis
    by (simp add: looks_like_skill_md_def index_from_gt includes_iff_sublist startsWith_iff_prefix)
next
  case False
  then show ?thesis by (simp add: looks_like_skill_md_def startsWith_iff_prefix)
qed


text \<open>At most six requests are made for one installation.\<close>

theorem downloadSkillMd_requests_bounded:
  "length (snd (downloadSkillMd net owner repo skillName)) \<le> 6"
  using probe_trace_prefix [of looks_like_skill_md net "getSkillMdUrls owner repo skillName"]
  by (auto simp: downloadSkillMd_def dest: prefix_length_le)

text \<open>
  The validation does not look for \<open>name:\<close> between the delimiters: a
  descriptor whose front matter has no name, followed by a body line
  \<open>name: ...\<close>, is accepted.
\<close>

lemma looks_like_skill_md_name_after_front_matter:
  "looks_like_skill_md ''---\<newline>title: t\<newline>---\<newline>name: x''"
  by (simp add: looks_like_skill_md_def indexOf_def index_from.simps)

section \<open>Witnesses\<close>

lemma downloadSkillMd_net_fourth:
  "downloadSkillMd net_fourth ''o'' ''r'' ''n'' =
     (Some (''---\<newline>name: x\<newline>---\<newline>'', ''https://raw.githubusercontent.com/o/r/master/SKILL.md''),
      take 4 (getSkillMdUrls ''o'' ''r'' ''n''))"
  by (simp add: downloadSkillMd_def getSkillMdUrls_def net_fourth_def probe_one_def response_ok_def
      looks_like_skill_md_def indexOf_def index_from.simps)

theorem downloadSkillMd_not_found_witness:
  "fst (downloadSkillMd (\<lambda>_. Fetch_rejected) ''o'' ''r'' ''n'') = None
   \<and> snd (downloadSkillMd (\<lambda>_. Fetch_rejected) ''o'' ''r'' ''n'') = getSkillMdUrls ''o'' ''r'' ''n''"
proof -
  have n: "fst (downloadSkillMd (\<lambda>_. Fetch_rejected) ''o'' ''r'' ''n'') = None"
    by (simp add: downloadSkillMd_def getSkillMdUrls_def probe_one_def)
  show ?thesis using n downloadSkillMd_not_found [OF n] by blast
qed

theorem downloadSkillMd_result_valid_witness:
  "looks_like_skill_md ''---\<newline>name: x\<newline>---\<newline>''"
  using downloadSkillMd_result_valid [of net_fourth "''o''" "''r''" "''n''"] downloadSkillMd_net_fourth
  by simp


end
