(* ===== verification/FileSystem.thy ===== *)
theory FileSystem
  imports Path
begin

text \<open>
  The part of Node's \<open>fs/promises\<close> the installer and the registry call:
  \<open>access\<close>, \<open>mkdir(p, {recursive: true})\<close>, \<open>writeFile\<close>, \<open>readFile\<close>,
  \<open>readdir(p, {withFileTypes: true})\<close> and \<open>rm(p, {recursive: true})\<close>.
  This is the operating system's behaviour, not code of the repository.

  A file system is an association list from resolved paths (lists of entry
  names, see \<open>Path.os_path\<close>) to nodes, a directory or a file with its
  content; the order of the list is creation order, which is the order
  \<open>readdir\<close> reports (a real file system may report another order; no
  property below depends on it).  Permissions, symbolic links and
  concurrent writers are not modelled.  \<open>fs_wf\<close> is the invariant every
  operation keeps: keys are distinct, the root is a directory, every
  entry's parent is a directory and every entry name is a clean segment.
\<close>

section \<open>Nodes, errors and the invariant\<close>

datatype node = Dir | File string

type_synonym fs = "(path \<times> node) list"

datatype errno = ENOENT | ENOTDIR | EISDIR | EEXIST | EPERM

definition fs_wf :: "fs \<Rightarrow> bool" where
  "fs_wf fs \<longleftrightarrow> distinct (map fst fs) \<and> map_of fs [] = Some Dir
     \<and> list_all (\<lambda>(k, n). list_all clean_seg k \<and> (k \<noteq> [] \<longrightarrow> map_of fs (butlast k) = Some Dir)) fs"

section \<open>Operations\<close>

text \<open>\<open>mkdir -p\<close>: walk the path from the root, creating what is missing.\<close>

fun mkdir_walk :: "fs \<Rightarrow> path \<Rightarrow> path \<Rightarrow> errno + fs" where
  "mkdir_walk fs pre [] = Inr fs"
| "mkdir_walk fs pre (s # rest) =
     (case map_of fs (pre @ [s]) of
        None \<Rightarrow> mkdir_walk (AList.update (pre @ [s]) Dir fs) (pre @ [s]) rest
      | Some Dir \<Rightarrow> mkdir_walk fs (pre @ [s]) rest
      | Some (File _) \<Rightarrow> Inl (if rest = [] then EEXIST else ENOTDIR))"

definition fs_mkdir_p :: "fs \<Rightarrow> path \<Rightarrow> errno + fs" where
  "fs_mkdir_p fs p = mkdir_walk fs [] p"

text \<open>\<open>writeFile\<close>: the parent must be a directory and the target not one.\<close>

definition fs_write :: "fs \<Rightarrow> path \<Rightarrow> string \<Rightarrow> errno + fs" where
  "fs_write fs p c =
     (if p = [] then Inl EISDIR
      else case map_of fs (butlast p) of
             None \<Rightarrow> Inl ENOENT
           | Some (File _) \<Rightarrow> Inl ENOTDIR
           | Some Dir \<Rightarrow>
               (case map_of fs p of
                  Some Dir \<Rightarrow> Inl EISDIR
                | _ \<Rightarrow> Inr (AList.update p (File c) fs)))"

definition fs_read :: "fs \<Rightarrow> path \<Rightarrow> errno + string" where
  "fs_read fs p =
     (case map_of fs p of
        None \<Rightarrow> Inl ENOENT
      | Some Dir \<Rightarrow> Inl EISDIR
      | Some (File c) \<Rightarrow> Inr c)"

text \<open>\<open>readdir\<close> with file types: each child's name and whether it is a directory.\<close>

definition fs_readdir :: "fs \<Rightarrow> path \<Rightarrow> errno + (string \<times> bool) list" where
  "fs_readdir fs p =
     (case map_of fs p of
        None \<Rightarrow> Inl ENOENT
      | Some (File _) \<Rightarrow> Inl ENOTDIR
      | Some Dir \<Rightarrow> Inr (map (\<lambda>(k, n). (last k, n = Dir))
                        (filter (\<lambda>(k, n). k \<noteq> [] \<and> butlast k = p) fs)))"

text \<open>\<open>rm -r\<close>: the entry and everything below it; the root cannot be removed.\<close>

definition fs_rm_rf :: "fs \<Rightarrow> path \<Rightarrow> errno + fs" where
  "fs_rm_rf fs p =
     (if p = [] then Inl EPERM
      else case map_of fs p of
             None \<Rightarrow> Inl ENOENT
           | Some _ \<Rightarrow> Inr (filter (\<lambda>(k, n). \<not> prefix p k) fs))"

section \<open>The invariant is kept\<close>

lemma fs_wf_entry:
  "fs_wf fs \<Longrightarrow> map_of fs k = Some n \<Longrightarrow> list_all clean_seg k \<and> (k \<noteq> [] \<longrightarrow> map_of fs (butlast k) = Some Dir)"
  by (auto simp: fs_wf_def list_all_iff dest!: map_of_SomeD)

lemma fs_wf_parent:
  "fs_wf fs \<Longrightarrow> map_of fs k = Some n \<Longrightarrow> k \<noteq> [] \<Longrightarrow> map_of fs (butlast k) = Some Dir"
  by (simp add: fs_wf_entry)

lemma fs_wf_update [fs_simps]:
  assumes wf: "fs_wf fs" and ne: "p \<noteq> []" and par: "map_of fs (butlast p) = Some Dir"
    and cl: "list_all clean_seg p" and keep: "map_of fs p = Some Dir \<longrightarrow> v = Dir"
  shows "fs_wf (AList.update p v fs)"
proof -
  have d: "distinct (map fst (AList.update p v fs))"
    using wf by (simp add: fs_wf_def distinct_update)
  have r: "map_of (AList.update p v fs) [] = Some Dir"
    using wf ne by (simp add: fs_wf_def update_conv')
  have e: "list_all clean_seg k \<and> (k \<noteq> [] \<longrightarrow> map_of (AList.update p v fs) (butlast k) = Some Dir)"
    if kn: "(k, n) \<in> set (AList.update p v fs)" for k n
  proof (cases "k = p")
    case True
    have "butlast p \<noteq> p" using ne by (cases p rule: rev_cases) auto
    with True par cl show ?thesis by (simp add: update_conv')
  next
    case False
    with kn have old: "(k, n) \<in> set fs" by (auto dest: set_update_cases)
    then have "map_of fs k \<noteq> None"
      using wf by (auto simp: fs_wf_def dest: weak_map_of_SomeI)
    then obtain n' where k: "map_of fs k = Some n'" by blast
    from fs_wf_entry [OF wf k] have cl': "list_all clean_seg k"
      and par': "k \<noteq> [] \<longrightarrow> map_of fs (butlast k) = Some Dir" by auto
    have "k \<noteq> [] \<longrightarrow> map_of (AList.update p v fs) (butlast k) = Some Dir"
    proof
      assume "k \<noteq> []"
      with par' have pk: "map_of fs (butlast k) = Some Dir" by simp
      show "map_of (AList.update p v fs) (butlast k) = Some Dir"
        using pk keep by (cases "butlast k = p") (auto simp: update_conv')
    qed
    with cl' show ?thesis by simp
  qed
  from d r e show ?thesis
    by (auto simp: fs_wf_def list_all_iff)
qed

lemma prefix_snoc_Cons_iff:
  "(prefix q (pre @ s # rest) \<and> length pre < length q) \<longleftrightarrow>
     q = pre @ [s] \<or> (prefix q ((pre @ [s]) @ rest) \<and> length (pre @ [s]) < length q)"
  by (auto simp: prefix_append prefix_Cons dest: prefix_length_le)

text \<open>\<open>mkdir -p\<close> succeeds exactly when no file lies on the path below the walk's start.\<close>

lemma mkdir_walk_Inr_iff:
  "(\<exists>fs'. mkdir_walk fs pre rest = Inr fs') \<longleftrightarrow>
     (\<forall>q c. prefix q (pre @ rest) \<and> length pre < length q \<longrightarrow> map_of fs q \<noteq> Some (File c))"
proof (induction rest arbitrary: fs pre)
  case Nil
  then show ?case by (auto dest: prefix_length_le)
next
  case (Cons s rest)
  let ?P = "\<lambda>m q. prefix q ((pre @ [s]) @ rest) \<and> length (pre @ [s]) < length q \<longrightarrow>
              (\<forall>c. map_of m q \<noteq> Some (File c))"
  show ?case
  proof (cases "map_of fs (pre @ [s])")
    case None
    have "(\<exists>fs'. mkdir_walk fs pre (s # rest) = Inr fs') \<longleftrightarrow>
        (\<forall>q. ?P (AList.update (pre @ [s]) Dir fs) q)"
      using None Cons.IH [of "AList.update (pre @ [s]) Dir fs" "pre @ [s]"] by simp
    also have "\<dots> \<longleftrightarrow> (\<forall>q. ?P fs q)"
      by (rule iff_allI) (auto simp: update_conv')
    also have "\<dots> \<longleftrightarrow>
        (\<forall>q c. prefix q (pre @ s # rest) \<and> length pre < length q \<longrightarrow> map_of fs q \<noteq> Some (File c))"
      using None unfolding prefix_snoc_Cons_iff
      by auto
    finally show ?thesis .
  next
    case (Some n)
    show ?thesis
    proof (cases n)
      case Dir
      have "(\<exists>fs'. mkdir_walk fs pre (s # rest) = Inr fs') \<longleftrightarrow> (\<forall>q. ?P fs q)"
        using Some Dir Cons.IH [of fs "pre @ [s]"] by simp
      also have "\<dots> \<longleftrightarrow>
          (\<forall>q c. prefix q (pre @ s # rest) \<and> length pre < length q \<longrightarrow> map_of fs q \<noteq> Some (File c))"
        using Some Dir unfolding prefix_snoc_Cons_iff
        by auto
      finally show ?thesis .
    next
      case (File c)
      with Some show ?thesis
        unfolding prefix_snoc_Cons_iff by auto
    qed
  qed
qed

text \<open>After a successful \<open>mkdir -p\<close> every directory on the path exists; nothing else changed.\<close>

lemma mkdir_walk_lookup:
  "mkdir_walk fs pre rest = Inr fs' \<Longrightarrow>
     map_of fs' q = (if prefix q (pre @ rest) \<and> length pre < length q then Some Dir else map_of fs q)"
proof (induction rest arbitrary: fs pre)
  case Nil
  then show ?case by (auto dest: prefix_length_le)
next
  case (Cons s rest)
  show ?case
  proof (cases "map_of fs (pre @ [s])")
    case None
    with Cons.prems have "mkdir_walk (AList.update (pre @ [s]) Dir fs) (pre @ [s]) rest = Inr fs'"
      by simp
    from Cons.IH [OF this] show ?thesis
      unfolding prefix_snoc_Cons_iff by (auto simp: update_conv')
  next
    case (Some n)
    with Cons.prems obtain "n = Dir" and rec: "mkdir_walk fs (pre @ [s]) rest = Inr fs'"
      by (cases n) auto
    from Cons.IH [OF rec] Some \<open>n = Dir\<close> show ?thesis
      unfolding prefix_snoc_Cons_iff by auto
  qed
qed

lemma mkdir_walk_wf:
  "mkdir_walk fs pre rest = Inr fs' \<Longrightarrow> fs_wf fs \<Longrightarrow> map_of fs pre = Some Dir \<Longrightarrow>
     list_all clean_seg (pre @ rest) \<Longrightarrow> fs_wf fs'"
proof (induction rest arbitrary: fs pre)
  case Nil
  then show ?case by simp
next
  case (Cons s rest)
  show ?case
  proof (cases "map_of fs (pre @ [s])")
    case None
    with Cons.prems have rec: "mkdir_walk (AList.update (pre @ [s]) Dir fs) (pre @ [s]) rest = Inr fs'"
      by simp
    have "fs_wf (AList.update (pre @ [s]) Dir fs)"
      using Cons.prems None by (intro fs_wf_update) auto
    moreover have "map_of (AList.update (pre @ [s]) Dir fs) (pre @ [s]) = Some Dir"
      by (simp add: update_conv')
    ultimately show ?thesis
      using Cons.IH [OF rec] Cons.prems by simp
  next
    case (Some n)
    with Cons.prems obtain "n = Dir" and rec: "mkdir_walk fs (pre @ [s]) rest = Inr fs'"
      by (cases n) auto
    with Some Cons.prems show ?thesis
      using Cons.IH [OF rec] by simp
  qed
qed

lemma fs_mkdir_p_wf [fs_simps]:
  "fs_mkdir_p fs p = Inr fs' \<Longrightarrow> fs_wf fs \<Longrightarrow> list_all clean_seg p \<Longrightarrow> fs_wf fs'"
  unfolding fs_mkdir_p_def by (erule mkdir_walk_wf) (auto simp: fs_wf_def)

lemma fs_mkdir_p_lookup:
  "fs_mkdir_p fs p = Inr fs' \<Longrightarrow> map_of fs' q = (if prefix q p \<and> q \<noteq> [] then Some Dir else map_of fs q)"
  unfolding fs_mkdir_p_def by (drule mkdir_walk_lookup) simp

lemma fs_mkdir_p_Inr_iff:
  "(\<exists>fs'. fs_mkdir_p fs p = Inr fs') \<longleftrightarrow> (\<forall>q c. prefix q p \<and> q \<noteq> [] \<longrightarrow> map_of fs q \<noteq> Some (File c))"
  unfolding fs_mkdir_p_def mkdir_walk_Inr_iff by simp

lemma fs_write_Inr:
  "fs_write fs p c = Inr fs' \<Longrightarrow>
     fs' = AList.update p (File c) fs \<and> p \<noteq> [] \<and> map_of fs (butlast p) = Some Dir \<and> map_of fs p \<noteq> Some Dir"
  by (auto simp: fs_write_def split: option.splits node.splits if_splits)

lemma fs_write_Inr_iff:
  "(\<exists>fs'. fs_write fs p c = Inr fs') \<longleftrightarrow>
     p \<noteq> [] \<and> map_of fs (butlast p) = Some Dir \<and> map_of fs p \<noteq> Some Dir"
  by (auto simp: fs_write_def split: option.splits node.splits)

lemma fs_write_wf [fs_simps]:
  "fs_write fs p c = Inr fs' \<Longrightarrow> fs_wf fs \<Longrightarrow> list_all clean_seg p \<Longrightarrow> fs_wf fs'"
  by (drule fs_write_Inr) (auto intro!: fs_wf_update)

lemma fs_rm_rf_Inr:
  "fs_rm_rf fs p = Inr fs' \<Longrightarrow> fs' = filter (\<lambda>(k, n). \<not> prefix p k) fs \<and> p \<noteq> [] \<and> map_of fs p \<noteq> None"
  by (auto simp: fs_rm_rf_def split: option.splits if_splits)

lemma prefix_butlast_prefix: "prefix p (butlast k) \<Longrightarrow> prefix p k"
  unfolding prefix_def by (cases k rule: rev_cases) auto

lemma fs_rm_rf_wf [fs_simps]:
  assumes rm: "fs_rm_rf fs p = Inr fs'" and wf: "fs_wf fs"
  shows "fs_wf fs'"
proof -
  from fs_rm_rf_Inr [OF rm] have fs': "fs' = filter (\<lambda>(k, n). \<not> prefix p k) fs" and ne: "p \<noteq> []"
    by auto
  have "\<not> prefix p []" using ne by simp
  moreover have "\<not> prefix p (butlast k)" if "\<not> prefix p k" for k
    using that prefix_butlast_prefix by blast
  ultimately show ?thesis
    using wf unfolding fs' fs_wf_def
    by (auto simp: list_all_iff)
qed

text \<open>In a well-formed file system every ancestor of a directory is a directory.\<close>

lemma fs_wf_ancestor_dir:
  "fs_wf fs \<Longrightarrow> map_of fs p = Some Dir \<Longrightarrow> prefix q p \<Longrightarrow> map_of fs q = Some Dir"
proof (induction p rule: rev_induct)
  case Nil
  then show ?case by simp
next
  case (snoc x p)
  show ?case
  proof (cases "q = p @ [x]")
    case True
    with snoc.prems show ?thesis by simp
  next
    case False
    with snoc.prems(3) have "prefix q p" by simp
    moreover have "map_of fs p = Some Dir"
      using fs_wf_parent [OF snoc.prems(1) snoc.prems(2)] by simp
    ultimately show ?thesis using snoc.IH snoc.prems(1) by blast
  qed
qed

end
