(* ===== verification/World.thy ===== *)
theory World
  imports FileSystem
begin

text \<open>
  The world an installer call runs in: the file system and the log of every
  external call it makes (file-system calls with the resolved path, the
  URLs fetched, and the catalog requests with their query parameters).  An effectful operation is a function from the world to a
  result and the new world; the result is \<open>Inl\<close> of an exception when the
  promise of the call rejects.  \<open>io_bind\<close> sequences two operations and
  stops at the first exception, as \<open>await\<close> inside an \<open>async\<close> function
  without \<open>try\<close> does.  Each \<open>fs\<close> call is logged before it runs, whether
  it succeeds or not.
\<close>

section \<open>The world and its combinators\<close>

datatype event =
    Ev_access path | Ev_mkdir path | Ev_write path | Ev_read path
  | Ev_readdir path | Ev_rm path | Ev_fetch url
  | Ev_api string "(string \<times> string) list"

text \<open>
  An exception: a rejected file-system promise (the error code and the
  resolved path), or a failed catalog request (\<open>Vibe Index API error\<close>).
\<close>

datatype exn = Fs_error errno path | Api_failure

record world =
  w_fs :: fs
  w_log :: "event list"

type_synonym 'a io = "world \<Rightarrow> (exn + 'a) \<times> world"

definition io_return :: "'a \<Rightarrow> 'a io" where
  "io_return a w = (Inr a, w)"

definition io_bind :: "'a io \<Rightarrow> ('a \<Rightarrow> 'b io) \<Rightarrow> 'b io" where
  "io_bind m f w = (case m w of (Inr a, w') \<Rightarrow> f a w' | (Inl e, w') \<Rightarrow> (Inl e, w'))"

definition logged :: "event \<Rightarrow> world \<Rightarrow> world" where
  "logged e w = w\<lparr>w_log := w_log w @ [e]\<rparr>"

definition fetch_log :: "url list \<Rightarrow> world \<Rightarrow> world" where
  "fetch_log us w = w\<lparr>w_log := w_log w @ map Ev_fetch us\<rparr>"

section \<open>File-system calls\<close>

text \<open>\<open>fs.access(p)\<close>: rejects with \<open>ENOENT\<close> when nothing is at \<open>p\<close>.\<close>

definition fs_access_io :: "string \<Rightarrow> string \<Rightarrow> unit io" where
  "fs_access_io cwd p w =
     (let q = os_path cwd p; w' = logged (Ev_access q) w
      in if map_of (w_fs w) q = None then (Inl (Fs_error ENOENT q), w') else (Inr (), w'))"

definition fs_mkdir_io :: "string \<Rightarrow> string \<Rightarrow> unit io" where
  "fs_mkdir_io cwd p w =
     (let q = os_path cwd p; w' = logged (Ev_mkdir q) w
      in case fs_mkdir_p (w_fs w) q of
           Inl e \<Rightarrow> (Inl (Fs_error e q), w')
         | Inr f \<Rightarrow> (Inr (), w'\<lparr>w_fs := f\<rparr>))"

definition fs_writeFile_io :: "string \<Rightarrow> string \<Rightarrow> string \<Rightarrow> unit io" where
  "fs_writeFile_io cwd p c w =
     (let q = os_path cwd p; w' = logged (Ev_write q) w
      in case fs_write (w_fs w) q c of
           Inl e \<Rightarrow> (Inl (Fs_error e q), w')
         | Inr f \<Rightarrow> (Inr (), w'\<lparr>w_fs := f\<rparr>))"

definition fs_readFile_io :: "string \<Rightarrow> string \<Rightarrow> string io" where
  "fs_readFile_io cwd p w =
     (let q = os_path cwd p; w' = logged (Ev_read q) w
      in case fs_read (w_fs w) q of
           Inl e \<Rightarrow> (Inl (Fs_error e q), w')
         | Inr c \<Rightarrow> (Inr c, w'))"

definition fs_readdir_io :: "string \<Rightarrow> string \<Rightarrow> (string \<times> bool) list io" where
  "fs_readdir_io cwd p w =
     (let q = os_path cwd p; w' = logged (Ev_readdir q) w
      in case fs_readdir (w_fs w) q of
           Inl e \<Rightarrow> (Inl (Fs_error e q), w')
         | Inr es \<Rightarrow> (Inr es, w'))"

definition fs_rm_io :: "string \<Rightarrow> string \<Rightarrow> unit io" where
  "fs_rm_io cwd p w =
     (let q = os_path cwd p; w' = logged (Ev_rm q) w
      in case fs_rm_rf (w_fs w) q of
           Inl e \<Rightarrow> (Inl (Fs_error e q), w')
         | Inr f \<Rightarrow> (Inr (), w'\<lparr>w_fs := f\<rparr>))"

section \<open>Basic facts\<close>

lemma io_bind_Inr [io_simps]: "m w = (Inr a, w') \<Longrightarrow> io_bind m f w = f a w'"
  by (simp add: io_bind_def)

lemma io_bind_Inl [io_simps]: "m w = (Inl e, w') \<Longrightarrow> io_bind m f w = (Inl e, w')"
  by (simp add: io_bind_def)

lemma logged_fs [simp]: "w_fs (logged e w) = w_fs w"
  by (simp add: logged_def)

lemma fetch_log_fs [simp]: "w_fs (fetch_log us w) = w_fs w"
  by (simp add: fetch_log_def)

lemma os_path_clean [simp]: "list_all clean_seg (os_path cwd p)"
  by (simp add: os_path_def normalize_segs_clean)

text \<open>Reading calls leave the file system as it was.\<close>

lemma fs_access_io_fs [simp]: "w_fs (snd (fs_access_io cwd p w)) = w_fs w"
  by (simp add: fs_access_io_def Let_def)

lemma fs_readFile_io_fs [simp]: "w_fs (snd (fs_readFile_io cwd p w)) = w_fs w"
  by (simp add: fs_readFile_io_def Let_def split: sum.splits)

lemma fs_readdir_io_fs [simp]: "w_fs (snd (fs_readdir_io cwd p w)) = w_fs w"
  by (simp add: fs_readdir_io_def Let_def split: sum.splits)

text \<open>Writing calls keep the invariant.\<close>

lemma fs_mkdir_io_wf [fs_simps]:
  "fs_wf (w_fs w) \<Longrightarrow> fs_wf (w_fs (snd (fs_mkdir_io cwd p w)))"
  by (auto simp: fs_mkdir_io_def Let_def split: sum.splits intro: fs_mkdir_p_wf)

lemma fs_writeFile_io_wf [fs_simps]:
  "fs_wf (w_fs w) \<Longrightarrow> fs_wf (w_fs (snd (fs_writeFile_io cwd p c w)))"
  by (auto simp: fs_writeFile_io_def Let_def split: sum.splits intro: fs_write_wf)

lemma fs_rm_io_wf [fs_simps]:
  "fs_wf (w_fs w) \<Longrightarrow> fs_wf (w_fs (snd (fs_rm_io cwd p w)))"
  by (auto simp: fs_rm_io_def Let_def split: sum.splits intro: fs_rm_rf_wf)

text \<open>A property of the file system that every step of a sequence keeps, the sequence keeps.\<close>

lemma io_bind_keeps:
  assumes "\<And>w. P (w_fs w) \<Longrightarrow> P (w_fs (snd (m w)))"
    and "\<And>a w. P (w_fs w) \<Longrightarrow> P (w_fs (snd (f a w)))"
    and "P (w_fs w)"
  shows "P (w_fs (snd (io_bind m f w)))"
proof (cases "m w")
  case (Pair r w')
  have "P (w_fs w')" using assms(1) [OF assms(3)] Pair by simp
  with Pair assms(2) show ?thesis by (cases r) (auto simp: io_bind_def)
qed

text \<open>Turning a result into an answer keeps the world the call left.\<close>

lemma snd_result_case [simp]:
  "snd (case x of (Inl a, w) \<Rightarrow> (f a, w) | (Inr b, w) \<Rightarrow> (g b, w)) = snd x"
  by (auto split: prod.splits sum.splits)

lemma io_return_keeps: "P (w_fs w) \<Longrightarrow> P (w_fs (snd (io_return a w)))"
  by (simp add: io_return_def)

end
