(* ===== verification/Json.thy ===== *)
theory Json
  imports JsString
begin

text \<open>
  The JSON the installer writes and reads back: \<open>JSON.stringify(obj, null, 2)\<close>
  (ECMA-262 25.5.2) for an object whose values are strings, and
  \<open>JSON.parse\<close> (ECMA-262 25.5.1, the grammar of RFC 8259) for any text.
  Both are runtime library functions, modelled from the standard.  A parsed
  number keeps its lexeme; a \<open>\u\<close> escape above 0xFF is outside the
  8-bit character model and parses to an error; an object with a repeated
  key keeps the first position and the last value, as the object JavaScript
  builds does.  The parser is recursive descent with a fuel argument;
  fuel above twice the length of the text is always enough (lemma
  \<open>parse_fuel_enough\<close>): a nested value is entered after at least one
  character and a member or element after at least two.
\<close>

section \<open>JSON.stringify of a flat object of strings\<close>

definition hex_digit :: "nat \<Rightarrow> char" where
  "hex_digit n = (if n < 10 then char_of (48 + n) else char_of (87 + n))"

text \<open>QuoteJSONString (ECMA-262 25.5.2.3) on one character.\<close>

definition json_escape_char :: "char \<Rightarrow> string" where
  "json_escape_char c =
     (if c = CHR 0x22 then [CHR 0x5C, CHR 0x22]
      else if c = CHR 0x5C then [CHR 0x5C, CHR 0x5C]
      else if c = CHR 0x08 then [CHR 0x5C, CHR ''b'']
      else if c = CHR 0x0C then [CHR 0x5C, CHR ''f'']
      else if c = CHR 0x0A then [CHR 0x5C, CHR ''n'']
      else if c = CHR 0x0D then [CHR 0x5C, CHR ''r'']
      else if c = CHR 0x09 then [CHR 0x5C, CHR ''t'']
      else if of_char c < (32::nat)
      then [CHR 0x5C, CHR ''u'', CHR ''0'', CHR ''0'', hex_digit (of_char c div 16), hex_digit (of_char c mod 16)]
      else [c])"

definition json_quote :: "string \<Rightarrow> string" where
  "json_quote s = [CHR 0x22] @ concat (map json_escape_char s) @ [CHR 0x22]"

abbreviation json_member :: "string \<times> string \<Rightarrow> string" where
  "json_member kv \<equiv> (case kv of (k, v) \<Rightarrow> ''  '' @ json_quote k @ '': '' @ json_quote v)"

text \<open>\<open>JSON.stringify(obj, null, 2)\<close> for an object whose values are strings.\<close>

definition json_stringify_obj :: "(string \<times> string) list \<Rightarrow> string" where
  "json_stringify_obj kvs =
     (if kvs = [] then ''{}''
      else ''{'' @ [CHR 0x0A]
           @ js_join ('','' @ [CHR 0x0A]) (map json_member kvs)
           @ [CHR 0x0A] @ ''}'')"

section \<open>JSON.parse\<close>

datatype json = JNull | JBool bool | JNum string | JStr string | JArr "json list" | JObj "(string \<times> json) list"

definition json_ws :: "char \<Rightarrow> bool" where
  "json_ws c \<longleftrightarrow> c = CHR 0x20 \<or> c = CHR 0x09 \<or> c = CHR 0x0A \<or> c = CHR 0x0D"

definition skip_ws :: "string \<Rightarrow> string" where
  "skip_ws s = dropWhile json_ws s"

definition hex_val :: "char \<Rightarrow> nat option" where
  "hex_val c =
     (let n = of_char c :: nat
      in if 48 \<le> n \<and> n \<le> 57 then Some (n - 48)
         else if 97 \<le> n \<and> n \<le> 102 then Some (n - 87)
         else if 65 \<le> n \<and> n \<le> 70 then Some (n - 55)
         else None)"

definition hex4 :: "char \<Rightarrow> char \<Rightarrow> char \<Rightarrow> char \<Rightarrow> nat option" where
  "hex4 a b c d =
     (case (hex_val a, hex_val b, hex_val c, hex_val d) of
        (Some w, Some x, Some y, Some z) \<Rightarrow> Some (((w * 16 + x) * 16 + y) * 16 + z)
      | _ \<Rightarrow> None)"

text \<open>The single-character escapes of a JSON string.\<close>

definition unescape :: "char \<Rightarrow> char option" where
  "unescape d =
     (if d = CHR 0x22 then Some (CHR 0x22) else if d = CHR 0x5C then Some (CHR 0x5C)
      else if d = CHR ''/'' then Some (CHR ''/'') else if d = CHR ''b'' then Some (CHR 0x08)
      else if d = CHR ''f'' then Some (CHR 0x0C) else if d = CHR ''n'' then Some (CHR 0x0A)
      else if d = CHR ''r'' then Some (CHR 0x0D) else if d = CHR ''t'' then Some (CHR 0x09)
      else None)"

definition cons_fst :: "char \<Rightarrow> (string \<times> string) option \<Rightarrow> (string \<times> string) option" where
  "cons_fst c r = map_option (\<lambda>(s, rest). (c # s, rest)) r"

text \<open>The body of a string after its opening quote: the decoded text and what follows the closing quote.\<close>

fun parse_str :: "string \<Rightarrow> (string \<times> string) option" where
  "parse_str [] = None"
| "parse_str (c # cs) =
     (if c = CHR 0x22 then Some ([], cs)
      else if c = CHR 0x5C then
        (case cs of
           [] \<Rightarrow> None
         | d # ds \<Rightarrow>
             (if d = CHR ''u'' then
                (case ds of
                   a # b # e # f # rest \<Rightarrow>
                     (case hex4 a b e f of
                        Some n \<Rightarrow> if n < 256 then cons_fst (char_of n) (parse_str rest) else None
                      | None \<Rightarrow> None)
                 | _ \<Rightarrow> None)
              else (case unescape d of Some x \<Rightarrow> cons_fst x (parse_str ds) | None \<Rightarrow> None)))
      else if of_char c < (32::nat) then None
      else cons_fst c (parse_str cs))"

definition is_digit :: "char \<Rightarrow> bool" where
  "is_digit c \<longleftrightarrow> 48 \<le> (of_char c :: nat) \<and> (of_char c :: nat) \<le> 57"

definition digits1 :: "string \<Rightarrow> (string \<times> string) option" where
  "digits1 s = (let ds = takeWhile is_digit s in if ds = [] then None else Some (ds, dropWhile is_digit s))"

text \<open>A number: \<open>-? (0 | [1-9][0-9]* ) (. [0-9]+)? ([eE] [+-]? [0-9]+)?\<close>, as its lexeme.\<close>

definition parse_int_part :: "string \<Rightarrow> (string \<times> string) option" where
  "parse_int_part s =
     (case s of
        c # cs \<Rightarrow> if c = CHR ''0'' then Some (''0'', cs) else digits1 s
      | [] \<Rightarrow> None)"

definition parse_frac :: "string \<Rightarrow> (string \<times> string) option" where
  "parse_frac s =
     (case s of
        c # cs \<Rightarrow> if c = CHR ''.'' then map_option (\<lambda>(d, r). (c # d, r)) (digits1 cs) else Some ([], s)
      | [] \<Rightarrow> Some ([], s))"

definition parse_exp :: "string \<Rightarrow> (string \<times> string) option" where
  "parse_exp s =
     (case s of
        c # cs \<Rightarrow>
          if c = CHR ''e'' \<or> c = CHR ''E'' then
            (case cs of
               d # ds \<Rightarrow> if d = CHR ''+'' \<or> d = CHR ''-''
                          then map_option (\<lambda>(x, r). (c # d # x, r)) (digits1 ds)
                          else map_option (\<lambda>(x, r). (c # x, r)) (digits1 cs)
             | [] \<Rightarrow> None)
          else Some ([], s)
      | [] \<Rightarrow> Some ([], s))"

definition parse_num :: "string \<Rightarrow> (string \<times> string) option" where
  "parse_num s =
     (let (m, s1) = (case s of c # cs \<Rightarrow> if c = CHR ''-'' then (''-'', cs) else ([], s) | [] \<Rightarrow> ([], s))
      in case parse_int_part s1 of
           None \<Rightarrow> None
         | Some (i, s2) \<Rightarrow>
             (case parse_frac s2 of
                None \<Rightarrow> None
              | Some (f, s3) \<Rightarrow>
                  (case parse_exp s3 of
                     None \<Rightarrow> None
                   | Some (e, s4) \<Rightarrow> Some (m @ i @ f @ e, s4))))"

fun parse_value :: "nat \<Rightarrow> string \<Rightarrow> (json \<times> string) option"
and parse_elems :: "nat \<Rightarrow> json list \<Rightarrow> string \<Rightarrow> (json list \<times> string) option"
and parse_members :: "nat \<Rightarrow> (string \<times> json) list \<Rightarrow> string \<Rightarrow> ((string \<times> json) list \<times> string) option" where
  "parse_value 0 s = None"
| "parse_value (Suc n) s =
     (case skip_ws s of
        [] \<Rightarrow> None
      | c # cs \<Rightarrow>
          if c = CHR ''{'' then
            (case skip_ws cs of
               [] \<Rightarrow> None
             | d # ds \<Rightarrow> if d = CHR ''}'' then Some (JObj [], ds)
                         else map_option (\<lambda>(m, r). (JObj m, r)) (parse_members n [] cs))
          else if c = CHR ''['' then
            (case skip_ws cs of
               [] \<Rightarrow> None
             | d # ds \<Rightarrow> if d = CHR '']'' then Some (JArr [], ds)
                         else map_option (\<lambda>(vs, r). (JArr vs, r)) (parse_elems n [] cs))
          else if c = CHR 0x22 then map_option (\<lambda>(t, r). (JStr t, r)) (parse_str cs)
          else if startsWith (c # cs) ''true'' then Some (JBool True, drop 4 (c # cs))
          else if startsWith (c # cs) ''false'' then Some (JBool False, drop 5 (c # cs))
          else if startsWith (c # cs) ''null'' then Some (JNull, drop 4 (c # cs))
          else map_option (\<lambda>(t, r). (JNum t, r)) (parse_num (c # cs)))"
| "parse_elems 0 acc s = None"
| "parse_elems (Suc n) acc s =
     (case parse_value n s of
        None \<Rightarrow> None
      | Some (v, r) \<Rightarrow>
          (case skip_ws r of
             [] \<Rightarrow> None
           | d # ds \<Rightarrow>
               if d = CHR '','' then parse_elems n (acc @ [v]) ds
               else if d = CHR '']'' then Some (acc @ [v], ds)
               else None))"
| "parse_members 0 acc s = None"
| "parse_members (Suc n) acc s =
     (case skip_ws s of
        [] \<Rightarrow> None
      | d # ds \<Rightarrow>
          if d \<noteq> CHR 0x22 then None
          else
            (case parse_str ds of
               None \<Rightarrow> None
             | Some (k, r) \<Rightarrow>
                 (case skip_ws r of
                    [] \<Rightarrow> None
                  | e # es \<Rightarrow>
                      if e \<noteq> CHR '':'' then None
                      else
                        (case parse_value n es of
                           None \<Rightarrow> None
                         | Some (v, r2) \<Rightarrow>
                             (case skip_ws r2 of
                                [] \<Rightarrow> None
                              | g # gs \<Rightarrow>
                                  if g = CHR '','' then parse_members n (AList.update k v acc) gs
                                  else if g = CHR ''}'' then Some (AList.update k v acc, gs)
                                  else None)))))"

definition json_parse :: "string \<Rightarrow> json option" where
  "json_parse s =
     (case parse_value (Suc (2 * length s)) s of
        Some (v, r) \<Rightarrow> if skip_ws r = [] then Some v else None
      | None \<Rightarrow> None)"

section \<open>Reading back what was written\<close>

lemma hex_val_hex_digit: "k < 16 \<Longrightarrow> hex_val (hex_digit k) = Some k"
  by (auto simp: hex_val_def hex_digit_def Let_def)

lemma hex4_escape:
  assumes "of_char c < (32::nat)"
  shows "hex4 (CHR ''0'') (CHR ''0'') (hex_digit (of_char c div 16)) (hex_digit (of_char c mod 16)) = Some (of_char c)"
proof -
  have d: "of_char c div 16 < (16::nat)" using assms by simp
  have z: "hex_val (CHR ''0'') = Some 0" by (simp add: hex_val_def)
  show ?thesis
    using d by (simp add: hex4_def hex_val_hex_digit z)
qed

lemma parse_str_escape_char:
  "parse_str (json_escape_char c @ rest) = cons_fst c (parse_str rest)"
proof (cases "of_char c < (32::nat) \<and> c \<noteq> CHR 0x08 \<and> c \<noteq> CHR 0x0C \<and> c \<noteq> CHR 0x0A \<and> c \<noteq> CHR 0x0D \<and> c \<noteq> CHR 0x09")
  case True
  then have lt: "of_char c < (32::nat)" by blast
  have ne: "c \<noteq> CHR 0x22" "c \<noteq> CHR 0x5C"
    by (rule notI, use lt in simp)+
  have e: "json_escape_char c = [CHR 0x5C, CHR ''u'', CHR ''0'', CHR ''0'',
      hex_digit (of_char c div 16), hex_digit (of_char c mod 16)]"
    using True ne unfolding json_escape_char_def by simp
  have h: "hex4 (CHR ''0'') (CHR ''0'') (hex_digit (of_char c div 16)) (hex_digit (of_char c mod 16))
      = Some (of_char c)"
    using True by (simp add: hex4_escape)
  have "of_char c < (256::nat)" using True by simp
  then show ?thesis
    by (simp only: e append_Cons append_Nil) (simp add: h)
next
  case False
  then show ?thesis
    by (auto simp: json_escape_char_def unescape_def)
qed

lemma parse_str_escaped:
  "parse_str (concat (map json_escape_char s) @ CHR 0x22 # rest) = Some (s, rest)"
  by (induction s) (simp_all add: parse_str_escape_char [where rest = "_ @ _", simplified] cons_fst_def)

lemma skip_ws_Cons [simp]: "skip_ws (c # s) = (if json_ws c then skip_ws s else c # s)"
  by (simp add: skip_ws_def)

lemma skip_ws_quote [simp]: "skip_ws (json_quote s @ r) = json_quote s @ r"
  by (simp add: skip_ws_def json_quote_def json_ws_def)

lemma parse_value_ws: "json_ws c \<Longrightarrow> parse_value n (c # s) = parse_value n s"
  by (cases n) simp_all

lemma json_quote_append: "json_quote s @ r = CHR 0x22 # concat (map json_escape_char s) @ CHR 0x22 # r"
  by (simp add: json_quote_def)

lemma parse_value_str: "parse_value (Suc n) (json_quote s @ r) = Some (JStr s, r)"
  by (simp add: json_quote_append json_ws_def parse_str_escaped)

lemma js_join_Cons: "js_join sep (x # xs) = x @ (if xs = [] then [] else sep @ js_join sep xs)"
  by (cases xs) simp_all

text \<open>One member, followed by what comes after it.\<close>

lemma parse_members_step:
  assumes r: "skip_ws R = g # gs"
  shows "parse_members (Suc (Suc m)) acc (CHR 0x0A # json_member (k, v) @ R) =
    (if g = CHR '','' then parse_members (Suc m) (AList.update k (JStr v) acc) gs
     else if g = CHR ''}'' then Some (AList.update k (JStr v) acc, gs) else None)"
proof -
  have s1: "skip_ws (CHR 0x0A # json_member (k, v) @ R) = json_quote k @ '': '' @ json_quote v @ R"
    by (simp add: json_ws_def)
  have s2: "parse_str (concat (map json_escape_char k) @ CHR 0x22 # '': '' @ json_quote v @ R)
      = Some (k, '': '' @ json_quote v @ R)"
    by (rule parse_str_escaped)
  have s3: "parse_value (Suc m) (CHR 0x20 # json_quote v @ R) = Some (JStr v, R)"
    using parse_value_ws [of "CHR 0x20" "Suc m"] parse_value_str by (simp add: json_ws_def)
  show ?thesis
    using s1 s2 s3 r
    by (simp add: json_quote_append json_ws_def del: parse_value.simps)
qed

lemma parse_members_items:
  "kvs \<noteq> [] \<Longrightarrow> length kvs < n \<Longrightarrow>
   parse_members n acc (CHR 0x0A # js_join ('','' @ [CHR 0x0A]) (map json_member kvs) @ CHR 0x0A # CHR ''}'' # rest)
     = Some (foldl (\<lambda>a (k, v). AList.update k (JStr v) a) acc kvs, rest)"
proof (induction kvs arbitrary: acc n)
  case Nil
  then show ?case by simp
next
  case (Cons kv kvs)
  obtain k v where kv: "kv = (k, v)" by fastforce
  have n: "n = Suc (Suc (n - 2))" using Cons.prems(2) by simp
  show ?case
  proof (cases "kvs = []")
    case True
    have "skip_ws (CHR 0x0A # CHR ''}'' # rest) = CHR ''}'' # rest" by (simp add: json_ws_def)
    from parse_members_step [OF this, of "n - 2" acc k v] True show ?thesis
      by (subst n) (simp add: kv js_join_Cons)
  next
    case False
    have "skip_ws (('','' @ [CHR 0x0A]) @ js_join ('','' @ [CHR 0x0A]) (map json_member kvs) @ CHR 0x0A # CHR ''}'' # rest)
        = CHR '','' # CHR 0x0A # js_join ('','' @ [CHR 0x0A]) (map json_member kvs) @ CHR 0x0A # CHR ''}'' # rest"
      by (simp add: json_ws_def)
    from parse_members_step [OF this, of "n - 2" acc k v] False
      Cons.IH [OF False, of "Suc (n - 2)" "AList.update k (JStr v) acc"] Cons.prems(2)
    show ?thesis
      by (subst n) (simp add: kv js_join_Cons)
  qed
qed

lemma update_new: "k \<notin> fst ` set al \<Longrightarrow> AList.update k v al = al @ [(k, v)]"
  by (induction al) auto

lemma foldl_update_distinct:
  "distinct (map fst kvs) \<Longrightarrow> fst ` set acc \<inter> fst ` set kvs = {} \<Longrightarrow>
   foldl (\<lambda>a (k, v). AList.update k (JStr v) a) acc kvs = acc @ map (\<lambda>(k, v). (k, JStr v)) kvs"
proof (induction kvs arbitrary: acc)
  case Nil
  then show ?case by simp
next
  case (Cons kv kvs)
  obtain k v where kv: "kv = (k, v)" by fastforce
  have "k \<notin> fst ` set acc" using Cons.prems(2) kv by auto
  then have "AList.update k (JStr v) acc = acc @ [(k, JStr v)]" by (rule update_new)
  moreover have "fst ` set (acc @ [(k, JStr v)]) \<inter> fst ` set kvs = {}"
    using Cons.prems kv by auto
  ultimately show ?case
    using Cons.IH [of "acc @ [(k, JStr v)]"] Cons.prems(1) kv by simp
qed

lemma length_js_join_members: "length kvs \<le> length (js_join sep (map json_member kvs))"
  by (induction kvs) (auto simp: js_join_Cons json_quote_def split: prod.splits)

lemma parse_value_obj:
  assumes "skip_ws X = d # ds" and "d \<noteq> CHR ''}''"
  shows "parse_value (Suc n) (CHR ''{'' # X) = map_option (\<lambda>(m, r). (JObj m, r)) (parse_members n [] X)"
  using assms by (simp add: json_ws_def)

theorem json_parse_stringify:
  assumes d: "distinct (map fst kvs)"
  shows "json_parse (json_stringify_obj kvs) = Some (JObj (map (\<lambda>(k, v). (k, JStr v)) kvs))"
proof (cases "kvs = []")
  case True
  then show ?thesis by (simp add: json_parse_def json_stringify_obj_def json_ws_def skip_ws_def eval_nat_numeral)
next
  case False
  let ?J = "js_join ('','' @ [CHR 0x0A]) (map json_member kvs)"
  let ?X = "CHR 0x0A # ?J @ CHR 0x0A # CHR ''}'' # []"
  obtain k v kvs' where kvs: "kvs = (k, v) # kvs'" using False by (metis list.exhaust prod.exhaust)
  have s: "json_stringify_obj kvs = CHR ''{'' # ?X"
    using False by (simp add: json_stringify_obj_def)
  let ?R = "(if kvs' = [] then [] else ('','' @ [CHR 0x0A]) @ js_join ('','' @ [CHR 0x0A]) (map json_member kvs'))
      @ CHR 0x0A # CHR ''}'' # []"
  have "?X = CHR 0x0A # json_member (k, v) @ ?R" by (simp add: kvs js_join_Cons)
  then have sk: "skip_ws ?X = CHR 0x22 # concat (map json_escape_char k) @ CHR 0x22 # '': '' @ json_quote v @ ?R"
    by (simp add: json_ws_def json_quote_append)
  have m: "parse_members (2 * length (json_stringify_obj kvs)) [] ?X = Some (map (\<lambda>(k, v). (k, JStr v)) kvs, [])"
    using parse_members_items [OF False, of "2 * length (json_stringify_obj kvs)" "[]" "[]"]
      foldl_update_distinct [OF d, of "[]"] length_js_join_members [of kvs "'','' @ [CHR 0x0A]"]
    by (simp add: s)
  have "parse_value (Suc (2 * length (json_stringify_obj kvs))) (json_stringify_obj kvs)
      = Some (JObj (map (\<lambda>(k, v). (k, JStr v)) kvs), [])"
    unfolding s using parse_value_obj [OF sk, of "2 * length (CHR ''{'' # ?X)"] m s by simp
  then show ?thesis by (simp add: json_parse_def skip_ws_def)
qed

section \<open>The parser's fuel\<close>

text \<open>Each parser returns a strictly shorter rest (the \<open>decreasing\<close> lemmas).\<close>

lemma length_skip_ws [simp]: "length (skip_ws s) \<le> length s"
  by (simp add: skip_ws_def length_dropWhile_le)

lemma decreasing_parse_str: "parse_str s = Some (t, r) \<Longrightarrow> length r < length s"
proof (induction s arbitrary: t rule: parse_str.induct)
  case 1
  then show ?case by simp
next
  case (2 c cs)
  show ?case
  proof (cases "c = CHR 0x22 \<or> c = CHR 0x5C")
    case True
    with 2 show ?thesis
      by (auto simp: cons_fst_def split: if_splits list.splits option.splits) fastforce+
  next
    case False
    with 2 show ?thesis by (auto simp: cons_fst_def split: if_splits)
  qed
qed

lemma decreasing_digits1: "digits1 s = Some (d, r) \<Longrightarrow> length r < length s"
proof -
  assume a: "digits1 s = Some (d, r)"
  then have "takeWhile is_digit s \<noteq> []" "r = dropWhile is_digit s"
    by (auto simp: digits1_def Let_def split: if_splits)
  then show ?thesis
    by (metis takeWhile_dropWhile_id length_append length_greater_0_conv less_add_same_cancel2)
qed

lemma decreasing_parse_num: "parse_num s = Some (t, r) \<Longrightarrow> length r < length s"
  by (auto simp: parse_num_def parse_int_part_def parse_frac_def parse_exp_def Let_def
      split: list.splits if_splits option.splits prod.splits dest!: decreasing_digits1)

lemma skip_ws_Cons_less: "skip_ws s = c # cs \<Longrightarrow> length cs < length s"
  using length_skip_ws [of s] by simp

lemma startsWith_length: "startsWith s p \<Longrightarrow> length p \<le> length s"
  by (auto simp: startsWith_def dest: arg_cong [where f = length])

lemma decreasing_parse:
  "parse_value n s = Some (v, r) \<Longrightarrow> length r < length s"
  "parse_elems n acc s = Some (vs, r) \<Longrightarrow> length r < length s"
  "parse_members n macc s = Some (m, r) \<Longrightarrow> length r < length s"
proof (induction n s and n acc s and n macc s arbitrary: v r and vs r and m r
    rule: parse_value_parse_elems_parse_members.induct)
  case (2 n s)
  then show ?case
    by (auto split: list.splits if_splits option.splits
        dest!: skip_ws_Cons_less decreasing_parse_str decreasing_parse_num startsWith_length)
       (meson less_trans)+
next
  case (4 n acc s)
  then show ?case
    by (auto split: list.splits if_splits option.splits dest!: skip_ws_Cons_less) fastforce+
next
  case (6 n macc s)
  then show ?case
    by (auto split: list.splits if_splits option.splits dest!: skip_ws_Cons_less decreasing_parse_str)
       fastforce+
qed simp_all

text \<open>More fuel than twice the length of the text does not change the result.\<close>

lemma parse_fuel_suc:
  "2 * length s < n \<Longrightarrow> parse_value (Suc n) s = parse_value n s"
  "2 * length s + 1 < n \<Longrightarrow> parse_elems (Suc n) acc s = parse_elems n acc s"
  "2 * length s + 1 < n \<Longrightarrow> parse_members (Suc n) macc s = parse_members n macc s"
proof (induction n s and n acc s and n macc s rule: parse_value_parse_elems_parse_members.induct)
  case (2 n s)
  show ?case
  proof (cases "skip_ws s")
    case Nil
    then show ?thesis by simp
  next
    case (Cons c cs)
    have lt: "2 * length cs + 1 < n" using 2(3) skip_ws_Cons_less [OF Cons] by simp
    have pm: "parse_members (Suc n) [] cs = parse_members n [] cs"
      if "c = CHR ''{''" "skip_ws cs = d # ds" "d \<noteq> CHR ''}''" for d ds
      using 2(1) [OF Cons that lt] .
    have pe: "parse_elems (Suc n) [] cs = parse_elems n [] cs"
      if "c \<noteq> CHR ''{''" "c = CHR ''[''" "skip_ws cs = d # ds" "d \<noteq> CHR '']''" for d ds
      using 2(2) [OF Cons that lt] .
    show ?thesis
      using Cons pm pe by (auto split: list.split)
  qed
next
  case (4 n acc s)
  have v: "parse_value (Suc n) s = parse_value n s" using 4(3) by (intro 4(1)) simp
  show ?case
  proof (cases "parse_value n s")
    case None
    then show ?thesis using v by simp
  next
    case (Some vr)
    obtain v r where vr: "vr = (v, r)" by fastforce
    have lr: "length r < length s" using decreasing_parse(1) Some vr by blast
    show ?thesis
    proof (cases "skip_ws r")
      case Nil
      then show ?thesis using v Some vr by simp
    next
      case (Cons d ds)
      have "2 * length ds + 1 < n" using 4(3) lr skip_ws_Cons_less [OF Cons] by simp
      then show ?thesis using v Some vr Cons 4(2) by auto
    qed
  qed
next
  case (6 n macc s)
  show ?case
  proof (cases "skip_ws s")
    case Nil
    then show ?thesis by simp
  next
    case (Cons d ds)
    have l1: "length ds < length s" by (rule skip_ws_Cons_less [OF Cons])
    show ?thesis
    proof (cases "d = CHR 0x22")
      case False
      then show ?thesis using Cons by simp
    next
      case True
      show ?thesis
      proof (cases "parse_str ds")
        case None
        then show ?thesis using Cons True by simp
      next
        case (Some kr)
        obtain k r where kr: "kr = (k, r)" by fastforce
        have l2: "length r < length ds" using decreasing_parse_str Some kr by blast
        show ?thesis
        proof (cases "skip_ws r")
          case Nil
          then show ?thesis using Cons True Some kr by simp
        next
          case Cons2: (Cons e es)
          have l3: "length es < length r" by (rule skip_ws_Cons_less [OF Cons2])
          show ?thesis
          proof (cases "e = CHR '':''")
            case False
            then show ?thesis using Cons True \<open>parse_str ds = Some kr\<close> kr Cons2 by simp
          next
            case colon: True
            have v: "parse_value (Suc n) es = parse_value n es"
              using 6(1) [OF Cons _ \<open>parse_str ds = Some kr\<close> kr [symmetric] Cons2] True colon 6(3) l1 l2 l3
              by simp
            show ?thesis
            proof (cases "parse_value n es")
              case None
              then show ?thesis using Cons True \<open>parse_str ds = Some kr\<close> kr Cons2 colon v by simp
            next
              case (Some vr2)
              obtain v r2 where vr2: "vr2 = (v, r2)" by fastforce
              have l4: "length r2 < length es" using decreasing_parse(1) Some vr2 by blast
              show ?thesis
              proof (cases "skip_ws r2")
                case Nil
                then show ?thesis using Cons True \<open>parse_str ds = Some kr\<close> kr Cons2 colon v Some vr2 by simp
              next
                case Cons3: (Cons g gs)
                have l5: "length gs < length r2" by (rule skip_ws_Cons_less [OF Cons3])
                have m: "parse_members (Suc n) (AList.update k v macc) gs = parse_members n (AList.update k v macc) gs"
                  if "g = CHR '',''"
                  using 6(2) [OF Cons _ \<open>parse_str ds = Some kr\<close> kr [symmetric] Cons2 _ Some vr2 [symmetric] Cons3]
                    True colon that 6(3) l1 l2 l3 l4 l5 by simp
                show ?thesis
                  using Cons True \<open>parse_str ds = Some kr\<close> kr Cons2 colon v Some vr2 Cons3 m by simp
              qed
            qed
          qed
        qed
      qed
    qed
  qed
qed simp_all

lemma parse_fuel_enough:
  assumes "2 * length s < n" and "n \<le> m"
  shows "parse_value m s = parse_value n s"
  using assms(2)
proof (induction m)
  case 0
  then show ?case by simp
next
  case (Suc m)
  show ?case
  proof (cases "n \<le> m")
    case True
    then have "parse_value (Suc m) s = parse_value m s"
      using assms(1) by (intro parse_fuel_suc(1)) simp
    with Suc.IH True show ?thesis by simp
  next
    case False
    with Suc.prems show ?thesis by (simp add: le_Suc_eq)
  qed
qed

text \<open>\<open>json_parse\<close> gives the result of the parser run with any fuel above twice the length.\<close>

lemma json_parse_any_fuel:
  assumes "2 * length s < n"
  shows "json_parse s =
    (case parse_value n s of Some (v, r) \<Rightarrow> if skip_ws r = [] then Some v else None | None \<Rightarrow> None)"
proof -
  have "parse_value (Suc (2 * length s)) s = parse_value (max n (Suc (2 * length s))) s"
    by (rule parse_fuel_enough [symmetric]) simp_all
  also have "\<dots> = parse_value n s"
    using assms by (intro parse_fuel_enough) simp_all
  finally show ?thesis by (simp add: json_parse_def)
qed

end
