(* ===== verification/Installer.thy ===== *)
theory Installer
  imports Sanitizer Prober World Json
begin

text \<open>
  \<open>installSkillFromGitHub\<close> (\<open>src/src/skill-installer.ts\<close>, current revision,
  lines 261--342) with its result record and the tracking metadata it writes.
  The function takes the working directory and the configured skills
  directory (resolved once, see \<open>Sanitizer\<close>), the network oracle of the
  prober, the timestamp \<open>new Date().toISOString()\<close> would produce, the
  arguments of the call, and the world; it returns the \<open>InstallResult\<close>
  (or the exception a failed \<open>mkdir\<close> or \<open>writeFile\<close> raises) and the new
  world.  \<open>JSON.stringify(meta, null, 2)\<close> is that of \<open>Json\<close>.
\<close>

section \<open>Results and metadata\<close>

record InstallResult =
  success :: bool
  skillName :: string
  installPath :: "string option"
  sourceUrl :: "string option"
  error :: "string option"
  alreadyInstalled :: "bool option"

text \<open>The tracking record, keys \<open>installedBy\<close>, \<open>installedAt\<close>, \<open>source\<close>, \<open>sourceUrl\<close>, \<open>skillName\<close>.\<close>

record InstallMeta =
  installedBy :: string
  installedAt :: string
  source :: string
  metaSourceUrl :: string
  metaSkillName :: string

definition quoted :: "string \<Rightarrow> string" where
  "quoted s = [CHR 0x22] @ s @ [CHR 0x22]"

text \<open>The object literal of lines 323--329, in its key order.\<close>

definition meta_fields :: "InstallMeta \<Rightarrow> (string \<times> string) list" where
  "meta_fields m =
     [(''installedBy'', installedBy m), (''installedAt'', installedAt m), (''source'', source m),
      (''sourceUrl'', metaSourceUrl m), (''skillName'', metaSkillName m)]"

definition install_meta :: "string \<Rightarrow> string \<Rightarrow> string \<Rightarrow> url \<Rightarrow> string \<Rightarrow> InstallMeta" where
  "install_meta now owner repo url skill_name =
     \<lparr>installedBy = ''vibeclaw'', installedAt = now, source = ''github:'' @ owner @ ''/'' @ repo,
      metaSourceUrl = url, metaSkillName = skill_name\<rparr>"

section \<open>The results the function returns\<close>

definition invalid_name_result :: "string \<Rightarrow> InstallResult" where
  "invalid_name_result n =
     \<lparr>success = False, skillName = n, installPath = None, sourceUrl = None,
      error = Some (''Invalid skill name '' @ quoted n
                    @ ''. Names must be alphanumeric with hyphens/underscores only.''),
      alreadyInstalled = None\<rparr>"

definition already_result :: "string \<Rightarrow> string \<Rightarrow> InstallResult" where
  "already_result n dir =
     \<lparr>success = True, skillName = n, installPath = Some dir, sourceUrl = None, error = None,
      alreadyInstalled = Some True\<rparr>"

definition not_found_result :: "string \<Rightarrow> string \<Rightarrow> string \<Rightarrow> InstallResult" where
  "not_found_result owner repo n =
     \<lparr>success = False, skillName = n, installPath = None, sourceUrl = None,
      error = Some (''Could not find SKILL.md for '' @ quoted n @ '' in '' @ owner @ ''/'' @ repo
                    @ ''. Tried multiple paths.''),
      alreadyInstalled = None\<rparr>"

definition installed_result :: "string \<Rightarrow> string \<Rightarrow> url \<Rightarrow> InstallResult" where
  "installed_result n dir url =
     \<lparr>success = True, skillName = n, installPath = Some dir, sourceUrl = Some url, error = None,
      alreadyInstalled = None\<rparr>"

section \<open>installSkillFromGitHub\<close>

text \<open>
  The steps of lines 279--341: sanitize; if \<open>SKILL.md\<close> is accessible and
  \<open>force\<close> is not set, report it as installed; probe the candidates; create the
  directory, write \<open>SKILL.md\<close>, then write \<open>.vibeclaw.json\<close>.  The exception
  of \<open>fs.access\<close> is caught (lines 292--304); those of \<open>mkdir\<close> and
  \<open>writeFile\<close> propagate to the caller.
\<close>

definition write_skill ::
  "string \<Rightarrow> string \<Rightarrow> string \<Rightarrow> string \<Rightarrow> string \<Rightarrow> string \<Rightarrow> string \<Rightarrow> url \<Rightarrow> InstallResult io" where
  "write_skill cwd skillDir now owner repo skill_name content url =
     io_bind (fs_mkdir_io cwd skillDir) (\<lambda>_.
     io_bind (fs_writeFile_io cwd (path_join [skillDir, ''SKILL.md'']) content) (\<lambda>_.
     io_bind (fs_writeFile_io cwd (path_join [skillDir, ''.vibeclaw.json''])
                (json_stringify_obj (meta_fields (install_meta now owner repo url skill_name)))) (\<lambda>_.
     io_return (installed_result skill_name skillDir url))))"

definition installSkillFromGitHub ::
  "string \<Rightarrow> string \<Rightarrow> (url \<Rightarrow> fetch_outcome) \<Rightarrow> string \<Rightarrow> string \<Rightarrow> string \<Rightarrow> string \<Rightarrow> bool
    \<Rightarrow> InstallResult io" where
  "installSkillFromGitHub cwd sd net now owner repo skill_name force w =
     (case sanitizeSkillName cwd sd skill_name of
        None \<Rightarrow> (Inr (invalid_name_result skill_name), w)
      | Some safeName \<Rightarrow>
          (let skillDir = path_join [sd, safeName];
               skillFile = path_join [skillDir, ''SKILL.md''];
               (acc, w1) = fs_access_io cwd skillFile w
           in if acc = Inr () \<and> \<not> force
              then (Inr (already_result skill_name skillDir), w1)
              else
                (let (found, fetched) = downloadSkillMd net owner repo skill_name;
                     w2 = fetch_log fetched w1
                 in case found of
                      None \<Rightarrow> (Inr (not_found_result owner repo skill_name), w2)
                    | Some (content, url) \<Rightarrow>
                        write_skill cwd skillDir now owner repo skill_name content url w2)))"

text \<open>
  The side effects an installation into directory \<open>d\<close> may have: only the two
  files of \<open>d\<close> change, and directories on the way to \<open>d\<close> that were missing
  appear.  Only keys of the two file systems can differ, so the check ranges
  over them.
\<close>

definition confined :: "path \<Rightarrow> fs \<Rightarrow> fs \<Rightarrow> bool" where
  "confined d fs fs' \<longleftrightarrow>
     list_all (\<lambda>q. map_of fs' q \<noteq> map_of fs q \<longrightarrow>
                   q = d @ [''SKILL.md''] \<or> q = d @ [''.vibeclaw.json'']
                   \<or> (prefix q d \<and> q \<noteq> [] \<and> map_of fs q = None \<and> map_of fs' q = Some Dir))
       (map fst fs @ map fst fs')"

text \<open>
  Two example worlds for the witnesses: a skills directory \<open>/w/skills\<close> with
  nothing installed, and the same directory with skill \<open>n\<close> installed.
\<close>

definition w_skills :: world where
  "w_skills = \<lparr>w_fs = [([], Dir), ([''w''], Dir), ([''w'', ''skills''], Dir)], w_log = []\<rparr>"

definition w_installed :: world where
  "w_installed = \<lparr>w_fs = [([], Dir), ([''w''], Dir), ([''w'', ''skills''], Dir),
       ([''w'', ''skills'', ''n''], Dir), ([''w'', ''skills'', ''n'', ''SKILL.md''], File ''old''),
       ([''w'', ''skills'', ''n'', ''.vibeclaw.json''], File ''{}'')], w_log = []\<rparr>"

section \<open>Paths of an installation\<close>

text \<open>
  For a clean absolute skills directory \<open>abs_of ss\<close> and a sanitized name
  \<open>s\<close>, the installer works in \<open>ss @ [s]\<close> and writes exactly two files there.
\<close>

lemma clean_seg_skill_files [simp]: "clean_seg ''SKILL.md''" "clean_seg ''.vibeclaw.json''"
  by (simp_all add: clean_seg_def)

lemma skill_paths:
  assumes cp: "clean_path ss" and cs: "clean_seg s"
  shows "path_join [abs_of ss, s] = abs_of (ss @ [s])"
    and "path_join [abs_of (ss @ [s]), ''SKILL.md''] = abs_of (ss @ [s, ''SKILL.md''])"
    and "path_join [abs_of (ss @ [s]), ''.vibeclaw.json''] = abs_of (ss @ [s, ''.vibeclaw.json''])"
    and "os_path cwd (abs_of (ss @ [s])) = ss @ [s]"
    and "os_path cwd (abs_of (ss @ [s, ''SKILL.md''])) = ss @ [s, ''SKILL.md'']"
    and "os_path cwd (abs_of (ss @ [s, ''.vibeclaw.json''])) = ss @ [s, ''.vibeclaw.json'']"
proof -
  have d: "clean_path (ss @ [s])" using cp cs by (rule clean_path_snoc)
  show "path_join [abs_of ss, s] = abs_of (ss @ [s])"
    using cp cs by (rule path_join_child)
  show "path_join [abs_of (ss @ [s]), ''SKILL.md''] = abs_of (ss @ [s, ''SKILL.md''])"
    using path_join_child [OF d, of "''SKILL.md''"] by simp
  show "path_join [abs_of (ss @ [s]), ''.vibeclaw.json''] = abs_of (ss @ [s, ''.vibeclaw.json''])"
    using path_join_child [OF d, of "''.vibeclaw.json''"] by simp
  show "os_path cwd (abs_of (ss @ [s])) = ss @ [s]"
    using d by (rule os_path_abs_of)
  show "os_path cwd (abs_of (ss @ [s, ''SKILL.md''])) = ss @ [s, ''SKILL.md'']"
    using os_path_abs_of [OF clean_path_snoc [OF d, of "''SKILL.md''"]] by simp
  show "os_path cwd (abs_of (ss @ [s, ''.vibeclaw.json''])) = ss @ [s, ''.vibeclaw.json'']"
    using os_path_abs_of [OF clean_path_snoc [OF d, of "''.vibeclaw.json''"]] by simp
qed

abbreviation meta_json :: "string \<Rightarrow> string \<Rightarrow> string \<Rightarrow> url \<Rightarrow> string \<Rightarrow> string" where
  "meta_json now owner repo url n \<equiv> json_stringify_obj (meta_fields (install_meta now owner repo url n))"

text \<open>The three writing calls, as file-system operations on the resolved paths.\<close>

lemma write_skill_eq:
  assumes cp: "clean_path ss" and cs: "clean_seg s"
  shows "write_skill cwd (abs_of (ss @ [s])) now owner repo n c u w =
    (case fs_mkdir_p (w_fs w) (ss @ [s]) of
       Inl e \<Rightarrow> (Inl (Fs_error e (ss @ [s])), logged (Ev_mkdir (ss @ [s])) w)
     | Inr f1 \<Rightarrow>
         (case fs_write f1 (ss @ [s, ''SKILL.md'']) c of
            Inl e \<Rightarrow> (Inl (Fs_error e (ss @ [s, ''SKILL.md''])),
                      logged (Ev_write (ss @ [s, ''SKILL.md''])) ((logged (Ev_mkdir (ss @ [s])) w)\<lparr>w_fs := f1\<rparr>))
          | Inr f2 \<Rightarrow>
              (case fs_write f2 (ss @ [s, ''.vibeclaw.json'']) (meta_json now owner repo u n) of
                 Inl e \<Rightarrow> (Inl (Fs_error e (ss @ [s, ''.vibeclaw.json''])),
                           logged (Ev_write (ss @ [s, ''.vibeclaw.json'']))
                             ((logged (Ev_write (ss @ [s, ''SKILL.md'']))
                                ((logged (Ev_mkdir (ss @ [s])) w)\<lparr>w_fs := f1\<rparr>))\<lparr>w_fs := f2\<rparr>))
               | Inr f3 \<Rightarrow> (Inr (installed_result n (abs_of (ss @ [s])) u),
                           (logged (Ev_write (ss @ [s, ''.vibeclaw.json'']))
                             ((logged (Ev_write (ss @ [s, ''SKILL.md'']))
                                ((logged (Ev_mkdir (ss @ [s])) w)\<lparr>w_fs := f1\<rparr>))\<lparr>w_fs := f2\<rparr>))\<lparr>w_fs := f3\<rparr>))))"
  using skill_paths [OF cp cs]
  by (simp add: write_skill_def io_bind_def io_return_def fs_mkdir_io_def fs_writeFile_io_def Let_def
      split: sum.splits)

text \<open>The installer on a sanitized name, with the paths resolved.\<close>

lemma install_eq:
  assumes cp: "clean_path ss" and san: "sanitizeSkillName cwd (abs_of ss) n = Some s"
  shows "installSkillFromGitHub cwd (abs_of ss) net now owner repo n force w =
    (let w1 = logged (Ev_access (ss @ [s, ''SKILL.md''])) w
     in if map_of (w_fs w) (ss @ [s, ''SKILL.md'']) \<noteq> None \<and> \<not> force
        then (Inr (already_result n (abs_of (ss @ [s]))), w1)
        else (case downloadSkillMd net owner repo n of
                (None, t) \<Rightarrow> (Inr (not_found_result owner repo n), fetch_log t w1)
              | (Some (c, u), t) \<Rightarrow> write_skill cwd (abs_of (ss @ [s])) now owner repo n c u (fetch_log t w1)))"
proof -
  have cs: "clean_seg s" using san by (rule sanitize_Some_clean)
  show ?thesis
    using san skill_paths [OF cp cs]
    by (simp add: installSkillFromGitHub_def fs_access_io_def Let_def split: prod.splits option.splits)
qed

section \<open>The writing steps\<close>

lemma logged_logged_update:
  "(logged e3 ((logged e2 ((logged e1 w)\<lparr>w_fs := f1\<rparr>))\<lparr>w_fs := f2\<rparr>))\<lparr>w_fs := f3\<rparr>
     = w\<lparr>w_fs := f3, w_log := w_log w @ [e1, e2, e3]\<rparr>"
  by (simp add: logged_def)

lemma prefix_longer_not: "length d < length q \<Longrightarrow> \<not> prefix q d"
  by (auto dest: prefix_length_le)

lemma butlast_snoc2 [simp]: "butlast (xs @ [a, b]) = xs @ [a]"
  by (simp add: butlast_append)

text \<open>
  When no file lies on the way to the skill directory and neither target is
  a directory, the three calls succeed; afterwards the directory and its
  ancestors are directories and the two files hold the new contents.
\<close>

lemma write_skill_success:
  assumes cp: "clean_path ss" and cs: "clean_seg s"
    and nofile: "\<forall>q c'. prefix q (ss @ [s]) \<and> q \<noteq> [] \<longrightarrow> map_of (w_fs w) q \<noteq> Some (File c')"
    and nd1: "map_of (w_fs w) (ss @ [s, ''SKILL.md'']) \<noteq> Some Dir"
    and nd2: "map_of (w_fs w) (ss @ [s, ''.vibeclaw.json'']) \<noteq> Some Dir"
  shows "\<exists>f. write_skill cwd (abs_of (ss @ [s])) now owner repo n c u w =
           (Inr (installed_result n (abs_of (ss @ [s])) u),
            w\<lparr>w_fs := f, w_log := w_log w @ [Ev_mkdir (ss @ [s]), Ev_write (ss @ [s, ''SKILL.md'']),
                                            Ev_write (ss @ [s, ''.vibeclaw.json''])]\<rparr>)
         \<and> (\<forall>q. map_of f q =
               (if q = ss @ [s, ''.vibeclaw.json''] then Some (File (meta_json now owner repo u n))
                else if q = ss @ [s, ''SKILL.md''] then Some (File c)
                else if prefix q (ss @ [s]) \<and> q \<noteq> [] then Some Dir
                else map_of (w_fs w) q))"
proof -
  let ?d = "ss @ [s]"
  let ?f = "ss @ [s, ''SKILL.md'']" and ?m = "ss @ [s, ''.vibeclaw.json'']"
  from nofile obtain f1 where f1: "fs_mkdir_p (w_fs w) ?d = Inr f1"
    using fs_mkdir_p_Inr_iff [of "w_fs w" ?d] by blast
  have l1: "map_of f1 q = (if prefix q ?d \<and> q \<noteq> [] then Some Dir else map_of (w_fs w) q)" for q
    using fs_mkdir_p_lookup [OF f1] .
  have lf: "\<not> prefix ?f ?d" "\<not> prefix ?m ?d"
    by (simp_all add: prefix_longer_not)
  have "fs_write f1 ?f c = Inr (AList.update ?f (File c) f1)"
    using l1 [of ?d] l1 [of ?f] lf nd1 by (simp add: fs_write_def split: option.splits node.splits)
  moreover have "fs_write (AList.update ?f (File c) f1) ?m (meta_json now owner repo u n)
      = Inr (AList.update ?m (File (meta_json now owner repo u n)) (AList.update ?f (File c) f1))"
    using l1 [of ?d] l1 [of ?m] lf nd2
    by (simp add: fs_write_def update_conv' split: option.splits node.splits)
  ultimately have run: "write_skill cwd (abs_of ?d) now owner repo n c u w =
      (Inr (installed_result n (abs_of ?d) u),
       w\<lparr>w_fs := AList.update ?m (File (meta_json now owner repo u n)) (AList.update ?f (File c) f1),
         w_log := w_log w @ [Ev_mkdir ?d, Ev_write ?f, Ev_write ?m]\<rparr>)"
    using f1 by (simp add: write_skill_eq [OF cp cs] logged_logged_update)
  have "\<forall>q. map_of (AList.update ?m (File (meta_json now owner repo u n)) (AList.update ?f (File c) f1)) q =
      (if q = ?m then Some (File (meta_json now owner repo u n))
       else if q = ?f then Some (File c)
       else if prefix q ?d \<and> q \<noteq> [] then Some Dir
       else map_of (w_fs w) q)"
    by (simp add: update_conv' l1)
  with run show ?thesis by blast
qed

text \<open>After a fresh installation \<open>SKILL.md\<close> is in place.\<close>

lemma install_success_files:
  assumes cp: "clean_path ss" and san: "sanitizeSkillName cwd (abs_of ss) n = Some s"
    and run: "installSkillFromGitHub cwd (abs_of ss) net now owner repo n force w = (Inr r, w')"
    and fresh: "success r" "alreadyInstalled r = None"
  shows "\<exists>c u. sourceUrl r = Some u \<and> map_of (w_fs w') (ss @ [s, ''SKILL.md'']) = Some (File c)
           \<and> map_of (w_fs w') (ss @ [s, ''.vibeclaw.json'']) = Some (File (meta_json now owner repo u n))"
proof -
  have cs: "clean_seg s" using san by (rule sanitize_Some_clean)
  let ?w1 = "logged (Ev_access (ss @ [s, ''SKILL.md''])) w"
  have not_already: "\<not> (map_of (w_fs w) (ss @ [s, ''SKILL.md'']) \<noteq> None \<and> \<not> force)"
    using run fresh by (auto simp: install_eq [OF cp san] Let_def already_result_def split: if_splits)
  obtain c u t where dl: "downloadSkillMd net owner repo n = (Some (c, u), t)"
    using run fresh not_already
    by (cases "downloadSkillMd net owner repo n")
       (auto simp: install_eq [OF cp san] Let_def not_found_result_def split: option.splits)
  from run have ws: "write_skill cwd (abs_of (ss @ [s])) now owner repo n c u
      (fetch_log t ?w1) = (Inr r, w')"
    by (simp only: install_eq [OF cp san] Let_def if_not_P [OF not_already]) (simp add: dl)
  then show ?thesis
    by (auto simp: write_skill_eq [OF cp cs] logged_logged_update update_conv' installed_result_def
        split: sum.splits dest!: fs_write_Inr)
qed

text \<open>A forced installation whose probe finds content writes the record, when nothing is in its way.\<close>

lemma install_record_written:
  assumes cp: "clean_path ss" and san: "sanitizeSkillName cwd (abs_of ss) n = Some s"
    and dl: "downloadSkillMd net owner repo n = (Some (c, u), t)"
    and nofile: "\<forall>q c'. prefix q (ss @ [s]) \<and> q \<noteq> [] \<longrightarrow> map_of (w_fs w) q \<noteq> Some (File c')"
    and nd1: "map_of (w_fs w) (ss @ [s, ''SKILL.md'']) \<noteq> Some Dir"
    and nd2: "map_of (w_fs w) (ss @ [s, ''.vibeclaw.json'']) \<noteq> Some Dir"
  shows "map_of (w_fs (snd (installSkillFromGitHub cwd (abs_of ss) net now owner repo n True w)))
           (ss @ [s, ''.vibeclaw.json'']) = Some (File (meta_json now owner repo u n))"
proof -
  have cs: "clean_seg s" using san by (rule sanitize_Some_clean)
  let ?w2 = "fetch_log t (logged (Ev_access (ss @ [s, ''SKILL.md''])) w)"
  have run: "installSkillFromGitHub cwd (abs_of ss) net now owner repo n True w
      = write_skill cwd (abs_of (ss @ [s])) now owner repo n c u ?w2"
    by (simp add: install_eq [OF cp san] dl)
  show ?thesis
    unfolding run
    using write_skill_success [OF cp cs, of ?w2 cwd now owner repo n c u] nofile nd1 nd2
    by auto
qed

section \<open>Side effects stay in the skill directory\<close>

lemma confined_iff:
  "confined d fs fs' \<longleftrightarrow>
     (\<forall>q. map_of fs' q \<noteq> map_of fs q \<longrightarrow>
        q = d @ [''SKILL.md''] \<or> q = d @ [''.vibeclaw.json'']
        \<or> (prefix q d \<and> q \<noteq> [] \<and> map_of fs q = None \<and> map_of fs' q = Some Dir))"
proof -
  have "map_of fs' q = map_of fs q" if "q \<notin> set (map fst fs @ map fst fs')" for q
  proof -
    have "map_of fs q = None" "map_of fs' q = None"
      using that by (simp_all add: map_of_eq_None_iff image_iff)
    then show ?thesis by simp
  qed
  then show ?thesis
    unfolding confined_def list_all_iff by metis
qed

lemma confined_refl [simp]: "confined d fs fs"
  by (simp add: confined_iff)

lemma confined_mkdir:
  assumes mk: "fs_mkdir_p fs d = Inr f1"
  shows "confined d fs f1"
proof -
  have nf: "\<forall>q c. prefix q d \<and> q \<noteq> [] \<longrightarrow> map_of fs q \<noteq> Some (File c)"
    using mk fs_mkdir_p_Inr_iff by blast
  have "map_of fs q = None" if "prefix q d" "q \<noteq> []" "map_of fs q \<noteq> Some Dir" for q
  proof (cases "map_of fs q")
    case (Some a)
    with nf that show ?thesis by (cases a) auto
  qed simp
  then show ?thesis
    unfolding confined_iff fs_mkdir_p_lookup [OF mk] by auto
qed

lemma confined_write:
  assumes c: "confined d fs f" and p: "p = d @ [''SKILL.md''] \<or> p = d @ [''.vibeclaw.json'']"
    and wr: "fs_write f p x = Inr f'"
  shows "confined d fs f'"
proof -
  from fs_write_Inr [OF wr] have f': "f' = AList.update p (File x) f" by simp
  show ?thesis
    using c p unfolding confined_iff f' update_conv' by auto
qed

section \<open>Properties of installSkillFromGitHub\<close>

text \<open>
  C1: a raw name containing \<open>../\<close> or starting with a dot is refused with the
  "invalid skill name" result, and the world is left exactly as it was: no
  file-system call and no request is made.
\<close>

theorem install_rejects_traversal:
  assumes "js_includes n ''../'' \<or> startsWith n ''.''"
  shows "installSkillFromGitHub cwd sd net now owner repo n force w = (Inr (invalid_name_result n), w)"
  using sanitize_rejects_traversal [OF assms] by (simp add: installSkillFromGitHub_def)

text \<open>
  C5: when \<open>SKILL.md\<close> is present and \<open>force\<close> is not set, the call reports the
  skill as already installed after a single \<open>access\<close>: nothing is fetched
  and nothing is written.  Presence of \<open>SKILL.md\<close>, not of the install
  record, is what counts.
\<close>

theorem install_already_installed:
  assumes cp: "clean_path ss" and san: "sanitizeSkillName cwd (abs_of ss) n = Some s"
    and present: "map_of (w_fs w) (ss @ [s, ''SKILL.md'']) \<noteq> None"
  shows "installSkillFromGitHub cwd (abs_of ss) net now owner repo n False w =
           (Inr (already_result n (abs_of (ss @ [s]))), logged (Ev_access (ss @ [s, ''SKILL.md''])) w)"
  using present by (simp add: install_eq [OF cp san])

text \<open>
  C4: a fresh installation (or a forced one) whose probe finds content \<open>c\<close>
  at \<open>u\<close> writes \<open>c\<close> to \<open>SKILL.md\<close>, then the install record with the
  timestamp, source and URL, and reports success with the directory and URL;
  the calls are one \<open>access\<close>, the probe's requests, \<open>mkdir\<close>, and the two
  writes in that order.
\<close>

theorem install_fresh:
  assumes cp: "clean_path ss" and san: "sanitizeSkillName cwd (abs_of ss) n = Some s"
    and go: "map_of (w_fs w) (ss @ [s, ''SKILL.md'']) = None \<or> force"
    and dl: "downloadSkillMd net owner repo n = (Some (c, u), t)"
    and nofile: "\<forall>q c'. prefix q (ss @ [s]) \<and> q \<noteq> [] \<longrightarrow> map_of (w_fs w) q \<noteq> Some (File c')"
    and nd1: "map_of (w_fs w) (ss @ [s, ''SKILL.md'']) \<noteq> Some Dir"
    and nd2: "map_of (w_fs w) (ss @ [s, ''.vibeclaw.json'']) \<noteq> Some Dir"
  shows "\<exists>w'. installSkillFromGitHub cwd (abs_of ss) net now owner repo n force w
             = (Inr (installed_result n (abs_of (ss @ [s])) u), w')
         \<and> map_of (w_fs w') (ss @ [s, ''SKILL.md'']) = Some (File c)
         \<and> map_of (w_fs w') (ss @ [s, ''.vibeclaw.json'']) = Some (File (meta_json now owner repo u n))
         \<and> w_log w' = w_log w @ [Ev_access (ss @ [s, ''SKILL.md''])] @ map Ev_fetch t
                        @ [Ev_mkdir (ss @ [s]), Ev_write (ss @ [s, ''SKILL.md'']),
                           Ev_write (ss @ [s, ''.vibeclaw.json''])]"
proof -
  have cs: "clean_seg s" using san by (rule sanitize_Some_clean)
  let ?w2 = "fetch_log t (logged (Ev_access (ss @ [s, ''SKILL.md''])) w)"
  have go': "\<not> (map_of (w_fs w) (ss @ [s, ''SKILL.md'']) \<noteq> None \<and> \<not> force)"
    using go by auto
  have run: "installSkillFromGitHub cwd (abs_of ss) net now owner repo n force w =
      write_skill cwd (abs_of (ss @ [s])) now owner repo n c u ?w2"
    by (simp only: install_eq [OF cp san] Let_def if_not_P [OF go']) (simp add: dl)
  from write_skill_success [OF cp cs, of ?w2 cwd now owner repo n c u] nofile nd1 nd2
  obtain f where ws: "write_skill cwd (abs_of (ss @ [s])) now owner repo n c u ?w2 =
      (Inr (installed_result n (abs_of (ss @ [s])) u),
       ?w2\<lparr>w_fs := f, w_log := w_log ?w2 @ [Ev_mkdir (ss @ [s]), Ev_write (ss @ [s, ''SKILL.md'']),
                                        Ev_write (ss @ [s, ''.vibeclaw.json''])]\<rparr>)"
    and lk: "\<forall>q. map_of f q =
               (if q = ss @ [s, ''.vibeclaw.json''] then Some (File (meta_json now owner repo u n))
                else if q = ss @ [s, ''SKILL.md''] then Some (File c)
                else if prefix q (ss @ [s]) \<and> q \<noteq> [] then Some Dir
                else map_of (w_fs ?w2) q)"
    by auto
  show ?thesis
    using run ws lk by (simp add: fetch_log_def logged_def)
qed

text \<open>
  C6: after a successful fresh installation, installing the same name again
  without \<open>force\<close> is a no-op that reports \<open>alreadyInstalled\<close>: one
  \<open>access\<close>, no request, no write.
\<close>

theorem install_twice_is_noop:
  assumes cp: "clean_path ss" and san: "sanitizeSkillName cwd (abs_of ss) n = Some s"
    and first: "installSkillFromGitHub cwd (abs_of ss) net now owner repo n force w = (Inr r, w')"
    and fresh: "success r" "alreadyInstalled r = None"
  shows "installSkillFromGitHub cwd (abs_of ss) net' now' owner' repo' n False w' =
           (Inr (already_result n (abs_of (ss @ [s]))), logged (Ev_access (ss @ [s, ''SKILL.md''])) w')"
  using install_success_files [OF cp san first fresh]
  by (auto simp: install_eq [OF cp san])

text \<open>
  C7: when no candidate is accepted the call fails with the "could not find"
  result after requesting all six candidates, and the file system is
  untouched.
\<close>

theorem install_not_found:
  assumes cp: "clean_path ss" and san: "sanitizeSkillName cwd (abs_of ss) n = Some s"
    and go: "map_of (w_fs w) (ss @ [s, ''SKILL.md'']) = None \<or> force"
    and nf: "fst (downloadSkillMd net owner repo n) = None"
  shows "installSkillFromGitHub cwd (abs_of ss) net now owner repo n force w =
     (Inr (not_found_result owner repo n),
      w\<lparr>w_log := w_log w @ [Ev_access (ss @ [s, ''SKILL.md''])] @ map Ev_fetch (getSkillMdUrls owner repo n)\<rparr>)"
proof -
  have dl: "downloadSkillMd net owner repo n = (None, getSkillMdUrls owner repo n)"
    using nf probe_None_trace [of looks_like_skill_md net "getSkillMdUrls owner repo n"]
    by (simp add: downloadSkillMd_def prod_eq_iff)
  have go': "\<not> (map_of (w_fs w) (ss @ [s, ''SKILL.md'']) \<noteq> None \<and> \<not> force)"
    using go by auto
  show ?thesis
    by (simp only: install_eq [OF cp san] Let_def if_not_P [OF go'])
       (simp add: dl fetch_log_def logged_def)
qed

lemma install_stays_in_dir:
  assumes cp: "clean_path ss" and san: "sanitizeSkillName cwd (abs_of ss) n = Some s"
  shows "confined (ss @ [s]) (w_fs w)
           (w_fs (snd (installSkillFromGitHub cwd (abs_of ss) net now owner repo n force w)))"
proof -
  have cs: "clean_seg s" using san by (rule sanitize_Some_clean)
  have ws: "confined (ss @ [s]) (w_fs v) (w_fs (snd (write_skill cwd (abs_of (ss @ [s])) now owner repo n c u v)))"
    for v c u
  proof (cases "fs_mkdir_p (w_fs v) (ss @ [s])")
    case (Inl e)
    then show ?thesis by (simp add: write_skill_eq [OF cp cs])
  next
    case (Inr f1)
    have c1: "confined (ss @ [s]) (w_fs v) f1" using Inr by (rule confined_mkdir)
    show ?thesis
    proof (cases "fs_write f1 (ss @ [s, ''SKILL.md'']) c")
      case (Inl e)
      with Inr c1 show ?thesis by (simp add: write_skill_eq [OF cp cs] logged_def)
    next
      case (Inr f2)
      have c2: "confined (ss @ [s]) (w_fs v) f2" using confined_write [OF c1 _ Inr] by simp
      show ?thesis
      proof (cases "fs_write f2 (ss @ [s, ''.vibeclaw.json'']) (meta_json now owner repo u n)")
        case (Inl e)
        with \<open>fs_mkdir_p (w_fs v) (ss @ [s]) = Inr f1\<close> Inr c2 show ?thesis
          by (simp add: write_skill_eq [OF cp cs] logged_def)
      next
        case (Inr f3)
        have "confined (ss @ [s]) (w_fs v) f3" using confined_write [OF c2 _ Inr] by simp
        with \<open>fs_mkdir_p (w_fs v) (ss @ [s]) = Inr f1\<close> \<open>fs_write f1 _ c = Inr f2\<close> Inr show ?thesis
          by (simp add: write_skill_eq [OF cp cs] logged_def)
      qed
    qed
  qed
  have ws': "confined (ss @ [s]) (w_fs w)
      (w_fs (snd (write_skill cwd (abs_of (ss @ [s])) now owner repo n c u (fetch_log t (logged e w)))))"
    for c u t e using ws [of "fetch_log t (logged e w)"] by simp
  show ?thesis
    using ws' by (auto simp: install_eq [OF cp san] Let_def split: option.splits prod.splits)
qed

text \<open>
  C2: whatever happens (success, a failed \<open>mkdir\<close> or \<open>writeFile\<close>, not found,
  already installed), the only entries of the file system that change are
  the two files of the skill directory and the missing directories on the
  way to it, which appear as directories.  No other installed skill is
  touched.
\<close>

theorem install_confined:
  assumes cp: "clean_path ss" and san: "sanitizeSkillName cwd (abs_of ss) n = Some s"
  shows "confined (ss @ [s]) (w_fs w)
           (w_fs (snd (installSkillFromGitHub cwd (abs_of ss) net now owner repo n force w)))"
  by (rule install_stays_in_dir [OF cp san])

text \<open>
  every call keeps the file system well formed, whatever the
  directories, the name and the network.
\<close>

lemma install_keeps_wf:
  assumes wf: "fs_wf (w_fs w)"
  shows "fs_wf (w_fs (snd (installSkillFromGitHub cwd sd net now owner repo n force w)))"
proof -
  have ws: "fs_wf (w_fs (snd (write_skill cwd d now owner repo n c u v)))" if "fs_wf (w_fs v)" for d c u v
    unfolding write_skill_def
    apply (rule io_bind_keeps [where P = fs_wf, OF fs_mkdir_io_wf _ that], assumption)
    apply (rule io_bind_keeps [where P = fs_wf, OF fs_writeFile_io_wf], assumption+)
    apply (rule io_bind_keeps [where P = fs_wf, OF fs_writeFile_io_wf], assumption)
     apply (erule io_return_keeps)
    apply assumption+
    done
  show ?thesis
  proof (cases "sanitizeSkillName cwd sd n")
    case None
    then show ?thesis using wf by (simp add: installSkillFromGitHub_def)
  next
    case (Some s)
    obtain acc w1 where a: "fs_access_io cwd (path_join [path_join [sd, s], ''SKILL.md'']) w = (acc, w1)"
      by fastforce
    have w1: "fs_wf (w_fs w1)"
      using fs_access_io_fs [of cwd "path_join [path_join [sd, s], ''SKILL.md'']" w] a wf by simp
    obtain fo t where d: "downloadSkillMd net owner repo n = (fo, t)" by fastforce
    show ?thesis
      unfolding installSkillFromGitHub_def Some option.case Let_def a d prod.case
      using w1 ws by (simp split: option.splits)
  qed
qed

section \<open>Witnesses\<close>

lemma sanitize_n: "sanitizeSkillName ''/w'' (abs_of [''w'', ''skills'']) ''n'' = Some ''n''"
  by (simp add: sanitizer_eval abs_of_def)

lemma not_found_n: "fst (downloadSkillMd (\<lambda>_. Fetch_rejected) ''o'' ''r'' ''n'') = None"
  by (simp add: downloadSkillMd_def getSkillMdUrls_def probe_one_def)

lemma fs_wf_w_installed: "fs_wf (w_fs w_installed)"
  by (simp add: fs_wf_def w_installed_def clean_seg_def)

lemma install_n_fresh:
  assumes v: "w_fs v = w_fs w_skills"
  shows "fst (installSkillFromGitHub ''/w'' (abs_of [''w'', ''skills'']) net_fourth ''t'' ''o'' ''r'' ''n'' False v)
           = Inr (installed_result ''n'' (abs_of ([''w'', ''skills''] @ [''n'']))
                    ''https://raw.githubusercontent.com/o/r/master/SKILL.md'')
         \<and> map_of (w_fs (snd (installSkillFromGitHub ''/w'' (abs_of [''w'', ''skills'']) net_fourth ''t'' ''o'' ''r'' ''n'' False v)))
             ([''w'', ''skills''] @ [''n'', ''.vibeclaw.json'']) \<noteq> None"
proof -
  have cs: "clean_seg ''n''" by (simp add: clean_seg_def)
  let ?w2 = "fetch_log (take 4 (getSkillMdUrls ''o'' ''r'' ''n''))
               (logged (Ev_access ([''w'', ''skills''] @ [''n'', ''SKILL.md''])) v)"
  have none: "map_of (w_fs v) ([''w'', ''skills''] @ [''n'', ''SKILL.md'']) = None"
    by (simp add: v w_skills_def)
  have run: "installSkillFromGitHub ''/w'' (abs_of [''w'', ''skills'']) net_fourth ''t'' ''o'' ''r'' ''n'' False v
      = write_skill ''/w'' (abs_of ([''w'', ''skills''] @ [''n''])) ''t'' ''o'' ''r'' ''n''
          ''---\<newline>name: x\<newline>---\<newline>'' ''https://raw.githubusercontent.com/o/r/master/SKILL.md'' ?w2"
    using none by (simp add: install_eq [OF clean_path_w_skills sanitize_n] downloadSkillMd_net_fourth)
  have nf: "\<forall>q c'. prefix q ([''w'', ''skills''] @ [''n'']) \<and> q \<noteq> [] \<longrightarrow> map_of (w_fs ?w2) q \<noteq> Some (File c')"
    by (auto simp: v w_skills_def prefix_Cons)
  have nd: "map_of (w_fs ?w2) ([''w'', ''skills''] @ [''n'', ''SKILL.md'']) \<noteq> Some Dir"
    "map_of (w_fs ?w2) ([''w'', ''skills''] @ [''n'', ''.vibeclaw.json'']) \<noteq> Some Dir"
    by (simp_all add: v w_skills_def)
  show ?thesis
    unfolding run
    using write_skill_success [OF clean_path_w_skills cs nf nd, of "''/w''" "''t''" "''o''" "''r''" "''n''"
        "''---\<newline>name: x\<newline>---\<newline>''" "''https://raw.githubusercontent.com/o/r/master/SKILL.md''"]
    by (elim exE conjE) simp
qed

theorem install_rejects_traversal_witness:
  "startsWith ''.x'' ''.''
   \<and> installSkillFromGitHub ''/w'' ''/w/skills'' net_fourth ''t'' ''o'' ''r'' ''.x'' False w_skills
       = (Inr (invalid_name_result ''.x''), w_skills)"
  using install_rejects_traversal [of "''.x''"] by (simp add: startsWith_def)

theorem install_already_installed_witness:
  "installSkillFromGitHub ''/w'' (abs_of [''w'', ''skills'']) net_fourth ''t'' ''o'' ''r'' ''n'' False w_installed
   = (Inr (already_result ''n'' (abs_of ([''w'', ''skills''] @ [''n'']))),
      logged (Ev_access ([''w'', ''skills''] @ [''n'', ''SKILL.md''])) w_installed)"
  by (rule install_already_installed [OF clean_path_w_skills sanitize_n])
     (simp add: w_installed_def)

theorem install_fresh_witness:
  "\<exists>w'. installSkillFromGitHub ''/w'' (abs_of [''w'', ''skills'']) net_fourth ''t'' ''o'' ''r'' ''n'' False w_skills
          = (Inr (installed_result ''n'' (abs_of ([''w'', ''skills''] @ [''n'']))
                    ''https://raw.githubusercontent.com/o/r/master/SKILL.md''), w')
     \<and> map_of (w_fs w') ([''w'', ''skills''] @ [''n'', ''SKILL.md'']) = Some (File ''---\<newline>name: x\<newline>---\<newline>'')
     \<and> map_of (w_fs w') ([''w'', ''skills''] @ [''n'', ''.vibeclaw.json''])
           = Some (File (meta_json ''t'' ''o'' ''r'' ''https://raw.githubusercontent.com/o/r/master/SKILL.md'' ''n''))
     \<and> w_log w' = w_log w_skills @ [Ev_access ([''w'', ''skills''] @ [''n'', ''SKILL.md''])]
                      @ map Ev_fetch (take 4 (getSkillMdUrls ''o'' ''r'' ''n''))
                      @ [Ev_mkdir ([''w'', ''skills''] @ [''n'']), Ev_write ([''w'', ''skills''] @ [''n'', ''SKILL.md'']),
                         Ev_write ([''w'', ''skills''] @ [''n'', ''.vibeclaw.json''])]"
  by (rule install_fresh [OF clean_path_w_skills sanitize_n _ downloadSkillMd_net_fourth])
     (auto simp: w_skills_def prefix_Cons)

theorem install_twice_is_noop_witness:
  "installSkillFromGitHub ''/w'' (abs_of [''w'', ''skills'']) (\<lambda>_. Fetch_rejected) ''u'' ''p'' ''q'' ''n'' False
     (snd (installSkillFromGitHub ''/w'' (abs_of [''w'', ''skills'']) net_fourth ''t'' ''o'' ''r'' ''n'' False w_skills))
   = (Inr (already_result ''n'' (abs_of ([''w'', ''skills''] @ [''n'']))),
      logged (Ev_access ([''w'', ''skills''] @ [''n'', ''SKILL.md'']))
        (snd (installSkillFromGitHub ''/w'' (abs_of [''w'', ''skills'']) net_fourth ''t'' ''o'' ''r'' ''n'' False w_skills)))"
proof -
  let ?W = "snd (installSkillFromGitHub ''/w'' (abs_of [''w'', ''skills'']) net_fourth ''t'' ''o'' ''r'' ''n'' False w_skills)"
  let ?r = "installed_result ''n'' (abs_of ([''w'', ''skills''] @ [''n''])) ''https://raw.githubusercontent.com/o/r/master/SKILL.md''"
  have first: "installSkillFromGitHub ''/w'' (abs_of [''w'', ''skills'']) net_fourth ''t'' ''o'' ''r'' ''n'' False w_skills
      = (Inr ?r, ?W)"
    using install_n_fresh [of w_skills] by (metis prod.collapse)
  show ?thesis
    using install_twice_is_noop [OF clean_path_w_skills sanitize_n first]
    by (simp add: installed_result_def)
qed

theorem install_not_found_witness:
  "installSkillFromGitHub ''/w'' (abs_of [''w'', ''skills'']) (\<lambda>_. Fetch_rejected) ''t'' ''o'' ''r'' ''n'' False w_skills
   = (Inr (not_found_result ''o'' ''r'' ''n''),
      w_skills\<lparr>w_log := w_log w_skills @ [Ev_access ([''w'', ''skills''] @ [''n'', ''SKILL.md''])]
                 @ map Ev_fetch (getSkillMdUrls ''o'' ''r'' ''n'')\<rparr>)"
  by (rule install_not_found [OF clean_path_w_skills sanitize_n _ not_found_n])
     (simp add: w_skills_def)

theorem install_confined_witness:
  "confined ([''w'', ''skills''] @ [''n'']) (w_fs w_skills)
     (w_fs (snd (installSkillFromGitHub ''/w'' (abs_of [''w'', ''skills'']) net_fourth ''t'' ''o'' ''r'' ''n'' False w_skills)))"
  by (rule install_confined [OF clean_path_w_skills sanitize_n])

end
