(* ===== verification/Registry.thy ===== *)
theory Registry
  imports Installer
begin

text \<open>
  The registry half of the installer (\<open>src/src/skill-installer.ts\<close>, current
  revision): \<open>listInstalledSkills\<close> (lines 347--366), which reads the skills
  directory and keeps the subdirectories that hold a \<open>.vibeclaw.json\<close>, and
  \<open>uninstallSkill\<close> (lines 392--405), which sanitizes the name, checks the
  record and removes the directory.  Both catch every exception, so their
  result is always \<open>Inr\<close>.  The abstract registry is \<open>tracked_skills\<close>: the
  names of the subdirectories of the skills directory with a record.
\<close>

section \<open>listInstalledSkills\<close>

text \<open>The \<open>for\<close> loop of lines 351--361, with the \<open>installed\<close> array as accumulator.\<close>

fun list_loop ::
  "string \<Rightarrow> string \<Rightarrow> string list \<Rightarrow> (string \<times> bool) list \<Rightarrow> world \<Rightarrow> string list \<times> world" where
  "list_loop cwd sd installed [] w = (installed, w)"
| "list_loop cwd sd installed ((nm, is_dir) # entries) w =
     (if is_dir then
        (case fs_access_io cwd (path_join [sd, nm, ''.vibeclaw.json'']) w of
           (Inl _, w1) \<Rightarrow> list_loop cwd sd installed entries w1
         | (Inr _, w1) \<Rightarrow> list_loop cwd sd (installed @ [nm]) entries w1)
      else list_loop cwd sd installed entries w)"

definition listInstalledSkills :: "string \<Rightarrow> string \<Rightarrow> string list io" where
  "listInstalledSkills cwd sd w =
     (case fs_readdir_io cwd sd w of
        (Inl _, w1) \<Rightarrow> (Inr [], w1)
      | (Inr entries, w1) \<Rightarrow> (let (installed, w2) = list_loop cwd sd [] entries w1 in (Inr installed, w2)))"

section \<open>uninstallSkill\<close>

definition uninstallSkill :: "string \<Rightarrow> string \<Rightarrow> string \<Rightarrow> bool io" where
  "uninstallSkill cwd sd skill_name w =
     (case sanitizeSkillName cwd sd skill_name of
        None \<Rightarrow> (Inr False, w)
      | Some safeName \<Rightarrow>
          (let skillDir = path_join [sd, safeName];
               metaPath = path_join [skillDir, ''.vibeclaw.json'']
           in case io_bind (fs_access_io cwd metaPath) (\<lambda>_. fs_rm_io cwd skillDir) w of
                (Inl _, w1) \<Rightarrow> (Inr False, w1)
              | (Inr _, w1) \<Rightarrow> (Inr True, w1)))"

section \<open>getInstalledSkillMeta\<close>

text \<open>
  The value \<open>return JSON.parse(content)\<close> hands back (line 383): a parsed
  JSON \<open>null\<close> is JavaScript's \<open>null\<close>, the same value the \<open>catch\<close>
  returns, so both are \<open>None\<close> here.
\<close>

definition js_value :: "json option \<Rightarrow> json option" where
  "js_value r = (case r of Some JNull \<Rightarrow> None | _ \<Rightarrow> r)"

text \<open>
  Lines 371--387: the record of a sanitized name, read and parsed; a failed
  read or a text \<open>JSON.parse\<close> rejects gives \<open>null\<close>.  The result is the
  parsed JSON value, as the code returns whatever \<open>JSON.parse\<close> yields.
\<close>

definition getInstalledSkillMeta :: "string \<Rightarrow> string \<Rightarrow> string \<Rightarrow> json option io" where
  "getInstalledSkillMeta cwd sd skill_name w =
     (case sanitizeSkillName cwd sd skill_name of
        None \<Rightarrow> (Inr None, w)
      | Some safeName \<Rightarrow>
          (case fs_readFile_io cwd (path_join [sd, safeName, ''.vibeclaw.json'']) w of
             (Inl _, w1) \<Rightarrow> (Inr None, w1)
           | (Inr content, w1) \<Rightarrow> (Inr (js_value (json_parse content)), w1)))"

text \<open>The JSON value of a record with the fields of \<open>meta_fields\<close>.\<close>

definition meta_value :: "InstallMeta \<Rightarrow> json" where
  "meta_value m = JObj (map (\<lambda>(k, v). (k, JStr v)) (meta_fields m))"

section \<open>The abstract registry\<close>

text \<open>
  The skills the tool tracks: the directories directly under \<open>ss\<close> that
  hold an entry \<open>.vibeclaw.json\<close>, in the order of the file system.
\<close>

definition tracked_skills :: "fs \<Rightarrow> path \<Rightarrow> string list" where
  "tracked_skills fs ss =
     map (\<lambda>(k, n). last k)
       (filter (\<lambda>(k, n). k \<noteq> [] \<and> butlast k = ss \<and> n = Dir \<and> map_of fs (k @ [''.vibeclaw.json'']) \<noteq> None) fs)"

text \<open>
  An example skills directory for the witnesses: \<open>ab\<close> and \<open>a b\<close> both hold a
  record (the second created by hand: the installer never creates a name
  with a space), \<open>c\<close> holds only content.
\<close>

definition w_registry :: world where
  "w_registry = \<lparr>w_fs = [([], Dir), ([''w''], Dir), ([''w'', ''skills''], Dir),
       ([''w'', ''skills'', ''a b''], Dir), ([''w'', ''skills'', ''a b'', ''.vibeclaw.json''], File ''{}''),
       ([''w'', ''skills'', ''ab''], Dir), ([''w'', ''skills'', ''ab'', ''.vibeclaw.json''], File ''{}''),
       ([''w'', ''skills'', ''c''], Dir), ([''w'', ''skills'', ''c'', ''SKILL.md''], File ''---'')],
     w_log = []\<rparr>"

section \<open>The loop\<close>

lemma list_loop_eq:
  "list_loop cwd sd installed es w =
     (installed @ map fst (filter (\<lambda>(nm, d). d \<and> map_of (w_fs w) (os_path cwd (path_join [sd, nm, ''.vibeclaw.json''])) \<noteq> None) es),
      w\<lparr>w_log := w_log w @ map (\<lambda>(nm, d). Ev_access (os_path cwd (path_join [sd, nm, ''.vibeclaw.json'']))) (filter snd es)\<rparr>)"
  by (induction cwd sd installed es w rule: list_loop.induct)
     (auto simp: fs_access_io_def Let_def logged_def)

section \<open>Entries of a well-formed file system\<close>

lemma child_meta_path:
  assumes wf: "fs_wf fs" and mem: "(k, n) \<in> set fs" and ne: "k \<noteq> []" and par: "butlast k = ss"
    and cp: "clean_path ss"
  shows "os_path cwd (path_join [abs_of ss, last k, ''.vibeclaw.json'']) = k @ [''.vibeclaw.json'']"
proof -
  obtain x where kx: "k = ss @ [x]" using butlast_eq_snoc [OF ne par] by blast
  have "map_of fs k = Some n"
    using wf mem by (simp add: fs_wf_def)
  then have "list_all clean_seg k" using fs_wf_entry [OF wf] by blast
  then have cs: "clean_seg x" using kx by simp
  have "clean_path (ss @ [x, ''.vibeclaw.json''])"
    using clean_path_snoc [OF clean_path_snoc [OF cp cs] clean_seg_skill_files(2)] by simp
  then show ?thesis
    using path_join_child2 [OF cp cs clean_seg_skill_files(2)] os_path_abs_of kx by simp
qed

lemma no_children_of_non_dir:
  assumes wf: "fs_wf fs" and nd: "map_of fs ss \<noteq> Some Dir"
  shows "filter (\<lambda>(k, n). k \<noteq> [] \<and> butlast k = ss) fs = []"
proof -
  have "\<not> (k \<noteq> [] \<and> butlast k = ss)" if "(k, n) \<in> set fs" for k n
  proof
    assume "k \<noteq> [] \<and> butlast k = ss"
    moreover have "map_of fs k = Some n" using wf that by (simp add: fs_wf_def)
    ultimately show False using fs_wf_parent [OF wf] nd by blast
  qed
  then show ?thesis by (auto simp: filter_empty_conv)
qed

lemma list_loop_children:
  assumes wf: "fs_wf fs" and cp: "clean_path ss" and sub: "set xs \<subseteq> set fs"
  shows "map fst (filter (\<lambda>(nm, d). d \<and> map_of fs (os_path cwd (path_join [abs_of ss, nm, ''.vibeclaw.json''])) \<noteq> None)
            (map (\<lambda>(k, n). (last k, n = Dir)) (filter (\<lambda>(k, n). k \<noteq> [] \<and> butlast k = ss) xs)))
         = map (\<lambda>(k, n). last k)
             (filter (\<lambda>(k, n). k \<noteq> [] \<and> butlast k = ss \<and> n = Dir \<and> map_of fs (k @ [''.vibeclaw.json'']) \<noteq> None) xs)"
  using sub
proof (induction xs)
  case Nil
  then show ?case by simp
next
  case (Cons x xs)
  obtain k n where x: "x = (k, n)" by fastforce
  have mem: "(k, n) \<in> set fs" using Cons.prems x by simp
  have "os_path cwd (path_join [abs_of ss, last k, ''.vibeclaw.json'']) = k @ [''.vibeclaw.json'']"
    if "k \<noteq> []" "butlast k = ss"
    using child_meta_path [OF wf mem that cp] .
  with Cons x show ?case by auto
qed

section \<open>Effects of uninstallSkill\<close>

lemma uninstall_eq:
  assumes cp: "clean_path ss" and san: "sanitizeSkillName cwd (abs_of ss) n = Some s"
  shows "uninstallSkill cwd (abs_of ss) n w =
    (let w1 = logged (Ev_access (ss @ [s, ''.vibeclaw.json''])) w
     in if map_of (w_fs w) (ss @ [s, ''.vibeclaw.json'']) = None then (Inr False, w1)
        else case fs_rm_rf (w_fs w) (ss @ [s]) of
               Inl e \<Rightarrow> (Inr False, logged (Ev_rm (ss @ [s])) w1)
             | Inr f \<Rightarrow> (Inr True, (logged (Ev_rm (ss @ [s])) w1)\<lparr>w_fs := f\<rparr>))"
proof -
  have cs: "clean_seg s" using san by (rule sanitize_Some_clean)
  show ?thesis
    using san skill_paths [OF cp cs]
    by (simp add: uninstallSkill_def Let_def io_bind_def fs_access_io_def fs_rm_io_def
        split: sum.splits)
qed

text \<open>Removing a subtree \<open>ss @ [s]\<close> drops \<open>s\<close> from the registry and keeps the rest.\<close>

lemma tracked_skills_rm:
  "tracked_skills (filter (\<lambda>(k, n). \<not> prefix (ss @ [s]) k) fs) ss = filter (\<lambda>x. x \<noteq> s) (tracked_skills fs ss)"
proof -
  have pk: "prefix (ss @ [s]) k \<longleftrightarrow> last k = s" "prefix (ss @ [s]) (k @ [m]) \<longleftrightarrow> last k = s"
    if ne: "k \<noteq> []" and par: "butlast k = ss" for k :: path and m
  proof -
    obtain x where "k = ss @ [x]" using butlast_eq_snoc [OF ne par] by blast
    then show "prefix (ss @ [s]) k \<longleftrightarrow> last k = s" "prefix (ss @ [s]) (k @ [m]) \<longleftrightarrow> last k = s"
      by auto
  qed
  let ?F = "filter (\<lambda>(k, n). \<not> prefix (ss @ [s]) k) fs"
  have "map (\<lambda>(k, n). last k)
          (filter (\<lambda>(k, n). k \<noteq> [] \<and> butlast k = ss \<and> n = Dir \<and> map_of ?F (k @ [''.vibeclaw.json'']) \<noteq> None)
            (filter (\<lambda>(k, n). \<not> prefix (ss @ [s]) k) xs))
        = filter (\<lambda>x. x \<noteq> s) (map (\<lambda>(k, n). last k)
            (filter (\<lambda>(k, n). k \<noteq> [] \<and> butlast k = ss \<and> n = Dir \<and> map_of fs (k @ [''.vibeclaw.json'']) \<noteq> None) xs))"
    for xs
  proof (induction xs)
    case Nil
    then show ?case by simp
  next
    case (Cons x xs)
    obtain k n where x: "x = (k, n)" by fastforce
    show ?case
    proof (cases "k \<noteq> [] \<and> butlast k = ss")
      case True
      then show ?thesis using Cons x pk [of k] by auto
    next
      case False
      then show ?thesis using Cons x by auto
    qed
  qed
  then show ?thesis unfolding tracked_skills_def .
qed

section \<open>The registry read through the records\<close>

text \<open>On a well-formed file system a name is tracked exactly when its record exists.\<close>

lemma tracked_iff_record:
  assumes wf: "fs_wf fs"
  shows "x \<in> set (tracked_skills fs ss) \<longleftrightarrow> map_of fs (ss @ [x, ''.vibeclaw.json'']) \<noteq> None"
proof
  assume "x \<in> set (tracked_skills fs ss)"
  then obtain k n where mem: "(k, n) \<in> set fs" and ne: "k \<noteq> []" and par: "butlast k = ss"
    and rec: "map_of fs (k @ [''.vibeclaw.json'']) \<noteq> None" and x: "x = last k"
    by (auto simp: tracked_skills_def)
  have "k = ss @ [x]" using butlast_eq_snoc [OF ne par] x by simp
  with rec show "map_of fs (ss @ [x, ''.vibeclaw.json'']) \<noteq> None" by simp
next
  assume rec: "map_of fs (ss @ [x, ''.vibeclaw.json'']) \<noteq> None"
  then obtain v where "map_of fs ((ss @ [x]) @ [''.vibeclaw.json'']) = Some v" by auto
  then have "map_of fs (ss @ [x]) = Some Dir"
    using fs_wf_parent [OF wf] by fastforce
  then have "(ss @ [x], Dir) \<in> set fs" by (rule map_of_SomeD)
  with rec show "x \<in> set (tracked_skills fs ss)"
    unfolding tracked_skills_def by (force simp: image_iff)
qed

lemma listInstalledSkills_fs [simp]: "w_fs (snd (listInstalledSkills cwd sd w)) = w_fs w"
  by (simp add: listInstalledSkills_def fs_readdir_io_def Let_def list_loop_eq split: sum.splits prod.splits)

text \<open>\<open>uninstallSkill\<close> leaves the file system alone or removes the sanitized name's directory.\<close>

lemma uninstall_fs_cases:
  assumes cp: "clean_path ss"
  shows "w_fs (snd (uninstallSkill cwd (abs_of ss) n w)) = w_fs w
         \<or> (\<exists>s. sanitizeSkillName cwd (abs_of ss) n = Some s
               \<and> fs_rm_rf (w_fs w) (ss @ [s]) = Inr (w_fs (snd (uninstallSkill cwd (abs_of ss) n w))))"
proof (cases "sanitizeSkillName cwd (abs_of ss) n")
  case None
  then show ?thesis by (simp add: uninstallSkill_def)
next
  case (Some s)
  then show ?thesis
    by (auto simp: uninstall_eq [OF cp Some] Let_def logged_def split: sum.splits)
qed

section \<open>Reading a record\<close>

lemma getInstalledSkillMeta_eq:
  assumes cp: "clean_path ss" and san: "sanitizeSkillName cwd (abs_of ss) n = Some s"
  shows "getInstalledSkillMeta cwd (abs_of ss) n w =
    (Inr (case map_of (w_fs w) (ss @ [s, ''.vibeclaw.json'']) of
            Some (File c) \<Rightarrow> js_value (json_parse c)
          | _ \<Rightarrow> None),
     logged (Ev_read (ss @ [s, ''.vibeclaw.json''])) w)"
proof -
  have cs: "clean_seg s" using san by (rule sanitize_Some_clean)
  show ?thesis
    using san path_join_child2 [OF cp cs clean_seg_skill_files(2)]
      os_path_abs_of [OF clean_path_snoc [OF clean_path_snoc [OF cp cs] clean_seg_skill_files(2)]]
    by (simp add: getInstalledSkillMeta_def fs_readFile_io_def fs_read_def Let_def
        split: option.splits node.splits)
qed

section \<open>Properties of the registry\<close>

text \<open>
  C11: on a well-formed file system, \<open>listInstalledSkills\<close> returns exactly
  the tracked skills (the subdirectories of the skills directory holding a
  record, in file-system order; none when the directory is missing) and
  changes nothing.  Directories without a record, like hand-made ones, are
  skipped.
\<close>

theorem listInstalledSkills_tracked:
  assumes cp: "clean_path ss" and wf: "fs_wf (w_fs w)"
  shows "fst (listInstalledSkills cwd (abs_of ss) w) = Inr (tracked_skills (w_fs w) ss)
         \<and> w_fs (snd (listInstalledSkills cwd (abs_of ss) w)) = w_fs w"
proof (cases "map_of (w_fs w) ss = Some Dir")
  case True
  then show ?thesis
    using list_loop_children [OF wf cp, of "w_fs w" cwd]
    by (simp add: listInstalledSkills_def fs_readdir_io_def fs_readdir_def os_path_abs_of [OF cp]
        Let_def list_loop_eq tracked_skills_def logged_def)
next
  case False
  have none: "filter (\<lambda>(k, n). k \<noteq> [] \<and> butlast k = ss) (w_fs w) = []"
    by (rule no_children_of_non_dir [OF wf False])
  then have "tracked_skills (w_fs w) ss = []"
    unfolding tracked_skills_def by (auto simp: filter_empty_conv)
  with False show ?thesis
    by (auto simp: listInstalledSkills_def fs_readdir_io_def fs_readdir_def os_path_abs_of [OF cp]
        Let_def split: option.splits node.splits)
qed

text \<open>
  C15: \<open>uninstallSkill\<close> on an invalid name, or on a name whose directory holds
  no record (missing, or created by hand), returns \<open>false\<close> and leaves the
  file system as it was.
\<close>

theorem uninstall_false_no_effect:
  assumes cp: "clean_path ss"
    and nr: "sanitizeSkillName cwd (abs_of ss) n = None
             \<or> (\<exists>s. sanitizeSkillName cwd (abs_of ss) n = Some s \<and> map_of (w_fs w) (ss @ [s, ''.vibeclaw.json'']) = None)"
  shows "fst (uninstallSkill cwd (abs_of ss) n w) = Inr False
         \<and> w_fs (snd (uninstallSkill cwd (abs_of ss) n w)) = w_fs w"
  using nr
proof
  assume "sanitizeSkillName cwd (abs_of ss) n = None"
  then show ?thesis by (simp add: uninstallSkill_def)
next
  assume "\<exists>s. sanitizeSkillName cwd (abs_of ss) n = Some s \<and> map_of (w_fs w) (ss @ [s, ''.vibeclaw.json'']) = None"
  then obtain s where san: "sanitizeSkillName cwd (abs_of ss) n = Some s"
    and none: "map_of (w_fs w) (ss @ [s, ''.vibeclaw.json'']) = None" by blast
  show ?thesis using none by (simp add: uninstall_eq [OF cp san] Let_def)
qed

text \<open>
  C16: \<open>uninstallSkill\<close> of a tracked skill returns \<open>true\<close>, removes exactly the
  skill's directory with everything in it, after one \<open>access\<close> and one
  \<open>rm\<close>, and the registry loses exactly that name.
\<close>

theorem uninstall_tracked:
  assumes cp: "clean_path ss" and san: "sanitizeSkillName cwd (abs_of ss) n = Some s"
    and wf: "fs_wf (w_fs w)" and rec: "map_of (w_fs w) (ss @ [s, ''.vibeclaw.json'']) \<noteq> None"
  shows "uninstallSkill cwd (abs_of ss) n w =
           (Inr True, w\<lparr>w_fs := filter (\<lambda>(k, v). \<not> prefix (ss @ [s]) k) (w_fs w),
                        w_log := w_log w @ [Ev_access (ss @ [s, ''.vibeclaw.json'']), Ev_rm (ss @ [s])]\<rparr>)
         \<and> tracked_skills (filter (\<lambda>(k, v). \<not> prefix (ss @ [s]) k) (w_fs w)) ss
             = filter (\<lambda>x. x \<noteq> s) (tracked_skills (w_fs w) ss)"
proof -
  from rec obtain v where "map_of (w_fs w) (ss @ [s, ''.vibeclaw.json'']) = Some v" by blast
  then have "map_of (w_fs w) (ss @ [s]) = Some Dir"
    using fs_wf_parent [OF wf] by fastforce
  then have "fs_rm_rf (w_fs w) (ss @ [s]) = Inr (filter (\<lambda>(k, v). \<not> prefix (ss @ [s]) k) (w_fs w))"
    by (simp add: fs_rm_rf_def)
  then show ?thesis
    using rec tracked_skills_rm by (simp add: uninstall_eq [OF cp san] Let_def logged_def)
qed

lemma sanitize_ab: "sanitizeSkillName ''/w'' (abs_of [''w'', ''skills'']) ''a b'' = Some ''ab''"
  by (simp add: sanitizer_eval abs_of_def)

lemma fs_wf_w_registry: "fs_wf (w_fs w_registry)"
  by (simp add: fs_wf_def w_registry_def clean_seg_def)

text \<open>
  C17: a name that \<open>listInstalledSkills\<close> reports is not always the name of
  the directory \<open>uninstallSkill\<close> removes.  The listing returns directory
  names as they are, the uninstaller sanitizes its argument first: with
  directories \<open>a b\<close> and \<open>ab\<close> both holding a record, uninstalling the listed
  \<open>a b\<close> reports success, removes \<open>ab\<close>, and leaves \<open>a b\<close> tracked.
\<close>

theorem uninstall_listed_name_removes_other:
  "fst (listInstalledSkills ''/w'' (abs_of [''w'', ''skills'']) w_registry) = Inr [''a b'', ''ab'']
   \<and> fst (uninstallSkill ''/w'' (abs_of [''w'', ''skills'']) ''a b'' w_registry) = Inr True
   \<and> tracked_skills (w_fs (snd (uninstallSkill ''/w'' (abs_of [''w'', ''skills'']) ''a b'' w_registry)))
        [''w'', ''skills''] = [''a b'']"
proof -
  have l: "fst (listInstalledSkills ''/w'' (abs_of [''w'', ''skills'']) w_registry) = Inr [''a b'', ''ab'']"
    by (simp add: listInstalledSkills_def fs_readdir_io_def fs_readdir_def os_path_abs_of [OF clean_path_w_skills]
        list_loop_eq w_registry_def Let_def logged_def path_join_child2 [OF clean_path_w_skills]
        os_path_abs_of clean_path_def clean_seg_def)
  have u: "uninstallSkill ''/w'' (abs_of [''w'', ''skills'']) ''a b'' w_registry
      = (Inr True, (logged (Ev_rm [''w'', ''skills'', ''ab''])
                     (logged (Ev_access [''w'', ''skills'', ''ab'', ''.vibeclaw.json'']) w_registry))
                   \<lparr>w_fs := filter (\<lambda>(k, v). \<not> prefix [''w'', ''skills'', ''ab''] k) (w_fs w_registry)\<rparr>)"
    by (simp add: uninstall_eq [OF clean_path_w_skills sanitize_ab] w_registry_def fs_rm_rf_def Let_def)
  have t: "tracked_skills (filter (\<lambda>(k, v). \<not> prefix [''w'', ''skills'', ''ab''] k) (w_fs w_registry))
        [''w'', ''skills''] = [''a b'']"
    by (simp add: tracked_skills_def w_registry_def)
  show ?thesis using l u t by (simp add: logged_def)
qed

text \<open>
  C12: after a successful fresh or forced installation, \<open>getInstalledSkillMeta\<close>
  of the same name returns exactly the record that was written: the tool's
  name, the timestamp, \<open>github:owner/repo\<close>, the URL the content came from
  and the raw name, in that order (\<open>JSON.parse\<close> undoes \<open>JSON.stringify\<close>).
\<close>

theorem meta_roundtrip:
  assumes cp: "clean_path ss" and san: "sanitizeSkillName cwd (abs_of ss) n = Some s"
    and run: "installSkillFromGitHub cwd (abs_of ss) net now owner repo n force w = (Inr r, w')"
    and fresh: "success r" "alreadyInstalled r = None"
  shows "\<exists>u. sourceUrl r = Some u
    \<and> getInstalledSkillMeta cwd (abs_of ss) n w' =
        (Inr (Some (meta_value (install_meta now owner repo u n))),
         logged (Ev_read (ss @ [s, ''.vibeclaw.json''])) w')"
proof -
  obtain c u where u: "sourceUrl r = Some u"
    and m: "map_of (w_fs w') (ss @ [s, ''.vibeclaw.json'']) = Some (File (meta_json now owner repo u n))"
    using install_success_files [OF cp san run fresh] by blast
  have "json_parse (meta_json now owner repo u n) = Some (meta_value (install_meta now owner repo u n))"
    unfolding meta_value_def by (rule json_parse_stringify) (simp add: meta_fields_def)
  with u m show ?thesis by (simp add: getInstalledSkillMeta_eq [OF cp san] js_value_def meta_value_def)
qed

text \<open>
  C18: \<open>getInstalledSkillMeta\<close> returns \<open>null\<close> and changes nothing when the
  name is invalid, when the skill has no record file, or when the record
  is not JSON or is the JSON \<open>null\<close>.
\<close>

theorem getInstalledSkillMeta_null:
  assumes cp: "clean_path ss"
    and bad: "sanitizeSkillName cwd (abs_of ss) n = None
      \<or> (\<exists>s. sanitizeSkillName cwd (abs_of ss) n = Some s
             \<and> (\<forall>c. map_of (w_fs w) (ss @ [s, ''.vibeclaw.json'']) \<noteq> Some (File c)))
      \<or> (\<exists>s c. sanitizeSkillName cwd (abs_of ss) n = Some s
             \<and> map_of (w_fs w) (ss @ [s, ''.vibeclaw.json'']) = Some (File c)
             \<and> json_parse c \<in> {None, Some JNull})"
  shows "fst (getInstalledSkillMeta cwd (abs_of ss) n w) = Inr None
         \<and> w_fs (snd (getInstalledSkillMeta cwd (abs_of ss) n w)) = w_fs w"
  using bad
proof (elim disjE exE conjE)
  assume "sanitizeSkillName cwd (abs_of ss) n = None"
  then show ?thesis by (simp add: getInstalledSkillMeta_def)
next
  fix s
  assume san: "sanitizeSkillName cwd (abs_of ss) n = Some s"
    and nf: "\<forall>c. map_of (w_fs w) (ss @ [s, ''.vibeclaw.json'']) \<noteq> Some (File c)"
  then show ?thesis
    by (simp add: getInstalledSkillMeta_eq [OF cp san] split: option.splits node.splits)
next
  fix s c
  assume san: "sanitizeSkillName cwd (abs_of ss) n = Some s"
    and "map_of (w_fs w) (ss @ [s, ''.vibeclaw.json'']) = Some (File c)"
    and "json_parse c \<in> {None, Some JNull}"
  then show ?thesis by (auto simp: getInstalledSkillMeta_eq [OF cp san] js_value_def)
qed

section \<open>Witnesses\<close>

theorem listInstalledSkills_tracked_witness:
  "fst (listInstalledSkills ''/w'' (abs_of [''w'', ''skills'']) w_registry) = Inr (tracked_skills (w_fs w_registry) [''w'', ''skills''])
   \<and> tracked_skills (w_fs w_registry) [''w'', ''skills''] = [''a b'', ''ab'']"
proof -
  have "tracked_skills (w_fs w_registry) [''w'', ''skills''] = [''a b'', ''ab'']"
    by (simp add: tracked_skills_def w_registry_def)
  then show ?thesis
    using listInstalledSkills_tracked [OF clean_path_w_skills fs_wf_w_registry, of "''/w''"] by blast
qed

theorem uninstall_false_no_effect_witness:
  "fst (uninstallSkill ''/w'' (abs_of [''w'', ''skills'']) ''c'' w_registry) = Inr False
   \<and> w_fs (snd (uninstallSkill ''/w'' (abs_of [''w'', ''skills'']) ''c'' w_registry)) = w_fs w_registry"
proof -
  have san: "sanitizeSkillName ''/w'' (abs_of [''w'', ''skills'']) ''c'' = Some ''c''"
    by (simp add: sanitizer_eval abs_of_def)
  have none: "map_of (w_fs w_registry) ([''w'', ''skills''] @ [''c'', ''.vibeclaw.json'']) = None"
    by (simp add: w_registry_def)
  show ?thesis
    using uninstall_false_no_effect [OF clean_path_w_skills] san none by blast
qed

theorem uninstall_tracked_witness:
  "fst (uninstallSkill ''/w'' (abs_of [''w'', ''skills'']) ''ab'' w_registry) = Inr True
   \<and> tracked_skills (filter (\<lambda>(k, v). \<not> prefix ([''w'', ''skills''] @ [''ab'']) k) (w_fs w_registry)) [''w'', ''skills'']
       = [''a b'']"
proof -
  have san: "sanitizeSkillName ''/w'' (abs_of [''w'', ''skills'']) ''ab'' = Some ''ab''"
    by (simp add: sanitizer_eval abs_of_def)
  have r: "map_of (w_fs w_registry) ([''w'', ''skills''] @ [''ab'', ''.vibeclaw.json'']) \<noteq> None"
    by (simp add: w_registry_def)
  have t: "tracked_skills (w_fs w_registry) [''w'', ''skills''] = [''a b'', ''ab'']"
    by (simp add: tracked_skills_def w_registry_def)
  show ?thesis
    using uninstall_tracked [OF clean_path_w_skills san fs_wf_w_registry r] t by simp
qed

theorem meta_roundtrip_witness:
  "getInstalledSkillMeta ''/w'' (abs_of [''w'', ''skills'']) ''n''
     (snd (installSkillFromGitHub ''/w'' (abs_of [''w'', ''skills'']) net_fourth ''t'' ''o'' ''r'' ''n'' False w_skills))
   = (Inr (Some (meta_value (install_meta ''t'' ''o'' ''r'' ''https://raw.githubusercontent.com/o/r/master/SKILL.md'' ''n''))),
      logged (Ev_read ([''w'', ''skills''] @ [''n'', ''.vibeclaw.json'']))
        (snd (installSkillFromGitHub ''/w'' (abs_of [''w'', ''skills'']) net_fourth ''t'' ''o'' ''r'' ''n'' False w_skills)))"
proof -
  let ?W = "snd (installSkillFromGitHub ''/w'' (abs_of [''w'', ''skills'']) net_fourth ''t'' ''o'' ''r'' ''n'' False w_skills)"
  let ?r = "installed_result ''n'' (abs_of ([''w'', ''skills''] @ [''n''])) ''https://raw.githubusercontent.com/o/r/master/SKILL.md''"
  have run: "installSkillFromGitHub ''/w'' (abs_of [''w'', ''skills'']) net_fourth ''t'' ''o'' ''r'' ''n'' False w_skills
      = (Inr ?r, ?W)"
    using install_n_fresh [of w_skills] by (metis prod.collapse)
  show ?thesis
    using meta_roundtrip [OF clean_path_w_skills sanitize_n run] by (simp add: installed_result_def)
qed

theorem getInstalledSkillMeta_null_witness:
  "fst (getInstalledSkillMeta ''/w'' (abs_of [''w'', ''skills'']) ''c'' w_registry) = Inr None
   \<and> w_fs (snd (getInstalledSkillMeta ''/w'' (abs_of [''w'', ''skills'']) ''c'' w_registry)) = w_fs w_registry"
proof -
  have san: "sanitizeSkillName ''/w'' (abs_of [''w'', ''skills'']) ''c'' = Some ''c''"
    by (simp add: sanitizer_eval abs_of_def)
  have "\<forall>x. map_of (w_fs w_registry) ([''w'', ''skills''] @ [''c'', ''.vibeclaw.json'']) \<noteq> Some (File x)"
    by (simp add: w_registry_def)
  with san show ?thesis using getInstalledSkillMeta_null [OF clean_path_w_skills] by blast
qed

end
