(* ===== verification/InstallerV0.thy ===== *)
theory InstallerV0
  imports Registry
begin

text \<open>
  The earlier revision of the installer, kept in the same file
  (\<open>src/src/skill-installer.ts\<close>, lines 1--178): the same configuration,
  candidate URLs and writing steps, but no \<open>sanitizeSkillName\<close> and the
  weaker validation of line 54.  Modelled to compare it with the current
  revision: on names the sanitizer keeps as they are the two agree, while
  the earlier one follows \<open>..\<close> out of the skills directory.
\<close>

section \<open>The earlier revision\<close>

text \<open>
  The earlier revision's \<open>CONFIG_DIR\<close> and \<open>SKILLS_DIR\<close> (lines 11--15);
  its functions take \<open>SKILLS_DIR\<close> as the parameter \<open>sd\<close>.
\<close>

definition config_dir_v0 :: "(string \<Rightarrow> string option) \<Rightarrow> string \<Rightarrow> string" where
  "config_dir_v0 env home =
     (case env ''OPENCLAW_STATE_DIR'' of
        Some d \<Rightarrow> d
      | None \<Rightarrow> (case env ''CLAWDBOT_STATE_DIR'' of
                  Some d \<Rightarrow> d
                | None \<Rightarrow> path_join [home, ''.openclaw'']))"

definition skills_dir_of_v0 :: "(string \<Rightarrow> string option) \<Rightarrow> string \<Rightarrow> string" where
  "skills_dir_of_v0 env home = path_join [config_dir_v0 env home, ''skills'']"

text \<open>\<open>installSkillFromGitHub\<close>, lines 78--138.\<close>

definition installSkillFromGitHub_v0 ::
  "string \<Rightarrow> string \<Rightarrow> (url \<Rightarrow> fetch_outcome) \<Rightarrow> string \<Rightarrow> string \<Rightarrow> string \<Rightarrow> string \<Rightarrow> bool
    \<Rightarrow> InstallResult io" where
  "installSkillFromGitHub_v0 cwd sd net now owner repo skill_name force w =
     (let skillDir = path_join [sd, skill_name];
          skillFile = path_join [skillDir, ''SKILL.md''];
          (acc, w1) = fs_access_io cwd skillFile w
      in if acc = Inr () \<and> \<not> force
         then (Inr (already_result skill_name skillDir), w1)
         else
           (let (found, fetched) = downloadSkillMd_v0 net owner repo skill_name;
                w2 = fetch_log fetched w1
            in case found of
                 None \<Rightarrow> (Inr (not_found_result owner repo skill_name), w2)
               | Some (content, url) \<Rightarrow>
                   write_skill cwd skillDir now owner repo skill_name content url w2))"

text \<open>\<open>listInstalledSkills\<close>, lines 143--162.\<close>

fun list_loop_v0 ::
  "string \<Rightarrow> string \<Rightarrow> string list \<Rightarrow> (string \<times> bool) list \<Rightarrow> world \<Rightarrow> string list \<times> world" where
  "list_loop_v0 cwd sd installed [] w = (installed, w)"
| "list_loop_v0 cwd sd installed ((nm, is_dir) # entries) w =
     (if is_dir then
        (case fs_access_io cwd (path_join [sd, nm, ''.vibeclaw.json'']) w of
           (Inl _, w1) \<Rightarrow> list_loop_v0 cwd sd installed entries w1
         | (Inr _, w1) \<Rightarrow> list_loop_v0 cwd sd (installed @ [nm]) entries w1)
      else list_loop_v0 cwd sd installed entries w)"

definition listInstalledSkills_v0 :: "string \<Rightarrow> string \<Rightarrow> string list io" where
  "listInstalledSkills_v0 cwd sd w =
     (case fs_readdir_io cwd sd w of
        (Inl _, w1) \<Rightarrow> (Inr [], w1)
      | (Inr entries, w1) \<Rightarrow> (let (installed, w2) = list_loop_v0 cwd sd [] entries w1 in (Inr installed, w2)))"

text \<open>\<open>uninstallSkill\<close>, lines 167--178.\<close>

definition uninstallSkill_v0 :: "string \<Rightarrow> string \<Rightarrow> string \<Rightarrow> bool io" where
  "uninstallSkill_v0 cwd sd skill_name w =
     (let skillDir = path_join [sd, skill_name];
          metaPath = path_join [skillDir, ''.vibeclaw.json'']
      in case io_bind (fs_access_io cwd metaPath) (\<lambda>_. fs_rm_io cwd skillDir) w of
           (Inl _, w1) \<Rightarrow> (Inr False, w1)
         | (Inr _, w1) \<Rightarrow> (Inr True, w1))"

text \<open>
  An example for the comparison: a state directory \<open>/w\<close> that holds its own
  \<open>.vibeclaw.json\<close> and a skills directory \<open>/w/skills\<close>.
\<close>

definition w_state_record :: world where
  "w_state_record = \<lparr>w_fs = [([], Dir), ([''w''], Dir), ([''w'', ''.vibeclaw.json''], File ''{}''),
       ([''w'', ''skills''], Dir), ([''w'', ''skills'', ''n''], Dir),
       ([''w'', ''skills'', ''n'', ''.vibeclaw.json''], File ''{}'')], w_log = []\<rparr>"

section \<open>The loop of both revisions\<close>

lemma skills_dir_of_v0_eq: "skills_dir_of_v0 = skills_dir_of"
  by (simp add: fun_eq_iff skills_dir_of_v0_def skills_dir_of_def config_dir_v0_def config_dir_def)

lemma list_loop_v0_eq: "list_loop_v0 cwd sd installed es w = list_loop cwd sd installed es w"
  by (induction cwd sd installed es w rule: list_loop_v0.induct)
     (simp_all split: prod.splits sum.splits)

section \<open>Where the revisions agree\<close>

text \<open>
  On a name the sanitizer keeps as it is, and when both validations
  pick the same candidate, the earlier \<open>installSkillFromGitHub\<close> does
  exactly what the current one does: the sanitizer only changed behaviour
  for names it rewrites or rejects.
\<close>

theorem install_v0_agrees:
  assumes san: "sanitizeSkillName cwd sd n = Some n"
    and dl: "downloadSkillMd_v0 net owner repo n = downloadSkillMd net owner repo n"
  shows "installSkillFromGitHub_v0 cwd sd net now owner repo n force w =
         installSkillFromGitHub cwd sd net now owner repo n force w"
  unfolding installSkillFromGitHub_v0_def installSkillFromGitHub_def dl using san by simp

text \<open>
  On a name the sanitizer keeps as it is, the earlier
  \<open>uninstallSkill\<close> does exactly what the current one does.
\<close>

theorem uninstall_v0_agrees:
  assumes san: "sanitizeSkillName cwd sd n = Some n"
  shows "uninstallSkill_v0 cwd sd n w = uninstallSkill cwd sd n w"
  using san by (simp add: uninstallSkill_v0_def uninstallSkill_def)

text \<open>The listing is the same function in both revisions.\<close>

theorem listInstalledSkills_v0_eq:
  "listInstalledSkills_v0 cwd sd w = listInstalledSkills cwd sd w"
  unfolding listInstalledSkills_v0_def listInstalledSkills_def list_loop_v0_eq ..

section \<open>Where the earlier revision escapes\<close>

lemma sanitize_dotdot: "sanitizeSkillName ''/w'' (abs_of [''w'', ''skills'']) ''..'' = None"
  by (simp add: sanitizer_eval abs_of_def)

lemma path_join_dotdot: "path_join [abs_of [''w'', ''skills''], ''..''] = abs_of [''w'']"
  by (simp add: path_join_def path_normalize_def normalizeString_def normalize_segs_def norm_seg_def
      abs_of_def Let_def)

lemma path_join_dotdot_record: "path_join [abs_of [''w''], ''.vibeclaw.json''] = abs_of [''w'', ''.vibeclaw.json'']"
  using path_join_child [of "[''w'']" "''.vibeclaw.json''"] by (simp add: clean_path_def clean_seg_def)

text \<open>
  C14: the earlier \<open>uninstallSkill\<close> follows \<open>..\<close>: asked to uninstall
  \<open>..\<close> while the state directory holds a \<open>.vibeclaw.json\<close>, it removes the
  whole state directory, every installed skill with it; the current
  revision refuses the name and changes nothing.
\<close>

theorem uninstall_v0_dotdot_removes_state_dir:
  "fst (uninstallSkill_v0 ''/w'' (abs_of [''w'', ''skills'']) ''..'' w_state_record) = Inr True
   \<and> w_fs (snd (uninstallSkill_v0 ''/w'' (abs_of [''w'', ''skills'']) ''..'' w_state_record)) = [([], Dir)]
   \<and> uninstallSkill ''/w'' (abs_of [''w'', ''skills'']) ''..'' w_state_record = (Inr False, w_state_record)"
proof -
  have o1: "os_path ''/w'' (abs_of [''w'', ''.vibeclaw.json'']) = [''w'', ''.vibeclaw.json'']"
    by (rule os_path_abs_of) (simp add: clean_path_def clean_seg_def)
  have o2: "os_path ''/w'' (abs_of [''w'']) = [''w'']"
    by (rule os_path_abs_of) (simp add: clean_path_def clean_seg_def)
  show ?thesis
    using o1 o2
    by (simp add: uninstallSkill_v0_def path_join_dotdot path_join_dotdot_record io_bind_def
        fs_access_io_def fs_rm_io_def fs_rm_rf_def w_state_record_def logged_def uninstallSkill_def
        sanitize_dotdot Let_def)
qed

lemma path_join_evil: "path_join [abs_of [''w'', ''skills''], ''../evil''] = abs_of [''w'', ''evil'']"
  by (simp add: path_join_def path_normalize_def normalizeString_def normalize_segs_def norm_seg_def
      abs_of_def Let_def)

lemma download_v0_evil:
  "downloadSkillMd_v0 net_fourth ''o'' ''r'' ''../evil'' =
     (Some (''---\<newline>name: x\<newline>---\<newline>'', ''https://raw.githubusercontent.com/o/r/master/SKILL.md''),
      take 4 (getSkillMdUrls ''o'' ''r'' ''../evil''))"
  by (simp add: downloadSkillMd_v0_def getSkillMdUrls_def net_fourth_def probe_one_def response_ok_def
      looks_like_skill_md_v0_def)

text \<open>
  C13: the earlier \<open>installSkillFromGitHub\<close> follows \<open>..\<close>: asked for
  \<open>../evil\<close>, it writes \<open>SKILL.md\<close> into \<open>/w/evil\<close>, a sibling of the
  skills directory; the current revision rejects the name and changes
  nothing.
\<close>

theorem install_v0_escapes:
  "map_of (w_fs (snd (installSkillFromGitHub_v0 ''/w'' (abs_of [''w'', ''skills'']) net_fourth ''t'' ''o'' ''r''
       ''../evil'' False w_skills))) [''w'', ''evil'', ''SKILL.md''] = Some (File ''---\<newline>name: x\<newline>---\<newline>'')
   \<and> installSkillFromGitHub ''/w'' (abs_of [''w'', ''skills'']) net_fourth ''t'' ''o'' ''r'' ''../evil'' False w_skills
       = (Inr (invalid_name_result ''../evil''), w_skills)"
proof -
  have cp: "clean_path [''w'']" by (simp add: clean_path_def clean_seg_def)
  have cs: "clean_seg ''evil''" by (simp add: clean_seg_def)
  have o: "os_path ''/w'' (abs_of [''w'', ''evil'', ''SKILL.md'']) = [''w'', ''evil'', ''SKILL.md'']"
    by (rule os_path_abs_of) (simp add: clean_path_def clean_seg_def)
  have sk: "path_join [abs_of [''w'', ''evil''], ''SKILL.md''] = abs_of [''w'', ''evil'', ''SKILL.md'']"
    using path_join_child [of "[''w'', ''evil'']" "''SKILL.md''"] by (simp add: clean_path_def clean_seg_def)
  note ws = write_skill_eq [OF cp cs, simplified]
  have rej: "sanitizeSkillName ''/w'' (abs_of [''w'', ''skills'']) ''../evil'' = None"
    by (simp add: sanitizer_eval abs_of_def)
  show ?thesis
    using o
    by (simp add: installSkillFromGitHub_v0_def path_join_evil sk download_v0_evil fs_access_io_def
        ws w_skills_def logged_def fetch_log_def fs_mkdir_p_def fs_write_def
        installSkillFromGitHub_def rej Let_def)
qed

section \<open>Witnesses\<close>

lemma download_v0_n:
  "downloadSkillMd_v0 net_fourth ''o'' ''r'' ''n'' = downloadSkillMd net_fourth ''o'' ''r'' ''n''"
  by (simp add: downloadSkillMd_v0_def downloadSkillMd_def getSkillMdUrls_def net_fourth_def probe_one_def
      response_ok_def looks_like_skill_md_v0_def looks_like_skill_md_def indexOf_def index_from.simps)

theorem install_v0_agrees_witness:
  "installSkillFromGitHub_v0 ''/w'' (abs_of [''w'', ''skills'']) net_fourth ''t'' ''o'' ''r'' ''n'' False w_skills =
   installSkillFromGitHub ''/w'' (abs_of [''w'', ''skills'']) net_fourth ''t'' ''o'' ''r'' ''n'' False w_skills"
  by (rule install_v0_agrees [OF sanitize_n download_v0_n])

theorem uninstall_v0_agrees_witness:
  "uninstallSkill_v0 ''/w'' (abs_of [''w'', ''skills'']) ''n'' w_installed =
   uninstallSkill ''/w'' (abs_of [''w'', ''skills'']) ''n'' w_installed"
  by (rule uninstall_v0_agrees [OF sanitize_n])

end
