(* ===== verification/Security.thy ===== *)
theory Security
  imports Complex_Main Prelude
begin

text \<open>
  The catalog's resource record (\<open>src/unnamed/part_000\<close>, \<open>VibeResource\<close>,
  lines 8--33) and the security gate of the install tool (\<open>checkSecurity\<close>,
  lines 140--170) with the badge shown after an installation
  (\<open>formatSecurityBadge\<close>, lines 175--186).  JavaScript numbers are modelled
  as \<open>real\<close> (the risk score may be fractional) or \<open>int\<close> (counts); a field
  that may be \<open>null\<close> is an \<open>option\<close>.  The gate's result is the data its
  message shows rather than the message text itself.
\<close>

section \<open>The resource record\<close>

record cisco_scan =
  is_safe :: bool
  max_severity :: string
  findings_count :: int

record badge_flags =
  badge_official :: bool
  badge_verified :: bool
  badge_trending :: bool

record star_count_info =
  star_count :: int
  star_inherited :: bool

datatype resource_type = Skill | Plugin | Mcp | Marketplace

record VibeResource =
  res_id :: string
  name :: string
  slug :: string
  description :: "string option"
  description_ko :: "string option"
  resource_type :: resource_type
  github_owner :: "string option"
  github_repo :: "string option"
  github_url :: "string option"
  stars :: int
  tags :: "string list"
  is_official :: bool
  is_verified :: bool
  security_score :: "real option"
  security_flags :: "string list option"
  cisco_scan_result :: "cisco_scan option"
  relevance_score :: "real option"
  badges :: "badge_flags option"
  star_info :: "star_count_info option"
  computed_install_command :: "string option"

section \<open>checkSecurity\<close>

text \<open>
  What a block message reports: the skill's name, and either the deep scan's
  severity and finding count or the risk score, and the flags (printed only
  when the list is nonempty, so a missing list and an empty one show alike).
\<close>

datatype security_block =
    Blocked_scan string string int "string list"
  | Blocked_score string real "string list"

definition shown_flags :: "VibeResource \<Rightarrow> string list" where
  "shown_flags r = (case security_flags r of Some fs \<Rightarrow> fs | None \<Rightarrow> [])"

text \<open>The threshold of line 158, a constant of the code.\<close>

definition score_threshold :: real where
  "score_threshold = 25"

definition score_block :: "VibeResource \<Rightarrow> security_block option" where
  "score_block r =
     (case security_score r of
        Some s \<Rightarrow> if s \<ge> score_threshold then Some (Blocked_score (name r) s (shown_flags r)) else None
      | None \<Rightarrow> None)"

definition checkSecurity :: "VibeResource \<Rightarrow> security_block option" where
  "checkSecurity r =
     (case cisco_scan_result r of
        Some c \<Rightarrow>
          if \<not> is_safe c
          then Some (Blocked_scan (name r) (max_severity c) (findings_count c) (shown_flags r))
          else score_block r
      | None \<Rightarrow> score_block r)"

section \<open>formatSecurityBadge\<close>

datatype security_badge = Verified_safe | Pre_scanned | Minor_flags real | Scan_pending

definition score_badge :: "real option \<Rightarrow> security_badge" where
  "score_badge sc =
     (if sc = Some 0 then Pre_scanned
      else case sc of
             Some s \<Rightarrow> if 0 < s \<and> s < 25 then Minor_flags s else Scan_pending
           | None \<Rightarrow> Scan_pending)"

definition formatSecurityBadge :: "VibeResource \<Rightarrow> security_badge" where
  "formatSecurityBadge r =
     (case cisco_scan_result r of
        Some c \<Rightarrow> if is_safe c then Verified_safe else score_badge (security_score r)
      | None \<Rightarrow> score_badge (security_score r))"

section \<open>An example resource\<close>

text \<open>An example resource for the witnesses.\<close>

definition example_resource :: VibeResource where
  "example_resource =
     \<lparr>res_id = ''1'', name = ''pdf'', slug = ''pdf'', description = None, description_ko = None,
      resource_type = Skill, github_owner = Some ''o'', github_repo = Some ''r'', github_url = None,
      stars = 3, tags = [], is_official = False, is_verified = False, security_score = Some 0,
      security_flags = None, cisco_scan_result = None, relevance_score = None, badges = None,
      star_info = None, computed_install_command = None\<rparr>"

section \<open>Properties of the gate\<close>

lemma score_block_None_iff:
  "score_block r = None \<longleftrightarrow> (case security_score r of Some s \<Rightarrow> s < 25 | None \<Rightarrow> True)"
  by (auto simp: score_block_def score_threshold_def split: option.splits)

text \<open>
  C21: a deep scan that marks the resource unsafe blocks it, whatever its
  risk score, and the message reports the scan's severity and findings.
\<close>

theorem checkSecurity_unsafe_scan_blocks:
  assumes "cisco_scan_result r = Some c" and "\<not> is_safe c"
  shows "checkSecurity r = Some (Blocked_scan (name r) (max_severity c) (findings_count c) (shown_flags r))"
  using assms by (simp add: checkSecurity_def)

text \<open>
  C22: without an unsafe deep-scan verdict the score decides: a score of 25
  or more blocks, anything lower or no score lets the resource through.  A
  deep scan that found the resource safe does not lift a high score.
\<close>

theorem checkSecurity_score_threshold:
  assumes "\<not> (\<exists>c. cisco_scan_result r = Some c \<and> \<not> is_safe c)"
  shows "checkSecurity r =
    (case security_score r of
       Some s \<Rightarrow> if 25 \<le> s then Some (Blocked_score (name r) s (shown_flags r)) else None
     | None \<Rightarrow> None)"
  using assms
  by (auto simp: checkSecurity_def score_block_def score_threshold_def split: option.splits)

section \<open>Witnesses\<close>

theorem checkSecurity_unsafe_scan_blocks_witness:
  "checkSecurity (example_resource\<lparr>cisco_scan_result :=
       Some \<lparr>is_safe = False, max_severity = ''HIGH'', findings_count = 2\<rparr>\<rparr>)
   = Some (Blocked_scan ''pdf'' ''HIGH'' 2 [])
   \<and> security_score example_resource = Some 0"
  using checkSecurity_unsafe_scan_blocks
    [of "example_resource\<lparr>cisco_scan_result :=
       Some \<lparr>is_safe = False, max_severity = ''HIGH'', findings_count = 2\<rparr>\<rparr>"
        "\<lparr>is_safe = False, max_severity = ''HIGH'', findings_count = 2\<rparr>"]
  by (simp add: example_resource_def shown_flags_def)

theorem checkSecurity_score_threshold_witness:
  "checkSecurity (example_resource\<lparr>security_score := Some 25\<rparr>) = Some (Blocked_score ''pdf'' 25 [])
   \<and> checkSecurity (example_resource\<lparr>security_score := Some 24\<rparr>) = None"
  using checkSecurity_score_threshold [of "example_resource\<lparr>security_score := Some 25\<rparr>"]
    checkSecurity_score_threshold [of "example_resource\<lparr>security_score := Some 24\<rparr>"]
  by (simp add: example_resource_def shown_flags_def)

end
