(* ===== verification/Tools.thy ===== *)
theory Tools
  imports Registry Security
begin

text \<open>
  The agent tools that reach the installer (\<open>src/unnamed/part_000\<close>,
  \<open>tools.ts\<close>): \<open>vibeclaw_install\<close> (\<open>createInstallTool\<close>, lines 266--346) and
  \<open>vibeclaw_manage\<close> (\<open>createManageTool\<close>, lines 411--459), with the part of
  the catalog client they call (\<open>VibeIndexClient.search\<close> and \<open>fetch\<close>,
  lines 66--100).  The catalog is an oracle from the endpoint and the query
  parameters to a response or an HTTP failure; a request is logged in the
  world.  A tool's text answer is modelled by a datatype of outcomes that
  carries the data the text shows.
\<close>

section \<open>The catalog client\<close>

text \<open>\<open>VibeSearchResult\<close> (lines 35--39); of \<open>pagination\<close> the code only reads \<open>total\<close>.\<close>

record VibeSearchResult =
  sr_success :: bool
  sr_data :: "VibeResource list"
  sr_total :: "nat option"

datatype 'a api_response = Api_ok 'a | Api_error

text \<open>\<open>String(n)\<close> for a natural number.\<close>

fun dec_string :: "nat \<Rightarrow> string" where
  "dec_string n = (if n < 10 then [char_of (48 + n)] else dec_string (n div 10) @ [char_of (48 + n mod 10)])"

text \<open>The parameters of \<open>search\<close> (lines 94--99); \<open>fetch\<close> drops the empty ones (line 69).\<close>

definition search_params :: "string \<Rightarrow> string option \<Rightarrow> nat option \<Rightarrow> nat option \<Rightarrow> (string \<times> string) list" where
  "search_params q type limit offset =
     [(''q'', q), (''type'', case type of Some t \<Rightarrow> t | None \<Rightarrow> ''''),
      (''limit'', dec_string (case limit of Some l \<Rightarrow> l | None \<Rightarrow> 5)),
      (''offset'', dec_string (case offset of Some n \<Rightarrow> n | None \<Rightarrow> 0))]"

definition query_params :: "(string \<times> string) list \<Rightarrow> (string \<times> string) list" where
  "query_params ps = filter (\<lambda>(k, v). v \<noteq> []) ps"

type_synonym catalog = "string \<Rightarrow> (string \<times> string) list \<Rightarrow> VibeSearchResult api_response"

definition client_search ::
  "catalog \<Rightarrow> string \<Rightarrow> string option \<Rightarrow> nat option \<Rightarrow> nat option \<Rightarrow> VibeSearchResult io" where
  "client_search api q type limit offset w =
     (let ps = query_params (search_params q type limit offset);
          w' = logged (Ev_api ''/search'' ps) w
      in case api ''/search'' ps of
           Api_ok r \<Rightarrow> (Inr r, w')
         | Api_error \<Rightarrow> (Inl Api_failure, w'))"

section \<open>vibeclaw_install\<close>

text \<open>
  The answers of the install tool: the \<open>catch\<close> of line 341, skill not in the
  catalog (line 293), no repository (lines 298--303), blocked by the gate
  (line 308), installer failure (line 320), already installed (lines
  323--329), installed (lines 331--340).
\<close>

datatype install_tool_outcome =
    Tool_error
  | Skill_not_found string
  | No_repository string "string option"
  | Blocked security_block
  | Install_failed string "string option"
  | Already_installed string "string option"
  | Installed InstallResult VibeResource security_badge

text \<open>JavaScript truthiness of a \<open>string | null\<close>.\<close>

definition truthy :: "string option \<Rightarrow> bool" where
  "truthy s = (case s of Some x \<Rightarrow> x \<noteq> [] | None \<Rightarrow> False)"

definition install_answer :: "VibeResource \<Rightarrow> InstallResult \<Rightarrow> install_tool_outcome" where
  "install_answer skill res =
     (if \<not> success res then Install_failed (name skill) (error res)
      else if alreadyInstalled res = Some True then Already_installed (name skill) (installPath res)
      else Installed res skill (formatSecurityBadge skill))"

definition install_tool_execute ::
  "string \<Rightarrow> string \<Rightarrow> (url \<Rightarrow> fetch_outcome) \<Rightarrow> string \<Rightarrow> catalog \<Rightarrow> string \<Rightarrow> bool option
    \<Rightarrow> world \<Rightarrow> install_tool_outcome \<times> world" where
  "install_tool_execute cwd sd net now api query force w =
     (case client_search api query (Some ''skill'') (Some 1) None w of
        (Inl _, w1) \<Rightarrow> (Tool_error, w1)
      | (Inr sr, w1) \<Rightarrow>
          (if \<not> sr_success sr \<or> sr_data sr = [] then (Skill_not_found query, w1)
           else
             (let skill = hd (sr_data sr)
              in if \<not> truthy (github_owner skill) \<or> \<not> truthy (github_repo skill)
                 then (No_repository (name skill) (github_url skill), w1)
                 else case checkSecurity skill of
                        Some b \<Rightarrow> (Blocked b, w1)
                      | None \<Rightarrow>
                          (case installSkillFromGitHub cwd sd net now (the (github_owner skill))
                                  (the (github_repo skill)) (name skill) (force = Some True) w1 of
                             (Inl _, w2) \<Rightarrow> (Tool_error, w2)
                           | (Inr res, w2) \<Rightarrow> (install_answer skill res, w2)))))"

section \<open>vibeclaw_manage\<close>

datatype manage_outcome =
    Listed "string list" | Nothing_installed | Name_required
  | Uninstalled string | Not_removed string | Unknown_action string

text \<open>The tool has no \<open>try\<close>: an exception of the registry would reach the host.\<close>

definition manage_execute :: "string \<Rightarrow> string \<Rightarrow> string \<Rightarrow> string option \<Rightarrow> manage_outcome io" where
  "manage_execute cwd sd action skill_name w =
     (if action = ''list'' then
        (case listInstalledSkills cwd sd w of
           (Inl e, w1) \<Rightarrow> (Inl e, w1)
         | (Inr skills, w1) \<Rightarrow> (Inr (if skills = [] then Nothing_installed else Listed skills), w1))
      else if action = ''uninstall'' then
        (if \<not> truthy skill_name then (Inr Name_required, w)
         else case uninstallSkill cwd sd (the skill_name) w of
                (Inl e, w1) \<Rightarrow> (Inl e, w1)
              | (Inr removed, w1) \<Rightarrow>
                  (Inr (if removed then Uninstalled (the skill_name) else Not_removed (the skill_name)), w1))
      else (Inr (Unknown_action action), w))"

section \<open>Example catalogs\<close>

text \<open>
  A catalog whose every search answers with one resource, and three
  resources for the witnesses: one a deep scan marks unsafe while its risk
  score is 0, one with risk score 24, and one without a repository.
\<close>

definition single_hit :: "VibeResource \<Rightarrow> catalog" where
  "single_hit r endpoint ps = Api_ok \<lparr>sr_success = True, sr_data = [r], sr_total = None\<rparr>"

definition unsafe_resource :: VibeResource where
  "unsafe_resource = example_resource\<lparr>cisco_scan_result := Some \<lparr>is_safe = False, max_severity = ''HIGH'', findings_count = 2\<rparr>\<rparr>"

definition score24_resource :: VibeResource where
  "score24_resource = example_resource\<lparr>security_score := Some 24\<rparr>"

definition norepo_resource :: VibeResource where
  "norepo_resource = example_resource\<lparr>github_owner := None\<rparr>"

section \<open>The install tool and the gate\<close>

text \<open>The catalog's answer to the install tool's search, when it names a skill with a repository.\<close>

lemma install_tool_eq:
  assumes api: "api ''/search'' (query_params (search_params query (Some ''skill'') (Some 1) None)) = Api_ok sr"
    and ok: "sr_success sr" and first: "sr_data sr = skill # others"
    and own: "github_owner skill = Some owner" "owner \<noteq> []"
    and rep: "github_repo skill = Some repo" "repo \<noteq> []"
  shows "install_tool_execute cwd sd net now api query force w =
    (let w1 = logged (Ev_api ''/search'' (query_params (search_params query (Some ''skill'') (Some 1) None))) w
     in case checkSecurity skill of
          Some b \<Rightarrow> (Blocked b, w1)
        | None \<Rightarrow> (case installSkillFromGitHub cwd sd net now owner repo (name skill) (force = Some True) w1 of
                    (Inl _, w2) \<Rightarrow> (Tool_error, w2)
                  | (Inr res, w2) \<Rightarrow> (install_answer skill res, w2)))"
  using api ok first
  by (simp add: install_tool_execute_def client_search_def truthy_def Let_def own rep split: option.split)

text \<open>
  C3: when the security gate blocks the catalog's skill, the install tool
  answers with the block and does nothing but the catalog request: no
  file-system call, no request to GitHub.
\<close>

theorem install_tool_blocked:
  assumes api: "api ''/search'' (query_params (search_params query (Some ''skill'') (Some 1) None)) = Api_ok sr"
    and ok: "sr_success sr" and first: "sr_data sr = skill # others"
    and own: "github_owner skill = Some owner" "owner \<noteq> []"
    and rep: "github_repo skill = Some repo" "repo \<noteq> []"
    and blk: "checkSecurity skill = Some b"
  shows "install_tool_execute cwd sd net now api query force w =
           (Blocked b, logged (Ev_api ''/search'' (query_params (search_params query (Some ''skill'') (Some 1) None))) w)"
  using blk by (simp add: install_tool_eq [where api = api and query = query, OF api ok first own rep])

text \<open>
  C19: when the gate lets the catalog's skill through, the install tool
  runs the installer on the skill's repository and catalog name, with
  \<open>force\<close> only when the argument is \<open>true\<close>, and answers from its result;
  an exception of the installer becomes the error answer.
\<close>

theorem install_tool_passes_gate:
  assumes api: "api ''/search'' (query_params (search_params query (Some ''skill'') (Some 1) None)) = Api_ok sr"
    and ok: "sr_success sr" and first: "sr_data sr = skill # others"
    and own: "github_owner skill = Some owner" "owner \<noteq> []"
    and rep: "github_repo skill = Some repo" "repo \<noteq> []"
    and pass: "checkSecurity skill = None"
  shows "install_tool_execute cwd sd net now api query force w =
           (case installSkillFromGitHub cwd sd net now owner repo (name skill) (force = Some True)
                   (logged (Ev_api ''/search'' (query_params (search_params query (Some ''skill'') (Some 1) None))) w) of
              (Inl _, w2) \<Rightarrow> (Tool_error, w2)
            | (Inr res, w2) \<Rightarrow> (install_answer skill res, w2))"
  using pass by (simp add: install_tool_eq [where api = api and query = query, OF api ok first own rep])

text \<open>
  C20: A catalog hit without a repository (owner or repository missing or
  empty) is answered without installing and without any other call.
\<close>

theorem install_tool_no_repository:
  assumes api: "api ''/search'' (query_params (search_params query (Some ''skill'') (Some 1) None)) = Api_ok sr"
    and ok: "sr_success sr" and first: "sr_data sr = skill # others"
    and norepo: "\<not> truthy (github_owner skill) \<or> \<not> truthy (github_repo skill)"
  shows "install_tool_execute cwd sd net now api query force w =
           (No_repository (name skill) (github_url skill),
            logged (Ev_api ''/search'' (query_params (search_params query (Some ''skill'') (Some 1) None))) w)"
  using assms by (auto simp: install_tool_execute_def client_search_def Let_def)

section \<open>What the tools do to the file system\<close>

text \<open>
  The install tool changes the file system only through
  \<open>installSkillFromGitHub\<close>, run on a world with the same file system.
\<close>

lemma install_tool_keeps:
  assumes p: "P (w_fs w)"
    and inst: "\<And>owner repo nm f w1. P (w_fs w1) \<Longrightarrow>
                 P (w_fs (snd (installSkillFromGitHub cwd sd net now owner repo nm f w1)))"
  shows "P (w_fs (snd (install_tool_execute cwd sd net now api q force w)))"
proof -
  have i: "P (w_fs (snd (installSkillFromGitHub cwd sd net now owner repo nm f (logged e w))))"
    for owner repo nm f e using inst [of "logged e w"] p by simp
  show ?thesis
    using p i by (auto simp: install_tool_execute_def client_search_def Let_def
        split: api_response.splits option.splits)
qed

lemma manage_fs_cases:
  assumes cp: "clean_path ss"
  shows "w_fs (snd (manage_execute cwd (abs_of ss) a n w)) = w_fs w
         \<or> (\<exists>s. fs_rm_rf (w_fs w) (ss @ [s]) = Inr (w_fs (snd (manage_execute cwd (abs_of ss) a n w))))"
proof -
  have u: "w_fs (snd (uninstallSkill cwd (abs_of ss) x w)) = w_fs w
      \<or> (\<exists>s. fs_rm_rf (w_fs w) (ss @ [s]) = Inr (w_fs (snd (uninstallSkill cwd (abs_of ss) x w))))" for x
    using uninstall_fs_cases [OF cp, of cwd x w] by blast
  show ?thesis
    using u by (simp add: manage_execute_def)
qed

section \<open>Witnesses\<close>

theorem install_tool_blocked_witness:
  "install_tool_execute ''/w'' (abs_of [''w'', ''skills'']) net_fourth ''t'' (single_hit unsafe_resource) ''pdf'' None w_skills
   = (Blocked (Blocked_scan ''pdf'' ''HIGH'' 2 []),
      logged (Ev_api ''/search'' (query_params (search_params ''pdf'' (Some ''skill'') (Some 1) None))) w_skills)"
  using install_tool_blocked [where api = "single_hit unsafe_resource" and query = "''pdf''"
      and sr = "\<lparr>sr_success = True, sr_data = [unsafe_resource], sr_total = None\<rparr>" and skill = unsafe_resource
      and others = "[]" and owner = "''o''" and repo = "''r''" and b = "Blocked_scan ''pdf'' ''HIGH'' 2 []"]
  by (simp add: single_hit_def unsafe_resource_def example_resource_def checkSecurity_def shown_flags_def)

theorem install_tool_passes_gate_witness:
  "install_tool_execute ''/w'' (abs_of [''w'', ''skills'']) net_fourth ''t'' (single_hit score24_resource) ''pdf'' None w_skills
   = (case installSkillFromGitHub ''/w'' (abs_of [''w'', ''skills'']) net_fourth ''t'' ''o'' ''r'' ''pdf'' False
             (logged (Ev_api ''/search'' (query_params (search_params ''pdf'' (Some ''skill'') (Some 1) None))) w_skills) of
        (Inl _, w2) \<Rightarrow> (Tool_error, w2)
      | (Inr res, w2) \<Rightarrow> (install_answer score24_resource res, w2))"
  using install_tool_passes_gate [where api = "single_hit score24_resource" and query = "''pdf''"
      and sr = "\<lparr>sr_success = True, sr_data = [score24_resource], sr_total = None\<rparr>" and skill = score24_resource
      and others = "[]" and owner = "''o''" and repo = "''r''"]
  by (simp add: single_hit_def score24_resource_def example_resource_def checkSecurity_def score_block_def
      score_threshold_def)

theorem install_tool_no_repository_witness:
  "install_tool_execute ''/w'' (abs_of [''w'', ''skills'']) net_fourth ''t'' (single_hit norepo_resource) ''pdf'' None w_skills
   = (No_repository ''pdf'' None,
      logged (Ev_api ''/search'' (query_params (search_params ''pdf'' (Some ''skill'') (Some 1) None))) w_skills)"
  using install_tool_no_repository [where api = "single_hit norepo_resource" and query = "''pdf''"
      and sr = "\<lparr>sr_success = True, sr_data = [norepo_resource], sr_total = None\<rparr>" and skill = norepo_resource
      and others = "[]"]
  by (simp add: single_hit_def norepo_resource_def example_resource_def truthy_def)

end
