(* ===== verification/Plugin.thy ===== *)
theory Plugin
  imports Tools
begin

text \<open>
  The plugin entry point \<open>index.ts\<close>, in its two revisions
  (\<open>src/src/skill-installer.ts\<close>, lines 406--485 and 486--589): \<open>register\<close>
  reads the host's plugin configuration, creates the catalog client with
  the API key, registers the tools under their names, and installs the
  \<open>before_prompt_build\<close> hook that appends the VibeClaw context to the
  system prompt.  The host's \<open>api\<close> object is not modelled: \<open>register\<close>
  returns what it passes to \<open>registerTool\<close> and the hook is a function on
  the system prompt.  A non-ASCII character of a literal (the em dash) is
  written as its UTF-8 bytes.  Proved: the prompt is only extended when it
  is a nonempty string, and then it announces the configured
  restrictions.
\<close>

section \<open>Configuration and registration\<close>

text \<open>
  The fields \<open>register\<close> reads from \<open>api.pluginConfig\<close>; \<open>None\<close> is a
  missing (\<open>undefined\<close> or \<open>null\<close>) field, and a missing \<open>pluginConfig\<close>
  is \<open>{}\<close> (line 518).
\<close>

record PluginConfig =
  pc_apiKey :: "string option"
  pc_searchOnly :: "bool option"
  pc_allowedPublishers :: "string list option"

definition empty_config :: PluginConfig where
  "empty_config = \<lparr>pc_apiKey = None, pc_searchOnly = None, pc_allowedPublishers = None\<rparr>"

definition DEFAULT_API_KEY :: string where
  "DEFAULT_API_KEY = ''vibe_live_84lpwof-e2tSDNdEeZOim7bN''"

text \<open>\<open>VibeClawConfig\<close> of the current revision (lines 522--525).\<close>

record VibeClawConfig =
  searchOnly :: bool
  allowedPublishers :: "string list option"

text \<open>
  The tool objects \<open>registerTool\<close>'s factory asks for, named by their
  factory, with the arguments \<open>index.ts\<close> passes: the API key of the
  client, and for the install tool of the current revision also the
  configuration (line 539).  The factories are those of \<open>tools.ts\<close>.
  \<open>part_000\<close> holds the \<open>tools.ts\<close> of the earlier revision (its
  descriptions count 27,700+ resources, as the earlier \<open>index.ts\<close> does);
  the one the current revision imports, with \<open>createAuditTool\<close> and a
  configurable install tool, is not in the repository.
\<close>

datatype tool = Search_tool string | Install_tool string "VibeClawConfig option" | Trending_tool string | Manage_tool
  | Audit_tool string

definition register_v0 :: "PluginConfig option \<Rightarrow> tool list \<times> string list" where
  "register_v0 pluginConfig =
     (let pc = (case pluginConfig of Some c \<Rightarrow> c | None \<Rightarrow> empty_config);
          apiKey = (case pc_apiKey pc of Some k \<Rightarrow> k | None \<Rightarrow> DEFAULT_API_KEY)
      in ([Search_tool apiKey, Install_tool apiKey None, Trending_tool apiKey, Manage_tool],
          [''vibeclaw_search'', ''vibeclaw_install'', ''vibeclaw_trending'', ''vibeclaw_manage'']))"

definition register :: "PluginConfig option \<Rightarrow> VibeClawConfig \<times> tool list \<times> string list" where
  "register pluginConfig =
     (let pc = (case pluginConfig of Some c \<Rightarrow> c | None \<Rightarrow> empty_config);
          apiKey = (case pc_apiKey pc of Some k \<Rightarrow> k | None \<Rightarrow> DEFAULT_API_KEY);
          config = \<lparr>searchOnly = (case pc_searchOnly pc of Some b \<Rightarrow> b | None \<Rightarrow> False),
                    allowedPublishers = pc_allowedPublishers pc\<rparr>;
          toolNames = [''vibeclaw_search'', ''vibeclaw_install'', ''vibeclaw_trending'', ''vibeclaw_manage'',
                       ''vibeclaw_audit'']
      in (config, [Search_tool apiKey, Install_tool apiKey (Some config), Trending_tool apiKey, Manage_tool,
                   Audit_tool apiKey],
          toolNames))"

section \<open>The system-prompt hook\<close>

definition em_dash :: string where
  "em_dash = [CHR 0xE2, CHR 0x80, CHR 0x94]"

text \<open>The context of the earlier revision (lines 454--475).\<close>

definition vibeClawContext_v0 :: string where
  "vibeClawContext_v0 = js_join ''\<newline>''
     ['''',
      ''## VibeClaw '' @ em_dash @ '' Skill Discovery'',
      '''',
      ''You have access to VibeClaw tools that connect to the Vibe Index ecosystem (27,700+ skills, plugins, and MCP servers).'',
      '''',
      ''**When to use VibeClaw:**'',
      ''- When you cannot fulfill a user's request because a required skill/tool is not installed'',
      ''- When the user asks about available tools, trending skills, or recommendations'',
      ''- When the user wants to install a new capability'',
      '''',
      ''**How to use:**'',
      ''1. Use `vibeclaw_search` to find relevant skills by describing the capability needed'',
      ''2. Use `vibeclaw_install` to download and install a skill directly from GitHub into ~/.openclaw/skills/'',
      ''3. Use `vibeclaw_trending` to show what's popular in the ecosystem'',
      ''4. Use `vibeclaw_manage` to list or uninstall VibeClaw-installed skills'',
      '''',
      ''**Important:** When you cannot handle a request (e.g., 'check my email', 'what's the weather'),'',
      ''DO NOT just say you can't do it. Instead, use vibeclaw_search to find a skill that can,'',
      ''then use vibeclaw_install to install it. The skill will be available on next session.'',
      '''']"

text \<open>The notes and the context of the current revision (lines 550--579).\<close>

definition searchOnlyNote :: "VibeClawConfig \<Rightarrow> string" where
  "searchOnlyNote config =
     (if searchOnly config
      then ''\<newline>**Note:** This instance is in search-only mode. vibeclaw_install is disabled.''
      else '''')"

definition allowlistNote :: "VibeClawConfig \<Rightarrow> string" where
  "allowlistNote config =
     (case allowedPublishers config of
        Some ps \<Rightarrow> ''\<newline>**Note:** Only skills from these publishers can be installed: '' @ js_join '', '' ps
      | None \<Rightarrow> '''')"

definition vibeClawContext :: "VibeClawConfig \<Rightarrow> string" where
  "vibeClawContext config = js_join ''\<newline>''
     ['''',
      ''## VibeClaw '' @ em_dash @ '' Skill Discovery'',
      '''',
      ''You have access to VibeClaw tools that connect to the Vibe Index ecosystem (93,600+ skills, plugins, and MCP servers).'' @ searchOnlyNote config @ allowlistNote config,
      '''',
      ''**When to use VibeClaw:**'',
      ''- When you cannot fulfill a user's request because a required skill/tool is not installed'',
      ''- When the user asks about available tools, trending skills, or recommendations'',
      ''- When the user wants to install a new capability'',
      '''',
      ''**How to use:**'',
      ''1. Use `vibeclaw_search` to find relevant skills by describing the capability needed'',
      ''2. Use `vibeclaw_install` to download and install a skill directly from GitHub into ~/.openclaw/skills/'',
      ''3. Use `vibeclaw_trending` to show what's popular in the ecosystem'',
      ''4. Use `vibeclaw_manage` to list or uninstall VibeClaw-installed skills'',
      ''5. Use `vibeclaw_audit` to re-check installed skills against latest Vibe Index security data'',
      '''',
      ''**Important:** When you cannot handle a request (e.g., 'check my email', 'what's the weather'),'',
      ''DO NOT just say you can't do it. Instead, use vibeclaw_search to find a skill that can,'',
      ''then use vibeclaw_install to install it. The skill will be available on next session.'',
      '''']"

text \<open>
  The hook of both revisions (lines 477--479 and 581--583): the context is
  appended when \<open>params.systemPrompt\<close> is truthy, that is present and
  nonempty.
\<close>

definition before_prompt_build :: "string \<Rightarrow> string option \<Rightarrow> string option" where
  "before_prompt_build ctx systemPrompt =
     (case systemPrompt of
        Some p \<Rightarrow> (if p \<noteq> [] then Some (p @ ctx) else Some p)
      | None \<Rightarrow> None)"

definition n_resource :: VibeResource where
  "n_resource = example_resource\<lparr>name := ''n''\<rparr>"

section \<open>Properties of the hook and of the registration\<close>

lemma sublist_extend_left: "sublist x ys \<Longrightarrow> sublist x (ps @ ys)"
  using sublist_order.order.trans sublist_append_leftI by blast

lemma sublist_extend_right: "sublist x ys \<Longrightarrow> sublist x (ys @ ss)"
  using sublist_order.order.trans sublist_append_rightI by blast

lemma sublist_js_join: "x \<in> set xs \<Longrightarrow> sublist x (js_join sep xs)"
  by (induction sep xs rule: js_join.induct) (auto intro: sublist_extend_left)

lemma sublist_context_line:
  "sublist (''You have access to VibeClaw tools that connect to the Vibe Index ecosystem (93,600+ skills, plugins, and MCP servers).''
            @ searchOnlyNote config @ allowlistNote config) (vibeClawContext config)"
  unfolding vibeClawContext_def by (rule sublist_js_join) simp

lemma sublist_search_only_note:
  "searchOnly config \<Longrightarrow> sublist ''vibeclaw_install is disabled'' (vibeClawContext config)"
proof -
  assume so: "searchOnly config"
  have "searchOnlyNote config = ''\<newline>**Note:** This instance is in search-only mode. '' @ ''vibeclaw_install is disabled'' @ ''.''"
    using so by (simp add: searchOnlyNote_def)
  then have "sublist ''vibeclaw_install is disabled'' (searchOnlyNote config)"
    by (metis sublist_appendI)
  then show ?thesis
    by (meson sublist_context_line sublist_extend_left sublist_extend_right sublist_order.order.trans)
qed

lemma sublist_allowlist_note:
  "allowedPublishers config = Some ps \<Longrightarrow> sublist (js_join '', '' ps) (vibeClawContext config)"
proof -
  assume ap: "allowedPublishers config = Some ps"
  have "sublist (js_join '', '' ps) (allowlistNote config)"
    using ap unfolding allowlistNote_def by (simp only: option.case) (rule sublist_append_leftI)
  then show ?thesis
    by (meson sublist_context_line sublist_extend_left sublist_order.order.trans)
qed

text \<open>The registered install tool installs \<open>n\<close> into a fresh skills directory.\<close>

lemma install_tool_n_record:
  "map_of (w_fs (snd (install_tool_execute ''/w'' (abs_of [''w'', ''skills'']) net_fourth ''t'' (single_hit n_resource)
      ''n'' None w_skills))) ([''w'', ''skills''] @ [''n'', ''.vibeclaw.json'']) \<noteq> None"
proof -
  let ?E = "Ev_api ''/search'' (query_params (search_params ''n'' (Some ''skill'') (Some 1) None))"
  have e: "w_fs (snd (install_tool_execute ''/w'' (abs_of [''w'', ''skills'']) net_fourth ''t'' (single_hit n_resource)
      ''n'' None w_skills)) = w_fs (snd (installSkillFromGitHub ''/w'' (abs_of [''w'', ''skills'']) net_fourth ''t'' ''o'' ''r'' ''n'' False
              (logged ?E w_skills)))"
    using install_tool_eq [where api = "single_hit n_resource" and query = "''n''"
        and sr = "\<lparr>sr_success = True, sr_data = [n_resource], sr_total = None\<rparr>" and skill = n_resource and others = "[]"
        and owner = "''o''" and repo = "''r''"]
    by (simp add: single_hit_def n_resource_def example_resource_def checkSecurity_def score_block_def
        score_threshold_def)
  show ?thesis using install_n_fresh [of "logged ?E w_skills"] e by simp
qed

text \<open>
  C23: when the host's system prompt is a nonempty string, the hook
  appends the context to it, and the context announces search-only mode
  and lists the allowed publishers when they are configured; an empty or
  missing system prompt is left as it is, without the context.
\<close>

theorem prompt_hook_announces:
  assumes "p \<noteq> []"
  shows "\<exists>p'. before_prompt_build (vibeClawContext config) (Some p) = Some p' \<and> prefix p p'
           \<and> (searchOnly config \<longrightarrow> sublist ''vibeclaw_install is disabled'' p')
           \<and> (\<forall>ps. allowedPublishers config = Some ps \<longrightarrow> sublist (js_join '', '' ps) p')
           \<and> before_prompt_build (vibeClawContext config) (Some []) = Some []
           \<and> before_prompt_build (vibeClawContext config) None = None"
  using assms sublist_search_only_note [of config] sublist_allowlist_note [of config]
  by (auto simp: before_prompt_build_def intro: sublist_extend_left)

theorem prompt_hook_announces_witness:
  "before_prompt_build (vibeClawContext \<lparr>searchOnly = True, allowedPublishers = Some [''o'']\<rparr>) (Some ''sys'')
     = Some (''sys'' @ vibeClawContext \<lparr>searchOnly = True, allowedPublishers = Some [''o'']\<rparr>)
   \<and> sublist ''o'' (''sys'' @ vibeClawContext \<lparr>searchOnly = True, allowedPublishers = Some [''o'']\<rparr>)"
  using prompt_hook_announces [of "''sys''" "\<lparr>searchOnly = True, allowedPublishers = Some [''o'']\<rparr>"]
  by (auto simp: before_prompt_build_def)

end
