(* ===== verification/ReadTools.thy ===== *)
theory ReadTools
  imports Tools
begin

text \<open>
  The read-only side of the plugin (\<open>src/unnamed/part_000\<close>): the other
  two requests of the catalog client, \<open>getInstallInfo\<close> and \<open>trending\<close>
  (lines 104--125), the shared \<open>fetch\<close> (lines 66--84), \<open>formatResource\<close>
  (lines 188--208) and the tools \<open>vibeclaw_search\<close> (lines 213--261) and
  \<open>vibeclaw_trending\<close> (lines 351--406).  As for the install tool, a text
  answer is modelled by the data it shows: a listed resource is a
  \<open>resource_line\<close> with its number, name, type label, stars, badges,
  shortened description, security badge and GitHub link.  Proved: each
  tool makes one catalog request and changes no file, the caller's limit
  reaches the catalog unclamped, results are numbered from 1 in the
  catalog's order, and a shown description is at most 123 characters and
  agrees with the real one on its first 120.
\<close>

section \<open>The catalog client\<close>

text \<open>\<open>fetch\<close> (lines 66--84): empty parameters are dropped, the request is made, and a non-ok status throws.\<close>

definition client_fetch ::
  "(string \<Rightarrow> (string \<times> string) list \<Rightarrow> 'a api_response) \<Rightarrow> string \<Rightarrow> (string \<times> string) list \<Rightarrow> 'a io" where
  "client_fetch api endpoint params w =
     (let ps = query_params params;
          w' = logged (Ev_api endpoint ps) w
      in case api endpoint ps of
           Api_ok r \<Rightarrow> (Inr r, w')
         | Api_error \<Rightarrow> (Inl Api_failure, w'))"

text \<open>\<open>VibeInstallResult\<close> (lines 40--49) and \<open>getInstallInfo\<close> (lines 104--109).\<close>

record VibeInstallResult =
  ir_success :: bool
  ir_name :: string
  ir_type :: string
  ir_github_url :: string
  ir_install_command :: string
  ir_alternatives :: "(string \<times> string) list"

definition install_info_params :: "string \<Rightarrow> string option \<Rightarrow> (string \<times> string) list" where
  "install_info_params nm type = [(''name'', nm), (''type'', case type of Some t \<Rightarrow> t | None \<Rightarrow> '''')]"

definition getInstallInfo ::
  "(string \<Rightarrow> (string \<times> string) list \<Rightarrow> VibeInstallResult api_response) \<Rightarrow> string \<Rightarrow> string option
    \<Rightarrow> VibeInstallResult io" where
  "getInstallInfo api nm type = client_fetch api ''/install'' (install_info_params nm type)"

text \<open>
  \<open>VibeTrendingResult\<close> (lines 51--54): each resource with its optional
  \<open>star_growth\<close>; \<open>growth_percent\<close> is never read.
\<close>

record VibeTrendingResult =
  tr_success :: bool
  tr_data :: "(VibeResource \<times> int option) list"

type_synonym trend_catalog = "string \<Rightarrow> (string \<times> string) list \<Rightarrow> VibeTrendingResult api_response"

definition trending_params :: "string option \<Rightarrow> string option \<Rightarrow> nat option \<Rightarrow> (string \<times> string) list" where
  "trending_params period type limit =
     [(''period'', case period of Some p \<Rightarrow> p | None \<Rightarrow> ''week''),
      (''type'', case type of Some t \<Rightarrow> t | None \<Rightarrow> ''''),
      (''limit'', dec_string (case limit of Some l \<Rightarrow> l | None \<Rightarrow> 5))]"

definition client_trending ::
  "trend_catalog \<Rightarrow> string option \<Rightarrow> string option \<Rightarrow> nat option \<Rightarrow> VibeTrendingResult io" where
  "client_trending api period type limit = client_fetch api ''/trending'' (trending_params period type limit)"

section \<open>formatResource\<close>

text \<open>\<open>r.resource_type.toUpperCase()\<close>.\<close>

definition type_label :: "resource_type \<Rightarrow> string" where
  "type_label t = (case t of Skill \<Rightarrow> ''SKILL'' | Plugin \<Rightarrow> ''PLUGIN'' | Mcp \<Rightarrow> ''MCP'' | Marketplace \<Rightarrow> ''MARKETPLACE'')"

text \<open>The badges in their order (lines 190--193): a badge flag or the resource's own flag.\<close>

definition resource_badges :: "VibeResource \<Rightarrow> string list" where
  "resource_badges r =
     (let b = badges r
      in (if (case b of Some f \<Rightarrow> badge_official f | None \<Rightarrow> False) \<or> is_official r then [''Official''] else [])
       @ (if (case b of Some f \<Rightarrow> badge_verified f | None \<Rightarrow> False) \<or> is_verified r then [''Verified''] else [])
       @ (if (case b of Some f \<Rightarrow> badge_trending f | None \<Rightarrow> False) then [''Trending''] else []))"

text \<open>The description shown (lines 196--200): a missing or empty one is replaced, a long one cut at 120.\<close>

definition shown_description :: "string option \<Rightarrow> string" where
  "shown_description d =
     (case d of
        Some s \<Rightarrow> if s = [] then ''No description'' else if 120 < length s then take 120 s @ ''...'' else s
      | None \<Rightarrow> ''No description'')"

record resource_line =
  rl_index :: nat
  rl_name :: string
  rl_type :: string
  rl_stars :: int
  rl_badges :: "string list"
  rl_desc :: string
  rl_security :: security_badge
  rl_github :: "string option"

definition formatResource :: "VibeResource \<Rightarrow> nat \<Rightarrow> resource_line" where
  "formatResource r index =
     \<lparr>rl_index = index, rl_name = name r, rl_type = type_label (resource_type r),
      rl_stars = (case star_info r of Some si \<Rightarrow> star_count si | None \<Rightarrow> stars r),
      rl_badges = resource_badges r, rl_desc = shown_description (description r),
      rl_security = formatSecurityBadge r,
      rl_github = (if truthy (github_url r) then github_url r else None)\<rparr>"

section \<open>vibeclaw_search\<close>

datatype search_outcome = Search_error | No_results string | Found nat string "resource_line list"

text \<open>
  \<open>execute\<close> of \<open>createSearchTool\<close> (lines 239--259): the results are
  numbered from 1; the total is \<open>pagination.total\<close> when present.
\<close>

definition search_execute ::
  "catalog \<Rightarrow> string \<Rightarrow> string option \<Rightarrow> nat option \<Rightarrow> world \<Rightarrow> search_outcome \<times> world" where
  "search_execute api query type limit w =
     (case client_search api query type (Some (case limit of Some l \<Rightarrow> l | None \<Rightarrow> 5)) None w of
        (Inl _, w1) \<Rightarrow> (Search_error, w1)
      | (Inr result, w1) \<Rightarrow>
          (if \<not> sr_success result \<or> sr_data result = [] then (No_results query, w1)
           else (Found (case sr_total result of Some t \<Rightarrow> t | None \<Rightarrow> length (sr_data result)) query
                   (map (\<lambda>(i, r). formatResource r i) (enumerate 1 (sr_data result))), w1)))"

section \<open>vibeclaw_trending\<close>

text \<open>The period label of line 388: anything but \<open>day\<close> and \<open>month\<close> reads as this week.\<close>

definition period_label :: "string option \<Rightarrow> string" where
  "period_label p = (if p = Some ''day'' then ''today'' else if p = Some ''month'' then ''this month'' else ''this week'')"

text \<open>The growth shown (line 393): only a nonzero \<open>star_growth\<close> is truthy.\<close>

definition shown_growth :: "int option \<Rightarrow> int option" where
  "shown_growth g = (case g of Some n \<Rightarrow> if n \<noteq> 0 then Some n else None | None \<Rightarrow> None)"

datatype trending_outcome =
    Trending_error | No_trending | Trending_list string string "(resource_line \<times> int option) list"

text \<open>\<open>execute\<close> of \<open>createTrendingTool\<close> (lines 376--404).\<close>

definition trending_execute ::
  "trend_catalog \<Rightarrow> string option \<Rightarrow> string option \<Rightarrow> nat option \<Rightarrow> world \<Rightarrow> trending_outcome \<times> world" where
  "trending_execute api period type limit w =
     (case client_trending api (Some (case period of Some p \<Rightarrow> p | None \<Rightarrow> ''week'')) type
             (Some (case limit of Some l \<Rightarrow> l | None \<Rightarrow> 5)) w of
        (Inl _, w1) \<Rightarrow> (Trending_error, w1)
      | (Inr result, w1) \<Rightarrow>
          (if \<not> tr_success result \<or> tr_data result = [] then (No_trending, w1)
           else (Trending_list (case type of Some t \<Rightarrow> t | None \<Rightarrow> ''resources'') (period_label period)
                   (map (\<lambda>(i, r, g). (formatResource r i, shown_growth g)) (enumerate 1 (tr_data result))), w1)))"

text \<open>Examples for the witnesses: a catalog page with a total, and a trending list.\<close>

definition page_catalog :: catalog where
  "page_catalog endpoint ps = Api_ok \<lparr>sr_success = True, sr_data = [example_resource], sr_total = Some 40\<rparr>"

definition trend_one :: trend_catalog where
  "trend_one endpoint ps = Api_ok \<lparr>tr_success = True, tr_data = [(example_resource, Some 0)]\<rparr>"

section \<open>Properties\<close>

lemma client_search_fetch:
  "client_search api q type limit offset = client_fetch api ''/search'' (search_params q type limit offset)"
  by (simp add: client_search_def client_fetch_def fun_eq_iff)

lemma client_fetch_world [simp]: "snd (client_fetch api e ps w) = logged (Ev_api e (query_params ps)) w"
  by (simp add: client_fetch_def Let_def split: api_response.split)

lemma dec_string_nonempty [simp]: "dec_string n \<noteq> []"
  using dec_string.simps [of n] by (simp del: dec_string.simps split: if_splits)

lemma snd_search_execute:
  "snd (search_execute api q type limit w) = snd (client_search api q type (Some (case limit of Some l \<Rightarrow> l | None \<Rightarrow> 5)) None w)"
  unfolding search_execute_def by (auto split: prod.split sum.split)

lemma snd_trending_execute:
  "snd (trending_execute api period type limit w) =
     snd (client_trending api (Some (case period of Some p \<Rightarrow> p | None \<Rightarrow> ''week'')) type
            (Some (case limit of Some l \<Rightarrow> l | None \<Rightarrow> 5)) w)"
  unfolding trending_execute_def by (auto split: prod.split sum.split)

lemma format_lines:
  "map rl_index (map (\<lambda>(i, r). formatResource r i) xs) = map fst xs
   \<and> map rl_name (map (\<lambda>(i, r). formatResource r i) xs) = map (name \<circ> snd) xs
   \<and> map rl_security (map (\<lambda>(i, r). formatResource r i) xs) = map (formatSecurityBadge \<circ> snd) xs"
  by (induction xs) (auto simp: formatResource_def)

lemma search_execute_fs [simp]: "w_fs (snd (search_execute api q type limit w)) = w_fs w"
  by (simp del: dec_string.simps add: snd_search_execute client_search_fetch)

lemma trending_execute_fs [simp]: "w_fs (snd (trending_execute api period type limit w)) = w_fs w"
  by (simp del: dec_string.simps add: snd_trending_execute client_trending_def)

lemma enumerate_fst: "map fst (enumerate n xs) = [n..<n + length xs]"
  by (simp add: enumerate_eq_zip)

lemma enumerate_snd: "map snd (enumerate n xs) = xs"
  by (simp add: enumerate_eq_zip)

text \<open>
  C25: the search and trending tools make exactly one catalog request and
  change nothing else: the file system is untouched.  The request carries
  the caller's limit as it is (5 when absent): a limit outside the
  documented 1--10 is not clamped.
\<close>

theorem read_tools_effect:
  "snd (search_execute api q type limit w) =
     logged (Ev_api ''/search'' (query_params (search_params q type (Some (case limit of Some l \<Rightarrow> l | None \<Rightarrow> 5)) None))) w
   \<and> snd (trending_execute tapi period type limit w) =
     logged (Ev_api ''/trending'' (query_params (trending_params (Some (case period of Some p \<Rightarrow> p | None \<Rightarrow> ''week''))
        type (Some (case limit of Some l \<Rightarrow> l | None \<Rightarrow> 5))))) w
   \<and> w_fs (snd (search_execute api q type limit w)) = w_fs w
   \<and> w_fs (snd (trending_execute tapi period type limit w)) = w_fs w
   \<and> (''limit'', dec_string (case limit of Some l \<Rightarrow> l | None \<Rightarrow> 5))
       \<in> set (query_params (search_params q type (Some (case limit of Some l \<Rightarrow> l | None \<Rightarrow> 5)) None))"
  by (simp del: dec_string.simps add: snd_search_execute snd_trending_execute client_search_fetch client_trending_def
      logged_def query_params_def search_params_def)

text \<open>
  C26: when the catalog answers with a nonempty page, the search tool
  lists every resource of the page, in the catalog's order, numbered from
  1, each with its own security badge, and reports the page's total (the
  number of results when the catalog gives none).
\<close>

theorem search_found:
  assumes api: "api ''/search'' (query_params (search_params q type (Some (case limit of Some l \<Rightarrow> l | None \<Rightarrow> 5)) None))
                  = Api_ok sr"
    and ok: "sr_success sr" and ne: "sr_data sr \<noteq> []"
  shows "\<exists>lines. fst (search_execute api q type limit w) =
             Found (case sr_total sr of Some t \<Rightarrow> t | None \<Rightarrow> length (sr_data sr)) q lines
           \<and> map rl_index lines = [1..<length (sr_data sr) + 1]
           \<and> map rl_name lines = map name (sr_data sr)
           \<and> map rl_security lines = map formatSecurityBadge (sr_data sr)"
proof -
  let ?lines = "map (\<lambda>(i, r). formatResource r i) (enumerate 1 (sr_data sr))"
  have run: "fst (search_execute api q type limit w) =
      Found (case sr_total sr of Some t \<Rightarrow> t | None \<Rightarrow> length (sr_data sr)) q ?lines"
    using api ok ne
    by (simp del: dec_string.simps add: search_execute_def client_search_fetch client_fetch_def Let_def)
  have "map rl_index ?lines = map fst (enumerate 1 (sr_data sr))"
    and "map rl_name ?lines = map name (map snd (enumerate 1 (sr_data sr)))"
    and "map rl_security ?lines = map formatSecurityBadge (map snd (enumerate 1 (sr_data sr)))"
    using format_lines [of "enumerate 1 (sr_data sr)"] by (simp_all only: map_map)
  then show ?thesis
    using run unfolding enumerate_fst enumerate_snd by (intro exI [of _ ?lines]) (simp add: add.commute)
qed

text \<open>
  C27: a description shown in a result is at most 123 characters long,
  and it agrees with the resource's real, nonempty description on its
  first 120 characters.
\<close>

theorem shown_description_bounds:
  "length (rl_desc (formatResource r i)) \<le> 123
   \<and> (\<forall>d. description r = Some d \<longrightarrow> d \<noteq> [] \<longrightarrow> take 120 (rl_desc (formatResource r i)) = take 120 d)"
  by (auto simp: formatResource_def shown_description_def split: option.split)

theorem search_found_witness:
  "\<exists>lines. fst (search_execute page_catalog ''pdf'' None None w_skills) = Found 40 ''pdf'' lines
     \<and> map rl_index lines = [1] \<and> map rl_name lines = [''pdf'']
     \<and> map rl_security lines = [formatSecurityBadge example_resource]"
  using search_found [of page_catalog "''pdf''" None None
      "\<lparr>sr_success = True, sr_data = [example_resource], sr_total = Some 40\<rparr>" w_skills]
  by (simp add: page_catalog_def example_resource_def)

theorem shown_description_bounds_witness:
  "length (rl_desc (formatResource (example_resource\<lparr>description := Some (replicate 130 CHR ''a'')\<rparr>) 1)) \<le> 123
   \<and> take 120 (rl_desc (formatResource (example_resource\<lparr>description := Some (replicate 130 CHR ''a'')\<rparr>) 1))
       = replicate 120 CHR ''a''"
  using shown_description_bounds [of "example_resource\<lparr>description := Some (replicate 130 CHR ''a'')\<rparr>" 1]
  by simp

end
