(* ===== verification/Host.thy ===== *)
theory Host
  imports Plugin ReadTools
begin

text \<open>
  The tools as the host sees them: each \<open>createXTool\<close> of \<open>tools.ts\<close>
  (\<open>src/unnamed/part_000\<close>) returns an object with a name, a parameter
  schema and an \<open>execute\<close>; the host offers the agent the schema and
  calls \<open>execute\<close> with the agent's arguments.  Modelled: the descriptors
  (name and schema, without the description texts) of the two tools whose
  schema enumerates values, \<open>vibeclaw_trending\<close> and \<open>vibeclaw_manage\<close>.
  Proved: the manage tool's schema lists exactly the actions its
  \<open>execute\<close> handles; the trending tool forwards any period as given and
  labels every period outside its schema as this week.
\<close>

section \<open>Tool descriptors\<close>

datatype param_type = P_string | P_number | P_boolean

record param_def =
  pd_name :: string
  pd_type :: param_type
  pd_enum :: "string list option"

record tool_def =
  td_name :: string
  td_params :: "param_def list"
  td_required :: "string list"

definition resource_types :: "string list" where
  "resource_types = [''skill'', ''plugin'', ''mcp'', ''marketplace'']"

text \<open>\<open>createTrendingTool\<close> (lines 351--375): no parameter is required.\<close>

definition trendingToolDef :: tool_def where
  "trendingToolDef =
     \<lparr>td_name = ''vibeclaw_trending'',
      td_params = [\<lparr>pd_name = ''period'', pd_type = P_string, pd_enum = Some [''day'', ''week'', ''month'']\<rparr>,
                   \<lparr>pd_name = ''type'', pd_type = P_string, pd_enum = Some resource_types\<rparr>,
                   \<lparr>pd_name = ''limit'', pd_type = P_number, pd_enum = None\<rparr>],
      td_required = []\<rparr>"

text \<open>\<open>createManageTool\<close> (lines 411--431).\<close>

definition manageToolDef :: tool_def where
  "manageToolDef =
     \<lparr>td_name = ''vibeclaw_manage'',
      td_params = [\<lparr>pd_name = ''action'', pd_type = P_string, pd_enum = Some [''list'', ''uninstall'']\<rparr>,
                   \<lparr>pd_name = ''skillName'', pd_type = P_string, pd_enum = None\<rparr>],
      td_required = [''action'']\<rparr>"

text \<open>The values a schema allows for a parameter, when it enumerates them.\<close>

definition param_enum :: "tool_def \<Rightarrow> string \<Rightarrow> string list option" where
  "param_enum d p = (case filter (\<lambda>x. pd_name x = p) (td_params d) of x # _ \<Rightarrow> pd_enum x | [] \<Rightarrow> None)"

section \<open>Properties\<close>

lemma shown_growth_eq: "shown_growth g = (if g = Some 0 then None else g)"
  by (cases g) (auto simp: shown_growth_def)

lemma trending_growth:
  "map snd (map (\<lambda>(i, r, g). (formatResource r i, shown_growth g)) (enumerate n xs))
     = map (\<lambda>(r, g). if g = Some 0 then None else g) xs"
  by (induction xs arbitrary: n) (auto simp: shown_growth_eq split_def)

lemma trending_index:
  "map (rl_index \<circ> fst) (map (\<lambda>(i, r, g). (formatResource r i, shown_growth g)) ys) = map fst ys"
  by (induction ys) (auto simp: formatResource_def)

text \<open>
  C24: the manage tool's schema enumerates exactly the actions its
  \<open>execute\<close> handles: any other action is answered as unknown, with no
  effect, and no enumerated one ever is.
\<close>

theorem manage_schema_exact:
  "param_enum manageToolDef ''action'' = Some [''list'', ''uninstall'']
   \<and> (a \<notin> set (the (param_enum manageToolDef ''action'')) \<longleftrightarrow>
        manage_execute cwd sd a n w = (Inr (Unknown_action a), w))"
  by (auto simp: param_enum_def manageToolDef_def manage_execute_def split: prod.splits sum.splits)

text \<open>
  C28: for any period the agent passes, the trending tool asks the catalog
  for that period as given and, on a nonempty answer, lists the resources
  numbered from 1 with their growth, a zero growth hidden; its label is
  that of the period, and every period outside the schema's
  \<open>day\<close>, \<open>week\<close>, \<open>month\<close> is labelled this week.
\<close>

theorem trending_period_label:
  assumes api: "tapi ''/trending'' (query_params (trending_params (Some p) type (Some (case limit of Some n \<Rightarrow> n | None \<Rightarrow> 5))))
                  = Api_ok tr"
    and ok: "tr_success tr" and ne: "tr_data tr \<noteq> []"
  shows "\<exists>lines. trending_execute tapi (Some p) type limit w =
             (Trending_list (case type of Some t \<Rightarrow> t | None \<Rightarrow> ''resources'') (period_label (Some p)) lines,
              logged (Ev_api ''/trending''
                (query_params (trending_params (Some p) type (Some (case limit of Some n \<Rightarrow> n | None \<Rightarrow> 5))))) w)
           \<and> map (rl_index \<circ> fst) lines = [1..<length (tr_data tr) + 1]
           \<and> map snd lines = map (\<lambda>(r, g). if g = Some 0 then None else g) (tr_data tr)
           \<and> (p \<noteq> [] \<longrightarrow> (''period'', p)
                \<in> set (query_params (trending_params (Some p) type (Some (case limit of Some n \<Rightarrow> n | None \<Rightarrow> 5)))))
           \<and> (p \<notin> set (the (param_enum trendingToolDef ''period'')) \<longrightarrow> period_label (Some p) = ''this week'')"
proof -
  let ?xs = "enumerate 1 (tr_data tr)"
  let ?lines = "map (\<lambda>(i, r, g). (formatResource r i, shown_growth g)) ?xs"
  have run: "trending_execute tapi (Some p) type limit w =
      (Trending_list (case type of Some t \<Rightarrow> t | None \<Rightarrow> ''resources'') (period_label (Some p)) ?lines,
       logged (Ev_api ''/trending''
         (query_params (trending_params (Some p) type (Some (case limit of Some n \<Rightarrow> n | None \<Rightarrow> 5))))) w)"
    using api ok ne
    by (simp del: dec_string.simps add: trending_execute_def client_trending_def client_fetch_def Let_def)
  have g: "map snd ?lines = map (\<lambda>(r, g). if g = Some 0 then None else g) (tr_data tr)"
    and i: "map (rl_index \<circ> fst) ?lines = [1..<length (tr_data tr) + 1]"
    using trending_growth [of 1 "tr_data tr"] trending_index [of "enumerate 1 (tr_data tr)"]
      enumerate_fst [of 1 "tr_data tr"]
    by (simp_all add: add.commute)
  have q: "p \<noteq> [] \<longrightarrow> (''period'', p)
      \<in> set (query_params (trending_params (Some p) type (Some (case limit of Some n \<Rightarrow> n | None \<Rightarrow> 5))))"
    by (simp del: dec_string.simps add: query_params_def trending_params_def)
  have l: "p \<notin> set (the (param_enum trendingToolDef ''period'')) \<longrightarrow> period_label (Some p) = ''this week''"
    by (simp add: param_enum_def trendingToolDef_def period_label_def)
  show ?thesis using run g i q l by blast
qed

theorem trending_period_label_witness:
  "\<exists>lines. trending_execute trend_one (Some ''year'') None None w_skills =
      (Trending_list ''resources'' ''this week'' lines,
       logged (Ev_api ''/trending'' [(''period'', ''year''), (''limit'', dec_string 5)]) w_skills)
     \<and> map (rl_index \<circ> fst) lines = [1] \<and> map snd lines = [None]"
  using trending_period_label [of trend_one "''year''" None None
      "\<lparr>tr_success = True, tr_data = [(example_resource, Some 0)]\<rparr>" w_skills]
  by (simp del: dec_string.simps add: trend_one_def trending_params_def query_params_def period_label_def)

end
