(* ===== verification/Spec2Isabelle.thy ===== *)
theory Spec2Isabelle
  imports InstallerV0 Host
begin

text \<open>
  A verification development for VibeClaw, a plugin that lets an agent host
  search the Vibe Index catalog and install "skills" (\<open>SKILL.md\<close> files) from
  GitHub into \<open>~/.openclaw/skills\<close>.  The sources are
  \<open>src/src/skill-installer.ts\<close> (two revisions of the installer, lines
  1--178 and 179--405, then two revisions of the plugin entry point
  \<open>index.ts\<close>, lines 406--589) and \<open>src/unnamed/part_000\<close> (the catalog
  client \<open>vibe-index-client.ts\<close>, lines 1--126, and the agent tools
  \<open>tools.ts\<close>, lines 127--459).  \<open>part_000\<close> holds the \<open>tools.ts\<close>
  that goes with the earlier \<open>index.ts\<close> (both count 27,700+ resources);
  the one the current \<open>index.ts\<close> imports is not in the repository.
  Line numbers below are those of these two files.

  \<^bold>\<open>How the parts interact.\<close>  The host calls a tool.  \<open>vibeclaw_install\<close>
  asks the catalog for the best skill, checks it with the security gate
  and calls \<open>installSkillFromGitHub\<close>, which sanitizes the name, checks
  whether \<open>SKILL.md\<close> exists, runs the source prober over six candidate
  URLs, and writes \<open>SKILL.md\<close> and the install record \<open>.vibeclaw.json\<close>.
  \<open>vibeclaw_manage\<close> lists the directories holding a record and removes
  one.  All effects go to the file system and the network.

  \<^bold>\<open>Theories, leaf first.\<close>
  \<^item> \<open>Prelude\<close>: type names (\<open>path\<close>, \<open>url\<close>), lemma collections, generic
    list and association-list facts.
  \<^item> \<open>JsString\<close>: the string built-ins the code calls (\<open>startsWith\<close>,
    \<open>includes\<close>, \<open>indexOf\<close> with its clamped position, \<open>join\<close>) and the
    character class of the sanitizer (spec-modelled runtime).
  \<^item> \<open>Path\<close>: Node's posix \<open>path.join\<close>, \<open>path.resolve\<close>, \<open>normalize\<close>
    (after \<open>normalizeString\<close> of Node's sources) and \<open>os_path\<close>, the
    kernel's reading of a path string as a list of entries.  Splitting and
    joining are inverse; joining or resolving clean names under a clean
    absolute directory gives its child.
  \<^item> \<open>Sanitizer\<close>: \<open>CONFIG_DIR\<close> and \<open>SKILLS_DIR\<close> (lines 189--193, the
    environment a parameter) and \<open>sanitizeSkillName\<close> (199--210).  The
    containment test never changes the verdict for a clean absolute
    directory, and rejects everything for a relative one.
  \<^item> \<open>Prober\<close>: \<open>getSkillMdUrls\<close> (216--229) and \<open>downloadSkillMd\<close>
    (234--259) as a structural recursion \<open>probe\<close> over the candidates that
    returns the accepted content and the list of URLs requested.  The
    network is an oracle \<open>net\<close> from a URL to a rejected fetch or a
    status and body.  It refines the contract "first accepted candidate,
    requests exactly up to it"; the validation heuristic is characterised
    without \<open>indexOf\<close> and compared with the earlier revision (line 54).
  \<^item> \<open>Security\<close>: the \<open>VibeResource\<close> record (part_000 8--33),
    \<open>checkSecurity\<close> (140--170) and \<open>formatSecurityBadge\<close> (175--186); an
    unsafe deep scan blocks whatever the score, otherwise a score of 25
    or more blocks, and a safe scan does not lift a high score.  Scores
    are reals.
  \<^item> \<open>FileSystem\<close>: \<open>node:fs\<close> as an association list from paths to
    \<open>Dir\<close> or \<open>File\<close>, with \<open>mkdir -p\<close>, \<open>writeFile\<close>, \<open>readFile\<close>,
    \<open>readdir\<close>, \<open>rm -r\<close> and their error codes, and the invariant
    \<open>fs_wf\<close> (distinct keys, a root, clean entries, every parent a
    directory) that each operation keeps (spec-modelled).
  \<^item> \<open>World\<close>: a world is the file system and the log of external calls;
    an effectful call is a function from a world to an exception or a
    result and the new world, sequenced by \<open>io_bind\<close> as \<open>await\<close> does.
  \<^item> \<open>Json\<close>: \<open>JSON.stringify\<close> of a flat string object and
    \<open>JSON.parse\<close> as a recursive-descent parser over the JSON grammar
    (spec-modelled runtime).  A parsed number keeps its lexeme; a \<open>\u\<close>
    escape above 0xFF is outside the 8-bit strings and rejected; a
    repeated key keeps its first position and its last value.  Parsing
    what \<open>stringify\<close> printed gives the object back.
  \<^item> \<open>Installer\<close>: \<open>InstallResult\<close>, the install record and
    \<open>installSkillFromGitHub\<close> (273--342) with its writing steps
    \<open>write_skill\<close>.  Proved: invalid names cause no call at all; every
    run changes only its skill directory; the fresh or forced, already
    installed, repeated and not-found runs, with their calls in order.
  \<^item> \<open>Registry\<close>: \<open>listInstalledSkills\<close> (347--366),
    \<open>getInstalledSkillMeta\<close> (371--387), \<open>uninstallSkill\<close> (392--405)
    and the abstract registry \<open>tracked_skills\<close>; listing refines it,
    uninstalling removes one subtree, a listed name with a disallowed
    character uninstalls a different skill, the record an installation
    writes reads back as its metadata, and every failure to read a record
    (or a record that is the JSON \<open>null\<close>) returns \<open>null\<close> with no effect.
  \<^item> \<open>InstallerV0\<close>: the earlier revision of the installer (lines
    1--178), without the sanitizer.  On \<open>..\<close> it writes outside the
    skills directory and its uninstall removes the state directory, where
    the current revision refuses the name.
  \<^item> \<open>Tools\<close>: \<open>VibeIndexClient.search\<close> with the catalog as an oracle,
    \<open>vibeclaw_install\<close> (266--346) and \<open>vibeclaw_manage\<close> (411--459), their
    answers as a datatype; the gate runs before any installer call, and a
    hit without a repository is answered without installing.
  \<^item> \<open>ReadTools\<close>: the client's shared \<open>fetch\<close>, \<open>getInstallInfo\<close>
    and \<open>trending\<close>, \<open>formatResource\<close> (its text as a record of the data
    it shows), and the tools \<open>vibeclaw_search\<close> (213--261) and
    \<open>vibeclaw_trending\<close> (351--406).  Each makes one catalog request and
    changes no file; the limit is forwarded unclamped; results are
    numbered from 1 in the catalog's order; descriptions are cut at 120.
  \<^item> \<open>Plugin\<close>: \<open>register\<close> of both revisions of \<open>index.ts\<close> (406--589):
    the configuration, the tools and names handed to \<open>registerTool\<close>, the
    system-prompt context and its \<open>before_prompt_build\<close> hook.  The hook
    extends only a nonempty prompt, and then announces search-only mode
    and the allowed publishers when they are configured.
  \<^item> \<open>Host\<close>: the descriptors (name and parameter schema) of the two
    tools whose schema enumerates values.  The manage tool's schema lists
    exactly the actions it handles; the trending tool forwards any period
    as given and labels every period outside its schema as this week.
  \<^item> This theory: the states reachable from a fresh skills directory by
    calls of the four tools and by the user's own changes (\<open>reach\<close>),
    the invariant \<open>skills_inv\<close> proved by rule induction, and the
    properties that follow: records only exist for sanitized names, every
    listed skill can be uninstalled by its listed name, and from every
    reachable state the install tool can still install a skill whose
    directory is free (progress).

  \<^bold>\<open>Choices.\<close>  Strings are 8-bit character lists (the code only needs
  ASCII; UTF-16 surrogates of \<open>JSON.stringify\<close> are out of scope).  The
  timestamp, the environment, the network and the catalog are parameters.
  The probe and the listing walk finite lists and \<open>mkdir -p\<close> walks the
  path, all by structural recursion; \<open>indexOf\<close> is a \<open>function\<close> with
  a measure.  The only fuel is that of the JSON parser: every nested
  call consumes at least one character or one unit of fuel, so
  \<open>2 * length s + 1\<close> units always suffice and more never change the
  result (\<open>parse_fuel_enough\<close>); \<open>json_parse\<close> gives exactly that.
  A parsed JSON \<open>null\<close> is JavaScript's \<open>null\<close> (\<open>js_value\<close>).  Tool
  limits are natural numbers: negative or fractional JavaScript numbers
  are not represented.  Concurrency is not modelled: the spec makes
  each tool call run to completion before the next, which \<open>reach\<close>
  reflects.

  \<^bold>\<open>Not modelled.\<close>  The characters of the tools' text answers (each
  answer is the datatype of the data it shows), the request headers and
  the base URL of the client, the host's \<open>api\<close> object (\<open>registerTool\<close>, \<open>on\<close>,
  \<open>logger\<close>: \<open>register\<close> returns what it hands to them), the tool
  descriptions, and the tools of the current \<open>index.ts\<close>
  (\<open>createAuditTool\<close> and the configurable \<open>createInstallTool\<close>): their
  \<open>tools.ts\<close> is not in the repository, so whether search-only mode and
  the allowlist are enforced cannot be checked.  A \<open>\u\<close> escape above
  0xFF, which \<open>JSON.parse\<close> accepts, is rejected by the 8-bit model.
\<close>

section \<open>The skills directory over a session\<close>

text \<open>
  The states a skills directory \<open>ss\<close> reaches from a fresh one (a
  well-formed file system without install records under \<open>ss\<close>) through
  any sequence of calls of the install tool (any catalog, network, time
  and arguments), of the manage tool (any action and name), of the
  search and trending tools (which only ask the catalog), and of the
  user's own changes: creating directories, writing files and removing
  subtrees anywhere, except that the user never creates an entry named
  \<open>.vibeclaw.json\<close>.
\<close>

inductive reach :: "string \<Rightarrow> path \<Rightarrow> world \<Rightarrow> bool" for cwd ss where
  fresh: "fs_wf (w_fs w) \<Longrightarrow> tracked_skills (w_fs w) ss = [] \<Longrightarrow> reach cwd ss w"
| install_tool: "reach cwd ss w \<Longrightarrow> reach cwd ss (snd (install_tool_execute cwd (abs_of ss) net now api q force w))"
| manage_tool: "reach cwd ss w \<Longrightarrow> reach cwd ss (snd (manage_execute cwd (abs_of ss) a n w))"
| search_tool: "reach cwd ss w \<Longrightarrow> reach cwd ss (snd (search_execute api q t l w))"
| trending_tool: "reach cwd ss w \<Longrightarrow> reach cwd ss (snd (trending_execute tapi p t l w))"
| user_mkdir: "reach cwd ss w \<Longrightarrow> list_all clean_seg p \<Longrightarrow> ''.vibeclaw.json'' \<notin> set p \<Longrightarrow>
      fs_mkdir_p (w_fs w) p = Inr f \<Longrightarrow> reach cwd ss (w\<lparr>w_fs := f\<rparr>)"
| user_write: "reach cwd ss w \<Longrightarrow> list_all clean_seg p \<Longrightarrow> ''.vibeclaw.json'' \<notin> set p \<Longrightarrow>
      fs_write (w_fs w) p c = Inr f \<Longrightarrow> reach cwd ss (w\<lparr>w_fs := f\<rparr>)"
| user_rm: "reach cwd ss w \<Longrightarrow> fs_rm_rf (w_fs w) p = Inr f \<Longrightarrow> reach cwd ss (w\<lparr>w_fs := f\<rparr>)"

text \<open>
  The invariant: the file system is well formed and every record under
  \<open>ss\<close> belongs to a name the sanitizer keeps as it is.
\<close>

definition skills_inv :: "string \<Rightarrow> path \<Rightarrow> fs \<Rightarrow> bool" where
  "skills_inv cwd ss fs \<longleftrightarrow> fs_wf fs
     \<and> list_all (\<lambda>x. sanitizeSkillName cwd (abs_of ss) x = Some x) (tracked_skills fs ss)"

section \<open>The invariant holds in every reachable state\<close>

lemma skills_inv_records:
  "skills_inv cwd ss fs \<longleftrightarrow> fs_wf fs
     \<and> (\<forall>x. map_of fs (ss @ [x, ''.vibeclaw.json'']) \<noteq> None \<longrightarrow> sanitizeSkillName cwd (abs_of ss) x = Some x)"
  by (auto simp: skills_inv_def list_all_iff tracked_iff_record)

text \<open>A step that keeps the invariant when it only removes records or keeps them.\<close>

lemma skills_inv_fewer_records:
  assumes inv: "skills_inv cwd ss fs" and wf: "fs_wf fs'"
    and keep: "\<And>x. map_of fs' (ss @ [x, ''.vibeclaw.json'']) \<noteq> None \<Longrightarrow> map_of fs (ss @ [x, ''.vibeclaw.json'']) \<noteq> None"
  shows "skills_inv cwd ss fs'"
  using assms by (simp add: skills_inv_records)

lemma skills_inv_rm:
  assumes inv: "skills_inv cwd ss fs" and rm: "fs_rm_rf fs p = Inr f"
  shows "skills_inv cwd ss f"
proof (rule skills_inv_fewer_records [OF inv])
  show "fs_wf f" using fs_rm_rf_wf [OF rm] inv by (simp add: skills_inv_def)
next
  fix x
  assume "map_of f (ss @ [x, ''.vibeclaw.json'']) \<noteq> None"
  then show "map_of fs (ss @ [x, ''.vibeclaw.json'']) \<noteq> None"
    using fs_rm_rf_Inr [OF rm] by (auto split: if_splits)
qed

lemma skills_inv_install:
  assumes cp: "clean_path ss" and inv: "skills_inv cwd ss (w_fs w)"
  shows "skills_inv cwd ss (w_fs (snd (installSkillFromGitHub cwd (abs_of ss) net now owner repo n f w)))"
proof (cases "sanitizeSkillName cwd (abs_of ss) n")
  case None
  then show ?thesis using inv by (simp add: installSkillFromGitHub_def)
next
  case (Some s)
  let ?f' = "w_fs (snd (installSkillFromGitHub cwd (abs_of ss) net now owner repo n f w))"
  have wf: "fs_wf ?f'" using inv install_keeps_wf by (simp add: skills_inv_def)
  have c: "confined (ss @ [s]) (w_fs w) ?f'" by (rule install_stays_in_dir [OF cp Some])
  have "sanitizeSkillName cwd (abs_of ss) x = Some x" if r: "map_of ?f' (ss @ [x, ''.vibeclaw.json'']) \<noteq> None" for x
  proof (cases "x = s")
    case True
    then show ?thesis using sanitize_idem [OF Some] by simp
  next
    case False
    have "\<not> prefix (ss @ [x, ''.vibeclaw.json'']) (ss @ [s])" by (auto dest: prefix_length_le)
    with False c have "map_of ?f' (ss @ [x, ''.vibeclaw.json'']) = map_of (w_fs w) (ss @ [x, ''.vibeclaw.json''])"
      unfolding confined_iff by auto
    with r inv show ?thesis by (simp add: skills_inv_records)
  qed
  with wf show ?thesis by (simp add: skills_inv_records)
qed

lemma reach_inv:
  assumes cp: "clean_path ss"
  shows "reach cwd ss w \<Longrightarrow> skills_inv cwd ss (w_fs w)"
proof (induction rule: reach.induct)
  case (fresh w)
  then show ?case by (simp add: skills_inv_def)
next
  case (install_tool w net now api q force)
  then show ?case
    by (intro install_tool_keeps [where P = "skills_inv cwd ss"] skills_inv_install [OF cp])
next
  case (manage_tool w a n)
  then show ?case
    using manage_fs_cases [OF cp, of cwd a n w] skills_inv_rm by metis
next
  case (search_tool w)
  then show ?case by simp
next
  case (trending_tool w)
  then show ?case by simp
next
  case (user_mkdir w p f)
  have wf: "fs_wf f" using user_mkdir fs_mkdir_p_wf by (auto simp: skills_inv_def)
  have "skills_inv cwd ss f"
  proof (rule skills_inv_fewer_records [OF user_mkdir.IH wf])
    fix x
    assume r: "map_of f (ss @ [x, ''.vibeclaw.json'']) \<noteq> None"
    have "\<not> prefix (ss @ [x, ''.vibeclaw.json'']) p"
      using user_mkdir.hyps(3) by (auto simp: prefix_def)
    then show "map_of (w_fs w) (ss @ [x, ''.vibeclaw.json'']) \<noteq> None"
      using r fs_mkdir_p_lookup [OF user_mkdir.hyps(4), of "ss @ [x, ''.vibeclaw.json'']"] by simp
  qed
  then show ?case by simp
next
  case (user_write w p c f)
  have wf: "fs_wf f" using user_write fs_write_wf by (auto simp: skills_inv_def)
  have "skills_inv cwd ss f"
  proof (rule skills_inv_fewer_records [OF user_write.IH wf])
    fix x
    assume r: "map_of f (ss @ [x, ''.vibeclaw.json'']) \<noteq> None"
    have "ss @ [x, ''.vibeclaw.json''] \<noteq> p" using user_write.hyps(3) by auto
    then show "map_of (w_fs w) (ss @ [x, ''.vibeclaw.json'']) \<noteq> None"
      using r fs_write_Inr [OF user_write.hyps(4)] by (simp add: update_conv')
  qed
  then show ?case by simp
next
  case (user_rm w p f)
  then show ?case by (simp add: skills_inv_rm)
qed

section \<open>Properties of a session\<close>

text \<open>
  C9: in every reachable state, each name the registry tracks is kept as
  it is by the sanitizer: records are only ever written for sanitized
  names.
\<close>

theorem reach_tracked_sanitized:
  assumes cp: "clean_path ss" and r: "reach cwd ss w" and x: "x \<in> set (tracked_skills (w_fs w) ss)"
  shows "sanitizeSkillName cwd (abs_of ss) x = Some x"
  using reach_inv [OF cp r] x by (simp add: skills_inv_def list_all_iff)

text \<open>
  C8: in every reachable state, asking the manage tool to uninstall a name
  the list shows uninstalls exactly that skill: the answer is
  \<open>Uninstalled\<close>, its directory subtree is removed and nothing else, and
  the list loses exactly that name.  (The counterexample of
  \<open>Registry.uninstall_listed_name_removes_other\<close> needs a record the user
  made by hand.)
\<close>

theorem reach_listed_uninstall:
  assumes cp: "clean_path ss" and r: "reach cwd ss w" and x: "x \<in> set (tracked_skills (w_fs w) ss)"
  shows "manage_execute cwd (abs_of ss) ''uninstall'' (Some x) w =
           (Inr (Uninstalled x),
            w\<lparr>w_fs := filter (\<lambda>(k, v). \<not> prefix (ss @ [x]) k) (w_fs w),
              w_log := w_log w @ [Ev_access (ss @ [x, ''.vibeclaw.json'']), Ev_rm (ss @ [x])]\<rparr>)
         \<and> tracked_skills (filter (\<lambda>(k, v). \<not> prefix (ss @ [x]) k) (w_fs w)) ss
             = filter (\<lambda>y. y \<noteq> x) (tracked_skills (w_fs w) ss)"
proof -
  have inv: "skills_inv cwd ss (w_fs w)" by (rule reach_inv [OF cp r])
  then have wf: "fs_wf (w_fs w)" by (simp add: skills_inv_def)
  have san: "sanitizeSkillName cwd (abs_of ss) x = Some x"
    using inv x by (simp add: skills_inv_def list_all_iff)
  have rec: "map_of (w_fs w) (ss @ [x, ''.vibeclaw.json'']) \<noteq> None"
    using x tracked_iff_record [OF wf] by blast
  then obtain v where "map_of (w_fs w) ((ss @ [x]) @ [''.vibeclaw.json'']) = Some v" by auto
  then have "map_of (w_fs w) (ss @ [x]) = Some Dir" using fs_wf_parent [OF wf] by fastforce
  then have rm: "fs_rm_rf (w_fs w) (ss @ [x]) = Inr (filter (\<lambda>(k, v). \<not> prefix (ss @ [x]) k) (w_fs w))"
    by (simp add: fs_rm_rf_def)
  have ne: "truthy (Some x)" using sanitize_Some_clean [OF san] by (simp add: truthy_def clean_seg_def)
  show ?thesis
    using rec rm ne tracked_skills_rm
    by (simp add: manage_execute_def uninstall_eq [OF cp san] Let_def logged_def)
qed

text \<open>
  C10: from every reachable state the install tool can make progress:
  when the catalog's first hit has a repository, passes the gate, has a
  name the sanitizer accepts and a descriptor the prober finds, and no
  file stands in the way of its directory, a forced install reaches a
  state where the skill is tracked.
\<close>

theorem reach_install_progress:
  assumes cp: "clean_path ss" and r: "reach cwd ss w"
    and san: "sanitizeSkillName cwd (abs_of ss) (name skill) = Some s"
    and api: "api ''/search'' (query_params (search_params q (Some ''skill'') (Some 1) None)) = Api_ok (sr :: VibeSearchResult)"
    and ok: "sr_success sr" and first: "sr_data sr = skill # others"
    and own: "github_owner skill = Some owner" "owner \<noteq> []"
    and rep: "github_repo skill = Some repo" "repo \<noteq> []"
    and gate: "checkSecurity skill = None"
    and dl: "fst (downloadSkillMd net owner repo (name skill)) \<noteq> None"
    and nofile: "\<forall>p c'. prefix p (ss @ [s]) \<and> p \<noteq> [] \<longrightarrow> map_of (w_fs w) p \<noteq> Some (File c')"
    and nd1: "map_of (w_fs w) (ss @ [s, ''SKILL.md'']) \<noteq> Some Dir"
    and nd2: "map_of (w_fs w) (ss @ [s, ''.vibeclaw.json'']) \<noteq> Some Dir"
  shows "\<exists>w'. reach cwd ss w' \<and> s \<in> set (tracked_skills (w_fs w') ss)"
proof -
  let ?E = "Ev_api ''/search'' (query_params (search_params q (Some ''skill'') (Some 1) None))"
  let ?W = "snd (install_tool_execute cwd (abs_of ss) net now api q (Some True) w)"
  obtain c u t where d: "downloadSkillMd net owner repo (name skill) = (Some (c, u), t)"
    using dl by (cases "downloadSkillMd net owner repo (name skill)") auto
  have r': "reach cwd ss ?W" by (rule reach.install_tool [OF r])
  have wf: "fs_wf (w_fs ?W)" using reach_inv [OF cp r'] by (simp add: skills_inv_def)
  have e: "w_fs ?W = w_fs (snd (installSkillFromGitHub cwd (abs_of ss) net now owner repo (name skill) True (logged ?E w)))"
    using install_tool_eq [where api = api and query = q and sr = sr and skill = skill and others = others
        and owner = owner and repo = repo and cwd = cwd and sd = "abs_of ss" and net = net and now = now
        and force = "Some True" and w = w, OF api ok first own rep] gate
    by (simp add: Let_def)
  have "map_of (w_fs ?W) (ss @ [s, ''.vibeclaw.json'']) \<noteq> None"
    unfolding e using install_record_written [OF cp san d, where w = "logged ?E w" and now = now] nofile nd1 nd2
    by simp
  then show ?thesis using r' tracked_iff_record [OF wf] by auto
qed

section \<open>Witnesses\<close>

lemma fs_wf_w_skills: "fs_wf (w_fs w_skills)"
  by (simp add: fs_wf_def w_skills_def clean_seg_def)

lemma reach_w_skills: "reach ''/w'' [''w'', ''skills''] w_skills"
  by (rule reach.fresh [OF fs_wf_w_skills]) (simp add: tracked_skills_def w_skills_def)

text \<open>A session: the install tool installs \<open>n\<close> into the fresh directory.\<close>

lemma session_installs_n:
  "reach ''/w'' [''w'', ''skills'']
     (snd (install_tool_execute ''/w'' (abs_of [''w'', ''skills'']) net_fourth ''t'' (single_hit n_resource) ''n'' None w_skills))
   \<and> ''n'' \<in> set (tracked_skills (w_fs (snd (install_tool_execute ''/w'' (abs_of [''w'', ''skills'']) net_fourth ''t''
                 (single_hit n_resource) ''n'' None w_skills))) [''w'', ''skills''])"
proof -
  let ?W = "snd (install_tool_execute ''/w'' (abs_of [''w'', ''skills'']) net_fourth ''t'' (single_hit n_resource) ''n'' None w_skills)"
  have r: "reach ''/w'' [''w'', ''skills''] ?W"
    by (rule reach.install_tool [OF reach_w_skills])
  have wf: "fs_wf (w_fs ?W)" using reach_inv [OF clean_path_w_skills r] by (simp add: skills_inv_def)
  have "map_of (w_fs ?W) ([''w'', ''skills''] @ [''n'', ''.vibeclaw.json'']) \<noteq> None"
    by (rule install_tool_n_record)
  then show ?thesis using r tracked_iff_record [OF wf] by blast
qed

theorem reach_tracked_sanitized_witness:
  "sanitizeSkillName ''/w'' (abs_of [''w'', ''skills'']) ''n'' = Some ''n''"
  using session_installs_n reach_tracked_sanitized [OF clean_path_w_skills] by blast

theorem reach_listed_uninstall_witness:
  "fst (manage_execute ''/w'' (abs_of [''w'', ''skills'']) ''uninstall'' (Some ''n'')
     (snd (install_tool_execute ''/w'' (abs_of [''w'', ''skills'']) net_fourth ''t'' (single_hit n_resource) ''n'' None w_skills)))
   = Inr (Uninstalled ''n'')"
  using session_installs_n reach_listed_uninstall [OF clean_path_w_skills] by simp

theorem reach_install_progress_witness:
  "\<exists>w'. reach ''/w'' [''w'', ''skills''] w' \<and> ''n'' \<in> set (tracked_skills (w_fs w') [''w'', ''skills''])"
proof -
  have d: "fst (downloadSkillMd net_fourth ''o'' ''r'' (name n_resource)) \<noteq> None"
    by (simp add: n_resource_def example_resource_def downloadSkillMd_net_fourth)
  have g: "checkSecurity n_resource = None"
    by (simp add: n_resource_def example_resource_def checkSecurity_def score_block_def score_threshold_def)
  show ?thesis
    using reach_install_progress [OF clean_path_w_skills reach_w_skills, where skill = n_resource and s = "''n''"
        and api = "single_hit n_resource" and q = "''n''" and others = "[]" and owner = "''o''" and repo = "''r''"
        and sr = "\<lparr>sr_success = True, sr_data = [n_resource], sr_total = None\<rparr>" and net = net_fourth] g d
    by (simp add: n_resource_def example_resource_def single_hit_def sanitize_n w_skills_def prefix_Cons)
qed

end
